theory Spec2Isabelle
  imports Complex_Main "HOL-Library.Word" "HOL-Library.Sublist"
begin

section \<open>The BLDC servo controller of moteus/bldc_servo.cc\<close>

text \<open>
  A shallow embedding of \<^verbatim>\<open>BldcServo::Impl\<close>: the 40 kHz interrupt routine
  (\<^verbatim>\<open>ISR_DoTimer\<close> and everything it calls), the foreground entry points
  \<^verbatim>\<open>Command\<close> and \<^verbatim>\<open>PollMillisecond\<close>, and the helper \<^verbatim>\<open>Limit\<close>.

  Conventions of the embedding.
  \<^item> The C++ type \<^verbatim>\<open>float\<close> is idealised as \<open>real\<close>: every value is a finite number and
    arithmetic is exact. NaN, the infinities and rounding are not represented. The one
    division of the control path, by \<^verbatim>\<open>status_.bus_V\<close>, is by zero when the bus
    reads 0 V; there the source produces a non-finite value and HOL's \<open>x / 0 = 0\<close> says
    nothing about it, so statements about that division carry \<open>bus_V \<noteq> 0\<close>.
  \<^item> \<^verbatim>\<open>uint16_t\<close> and \<^verbatim>\<open>uint32_t\<close> are \<open>16 word\<close> and \<open>32 word\<close>;
    \<^verbatim>\<open>int16_t\<close> and \<^verbatim>\<open>int32_t\<close> are the same words read with \<open>sint\<close>.
  \<^item> A failing \<^verbatim>\<open>MJ_ASSERT\<close>, and a float-to-integer conversion whose value does not
    fit, end the run: the function returns \<open>None\<close>.
  \<^item> Members are named as in the source without the trailing underscore. Fields of
    \<^verbatim>\<open>CommandData\<close> carry the prefix \<open>c_\<close> and those of \<^verbatim>\<open>Control\<close> the prefix
    \<open>ctl_\<close>, because they share names with fields of \<^verbatim>\<open>Status\<close>.
  \<^item> Hardware reads are inputs of a cycle (\<open>Inputs\<close>); hardware writes and the calls of the
    motor driver are recorded, in order, in the field \<open>trace\<close>, and the three compare
    registers are fields of the state.
  \<^item> The timer interrupt has priority 0 and nothing in the sources masks it, so it can
    run between any two statements of the foreground. \<^verbatim>\<open>Command\<close> publishes its buffer by
    one pointer store and is one step. \<^verbatim>\<open>PollMillisecond\<close> loads \<^verbatim>\<open>status_.mode\<close>,
    calls \<^verbatim>\<open>Enable(true)\<close> and stores \<^verbatim>\<open>status_.mode\<close>; these are three steps of the
    machine \<open>prun\<close>, with interrupts allowed in between. The machine \<open>run\<close> has the
    whole call as one step: it is the special case in which no interrupt arrives
    between the load and the store.
\<close>

type_synonym float = real
type_synonym u16 = "16 word"
type_synonym u32 = "32 word"

subsection \<open>Data model\<close>

text \<open>The enumerations \<^verbatim>\<open>BldcServo::Mode\<close> and \<^verbatim>\<open>errc\<close>; their headers are not part
  of the sources, the enumerators are the ones the code names.\<close>

datatype Mode =
    kStopped | kFault | kEnabling | kCalibrating | kCalibrationComplete
  | kPwm | kVoltage | kVoltageFoc | kCurrent | kPosition | kNumModes

datatype errc =
  kSuccess | kMotorDriverFault | kOverVoltage | kEncoderFault | kCalibrationFault

datatype Vec3 = Vec3 (vec_a: float) (vec_b: float) (vec_c: float)

text \<open>\<^verbatim>\<open>Config\<close>: the fields the interrupt reads. The PID gain sets are part of the PID
  collaborator below. \<^verbatim>\<open>motor_poles\<close> is an integer of the header's choosing; only its
  value enters the computation.\<close>

record Config =
  motor_poles :: int
  motor_offset :: float
  motor_resistance :: float
  motor_v_per_hz :: float
  i_scale_A :: float
  v_scale_V :: float
  unwrapped_position_scale :: float
  max_voltage :: float
  feedforward_scale :: float

text \<open>\<^verbatim>\<open>Status\<close>; \<open>'p\<close> is the telemetry state of one PID controller.\<close>

record 'p Status =
  mode :: Mode
  fault :: errc
  adc1_raw :: u16
  adc2_raw :: u16
  adc3_raw :: u16
  adc1_offset :: u16
  adc2_offset :: u16
  cur1_A :: float
  cur2_A :: float
  bus_V :: float
  d_A :: float
  q_A :: float
  position_raw :: u16
  unwrapped_position_raw :: u32
  unwrapped_position :: float
  electrical_theta :: float
  velocity :: float
  pid_d :: 'p
  pid_q :: 'p
  pid_position :: 'p

record Control =
  ctl_pwm :: Vec3
  ctl_voltage :: Vec3
  ctl_i_d_A :: float
  ctl_i_q_A :: float
  ctl_d_V :: float
  ctl_q_V :: float

record CommandData =
  c_mode :: Mode
  c_pwm :: Vec3
  c_phase_v :: Vec3
  c_theta :: float
  c_voltage :: float
  c_i_d_A :: float
  c_i_q_A :: float
  c_position :: float
  c_velocity :: float
  c_max_current :: float
  c_set_position :: "float option"

text \<open>What the interrupt does to the outside: calls of \<^verbatim>\<open>MotorDriver::Enable\<close> and
  \<^verbatim>\<open>MotorDriver::Power\<close>, and stores to the compare register behind \<^verbatim>\<open>pwm1_ccr_\<close>,
  \<^verbatim>\<open>pwm2_ccr_\<close> or \<^verbatim>\<open>pwm3_ccr_\<close>.\<close>

datatype event = Enable bool | Power bool | WriteCcr nat u32

text \<open>The members of \<^verbatim>\<open>Impl\<close>; \<open>'f\<close> is the state of the velocity filter.\<close>

record ('p, 'f) Impl =
  config :: Config
  status :: "'p Status"
  control :: Control
  current_data :: CommandData
  next_data :: CommandData
  telemetry_data :: CommandData
  velocity_filter :: 'f
  calibrate_adc1 :: u32
  calibrate_adc2 :: u32
  calibrate_count :: u16
  pwm1_ccr :: u32
  pwm2_ccr :: u32
  pwm3_ccr :: u32
  trace :: "event list"

text \<open>What one interrupt reads from the hardware: the oversampled means stored into
  \<^verbatim>\<open>adc1_raw\<close>, \<^verbatim>\<open>adc2_raw\<close>, \<^verbatim>\<open>adc3_raw\<close> (the conversion loop polls the ADC and
  is not modelled further), the result of \<^verbatim>\<open>position_sensor_->Sample()\<close>, and what
  \<^verbatim>\<open>motor_driver_->fault()\<close> would return.\<close>

record Inputs =
  in_adc1 :: u16
  in_adc2 :: u16
  in_adc3 :: u16
  in_position :: u16
  in_driver_fault :: bool

text \<open>Code of the repository that the interrupt calls and that is not among the sources
  (\<^verbatim>\<open>moteus/foc.h\<close>, \<^verbatim>\<open>mjlib/base/pid.h\<close>, \<^verbatim>\<open>mjlib/base/windowed_average.h\<close>) is a
  parameter of the model. \<^verbatim>\<open>SinCos\<close> is a function of the angle alone, so the transforms
  take the angle. \<open>pid_dq_Apply\<close> is \<^verbatim>\<open>PID::Apply\<close> with the gains \<^verbatim>\<open>config_.pid_dq\<close>,
  \<open>pid_position_Apply\<close> the same with \<^verbatim>\<open>config_.pid_position\<close>; both return the command
  and the new telemetry state. \<open>pid_zero\<close> is the value-initialised state \<^verbatim>\<open>{}\<close>.\<close>

record ('p, 'f) Collab =
  DqTransform :: "float \<Rightarrow> float \<Rightarrow> float \<Rightarrow> float \<Rightarrow> float \<times> float"
  InverseDqTransform :: "float \<Rightarrow> float \<Rightarrow> float \<Rightarrow> Vec3"
  pid_zero :: 'p
  pid_dq_Apply :: "'p \<Rightarrow> float \<Rightarrow> float \<Rightarrow> float \<Rightarrow> float \<Rightarrow> float \<Rightarrow> float \<times> 'p"
  pid_position_Apply :: "'p \<Rightarrow> float \<Rightarrow> float \<Rightarrow> float \<Rightarrow> float \<Rightarrow> float \<Rightarrow> float \<times> 'p"
  filter_Add :: "'f \<Rightarrow> float \<Rightarrow> 'f"
  filter_average :: "'f \<Rightarrow> float"

subsection \<open>Constants and arithmetic helpers\<close>

definition kRateHz :: float where
  "kRateHz = 40000"

definition kCalibrateCount :: int where
  "kCalibrateCount = 256"

definition kMaxPositionDelta :: int where
  "kMaxPositionDelta = 1000"

definition kPwmCounts :: nat where
  "kPwmCounts = 90000000 div 80000"

text \<open>Modelled from the spec: \<^verbatim>\<open>k2Pi\<close> of \<^verbatim>\<open>moteus/math.h\<close>, which is not among the
  sources; the spec writes it \<open>2\<pi>\<close>.\<close>

definition k2Pi :: float where
  "k2Pi = 2 * pi"

text \<open>Conversion of a float to an integer type truncates towards zero.\<close>

definition trunc0 :: "float \<Rightarrow> int" where
  "trunc0 x = (if 0 \<le> x then \<lfloor>x\<rfloor> else \<lceil>x\<rceil>)"

text \<open>\<^verbatim>\<open>::fmodf\<close> of the C library: the remainder of the division truncated towards
  zero, so the result has the sign of \<open>x\<close>. It is exact in IEEE arithmetic.\<close>

definition fmodf :: "float \<Rightarrow> float \<Rightarrow> float" where
  "fmodf x y = x - y * of_int (trunc0 (x / y))"

text \<open>\<^verbatim>\<open>static_cast<uint16_t>\<close> and \<^verbatim>\<open>static_cast<int32_t>\<close> of a float: defined only
  when the truncated value fits.\<close>

definition float_to_u16 :: "float \<Rightarrow> u16 option" where
  "float_to_u16 x =
     (if 0 \<le> trunc0 x \<and> trunc0 x < 65536 then Some (word_of_int (trunc0 x)) else None)"

definition float_to_i32 :: "float \<Rightarrow> u32 option" where
  "float_to_i32 x =
     (if - 2147483648 \<le> trunc0 x \<and> trunc0 x < 2147483648
      then Some (word_of_int (trunc0 x)) else None)"

definition Limit :: "float \<Rightarrow> float \<Rightarrow> float \<Rightarrow> float" where
  "Limit x lo hi = (if x < lo then lo else if x > hi then hi else x)"

definition LimitPwm :: "float \<Rightarrow> float" where
  "LimitPwm x = Limit x 0.1 0.9"

subsection \<open>Foreground entry points\<close>

text \<open>\<^verbatim>\<open>Command\<close>: four assertions on the requested mode, then the command is written
  into the buffer the foreground owns and the two buffers are exchanged.\<close>

definition Command :: "CommandData \<Rightarrow> ('p, 'f) Impl \<Rightarrow> ('p, 'f) Impl option" where
  "Command data s =
     (if c_mode data = kFault \<or> c_mode data = kEnabling \<or> c_mode data = kCalibrating
         \<or> c_mode data = kCalibrationComplete
      then None
      else Some (s\<lparr>current_data := data, next_data := current_data s,
                   telemetry_data := data\<rparr>))"

definition PollMillisecond :: "('p, 'f) Impl \<Rightarrow> ('p, 'f) Impl" where
  "PollMillisecond s =
     (if mode (status s) = kEnabling
      then s\<lparr>trace := trace s @ [Enable True],
             status := (status s)\<lparr>mode := kCalibrating\<rparr>\<rparr>
      else s)"

subsection \<open>Sensing\<close>

text \<open>\<^verbatim>\<open>ISR_DoSense\<close>, from the point where the three ADC means are stored. The position
  difference is computed on 16 bits and read as signed, \<^verbatim>\<open>std::abs\<close> is taken of the
  promoted \<^verbatim>\<open>int\<close>; the sum into \<^verbatim>\<open>unwrapped_position_raw\<close> wraps on 32 bits, as it does
  on the target. \<^verbatim>\<open>ISR_CalculateCurrentState\<close> subtracts the offsets as \<^verbatim>\<open>int\<close>.\<close>

definition ISR_DoSense :: "('p, 'f) Collab \<Rightarrow> Inputs \<Rightarrow> ('p, 'f) Impl \<Rightarrow> ('p, 'f) Impl" where
  "ISR_DoSense C i s =
     (let cfg = config s;
          st1 = (status s)\<lparr>adc1_raw := in_adc1 i, adc2_raw := in_adc2 i, adc3_raw := in_adc3 i\<rparr>;
          old_position_raw = position_raw st1;
          st2 = st1\<lparr>position_raw := in_position i\<rparr>;
          st3 = st2\<lparr>electrical_theta :=
                  k2Pi * fmodf
                    (real (unat (position_raw st2)) / 65536 * (real_of_int (motor_poles cfg) / 2)
                       - motor_offset cfg) 1\<rparr>;
          delta_position = position_raw st3 - old_position_raw;
          st4 = (if mode st3 \<noteq> kStopped \<and> \<bar>sint delta_position\<bar> > kMaxPositionDelta
                 then st3\<lparr>mode := kFault, fault := kEncoderFault\<rparr>
                 else st3);
          st5 = st4\<lparr>unwrapped_position_raw :=
                  unwrapped_position_raw st4 + word_of_int (sint delta_position)\<rparr>;
          vf = filter_Add C (velocity_filter s)
                 (real_of_int (sint delta_position) * unwrapped_position_scale cfg
                    * (1 / 65536) * kRateHz);
          st6 = st5\<lparr>velocity := filter_average C vf\<rparr>;
          st7 = st6\<lparr>unwrapped_position :=
                  real_of_int (sint (unwrapped_position_raw st6)) * unwrapped_position_scale cfg
                    * (1 / 65536)\<rparr>
      in s\<lparr>status := st7, velocity_filter := vf\<rparr>)"

definition ISR_CalculateCurrentState :: "('p, 'f) Collab \<Rightarrow> ('p, 'f) Impl \<Rightarrow> ('p, 'f) Impl" where
  "ISR_CalculateCurrentState C s =
     (let cfg = config s;
          st0 = status s;
          st1 = st0\<lparr>cur1_A := real_of_int (uint (adc1_raw st0) - uint (adc1_offset st0)) * i_scale_A cfg\<rparr>;
          st2 = st1\<lparr>cur2_A := real_of_int (uint (adc2_raw st1) - uint (adc2_offset st1)) * i_scale_A cfg\<rparr>;
          st3 = st2\<lparr>bus_V := real (unat (adc3_raw st2)) * v_scale_V cfg\<rparr>;
          dq = DqTransform C (electrical_theta st3)
                 (cur1_A st3) (0 - (cur1_A st3 + cur2_A st3)) (cur2_A st3)
      in s\<lparr>status := st3\<lparr>d_A := fst dq, q_A := snd dq\<rparr>\<rparr>)"

subsection \<open>The mode state machine\<close>

definition ISR_StartCalibrating :: "('p, 'f) Impl \<Rightarrow> ('p, 'f) Impl" where
  "ISR_StartCalibrating s =
     s\<lparr>status := (status s)\<lparr>mode := kEnabling\<rparr>,
       pwm1_ccr := 0, pwm2_ccr := 0, pwm3_ccr := 0,
       trace := trace s @ [WriteCcr 1 0, WriteCcr 2 0, WriteCcr 3 0, Power False],
       calibrate_adc1 := 0, calibrate_adc2 := 0, calibrate_count := 0\<rparr>"

text \<open>\<^verbatim>\<open>ISR_MaybeChangeMode\<close> reads only \<^verbatim>\<open>data->mode\<close>, which is its first argument
  here. The branches with \<^verbatim>\<open>MJ_ASSERT(false)\<close> return \<open>None\<close>.\<close>

fun ISR_MaybeChangeMode :: "Mode \<Rightarrow> ('p, 'f) Impl \<Rightarrow> ('p, 'f) Impl option" where
  "ISR_MaybeChangeMode kNumModes s = None"
| "ISR_MaybeChangeMode kFault s = None"
| "ISR_MaybeChangeMode kCalibrating s = None"
| "ISR_MaybeChangeMode kCalibrationComplete s = None"
| "ISR_MaybeChangeMode kStopped s = Some (s\<lparr>status := (status s)\<lparr>mode := kStopped\<rparr>\<rparr>)"
| "ISR_MaybeChangeMode kEnabling s = Some s"
| "ISR_MaybeChangeMode m s =
     (case mode (status s) of
        kNumModes \<Rightarrow> None
      | kFault \<Rightarrow> Some s
      | kStopped \<Rightarrow> Some (ISR_StartCalibrating s)
      | kEnabling \<Rightarrow> Some s
      | kCalibrating \<Rightarrow> Some s
      | _ \<Rightarrow> Some (s\<lparr>status := (status s)\<lparr>mode := m\<rparr>\<rparr>))"

definition current_pid_active :: "Mode \<Rightarrow> bool" where
  "current_pid_active m = (m = kCurrent \<or> m = kPosition)"

definition position_pid_active :: "Mode \<Rightarrow> bool" where
  "position_pid_active m = (m = kPosition)"

definition ISR_ClearPid :: "('p, 'f) Collab \<Rightarrow> ('p, 'f) Impl \<Rightarrow> ('p, 'f) Impl" where
  "ISR_ClearPid C s =
     (let s1 = (if \<not> current_pid_active (mode (status s))
                then s\<lparr>status := (status s)\<lparr>pid_d := pid_zero C, pid_q := pid_zero C\<rparr>\<rparr>
                else s)
      in if \<not> position_pid_active (mode (status s1))
         then s1\<lparr>status := (status s1)\<lparr>pid_position := pid_zero C\<rparr>\<rparr>
         else s1)"

subsection \<open>Per-mode actuation\<close>

definition ISR_DoStopped :: "('p, 'f) Impl \<Rightarrow> ('p, 'f) Impl" where
  "ISR_DoStopped s =
     s\<lparr>trace := trace s @ [Enable False, Power False, WriteCcr 1 0, WriteCcr 2 0, WriteCcr 3 0],
       pwm1_ccr := 0, pwm2_ccr := 0, pwm3_ccr := 0\<rparr>"

definition ISR_DoFault :: "('p, 'f) Impl \<Rightarrow> ('p, 'f) Impl" where
  "ISR_DoFault s =
     s\<lparr>trace := trace s @ [Power False, WriteCcr 1 0, WriteCcr 2 0, WriteCcr 3 0],
       pwm1_ccr := 0, pwm2_ccr := 0, pwm3_ccr := 0\<rparr>"

text \<open>\<^verbatim>\<open>ISR_DoCalibrating\<close>: the divisor \<^verbatim>\<open>kCalibrateCount\<close> of the two means is written
  256; the division is unsigned on 32 bits and the quotient is narrowed to
  \<^verbatim>\<open>uint16_t\<close>.\<close>

definition ISR_DoCalibrating :: "('p, 'f) Impl \<Rightarrow> ('p, 'f) Impl" where
  "ISR_DoCalibrating s =
     (let s1 = s\<lparr>calibrate_adc1 := calibrate_adc1 s + ucast (adc1_raw (status s)),
                  calibrate_adc2 := calibrate_adc2 s + ucast (adc2_raw (status s)),
                  calibrate_count := calibrate_count s + 1\<rparr>
      in if uint (calibrate_count s1) < kCalibrateCount then s1
         else
           (let new_adc1_offset = (ucast (calibrate_adc1 s1 div 256) :: u16);
                new_adc2_offset = (ucast (calibrate_adc2 s1 div 256) :: u16)
            in if \<bar>uint new_adc1_offset - 2048\<bar> > 200 \<or> \<bar>uint new_adc2_offset - 2048\<bar> > 200
               then s1\<lparr>status := (status s1)\<lparr>mode := kFault, fault := kCalibrationFault\<rparr>\<rparr>
               else s1\<lparr>status := (status s1)\<lparr>adc1_offset := new_adc1_offset,
                                                adc2_offset := new_adc2_offset,
                                                mode := kCalibrationComplete\<rparr>\<rparr>))"

text \<open>\<^verbatim>\<open>ISR_DoPwmControl\<close>: the clamped duties go to \<^verbatim>\<open>control_.pwm\<close>; the compare
  registers receive \<^verbatim>\<open>static_cast<uint16_t>(duty * kPwmCounts)\<close>, with \<open>b\<close> on the third
  and \<open>c\<close> on the second register, in the order of the source.\<close>

definition ISR_DoPwmControl :: "Vec3 \<Rightarrow> ('p, 'f) Impl \<Rightarrow> ('p, 'f) Impl option" where
  "ISR_DoPwmControl pwm s =
     (let p = Vec3 (LimitPwm (vec_a pwm)) (LimitPwm (vec_b pwm)) (LimitPwm (vec_c pwm));
          s1 = s\<lparr>control := (control s)\<lparr>ctl_pwm := p\<rparr>\<rparr>
      in case (float_to_u16 (vec_a p * real kPwmCounts),
               float_to_u16 (vec_b p * real kPwmCounts),
               float_to_u16 (vec_c p * real kPwmCounts)) of
           (Some w1, Some w3, Some w2) \<Rightarrow>
             Some (s1\<lparr>pwm1_ccr := ucast w1, pwm3_ccr := ucast w3, pwm2_ccr := ucast w2,
                      trace := trace s1 @ [WriteCcr 1 (ucast w1), WriteCcr 3 (ucast w3),
                                       WriteCcr 2 (ucast w2), Power True]\<rparr>)
         | _ \<Rightarrow> None)"

text \<open>The lambda \<^verbatim>\<open>voltage_to_pwm\<close> of \<^verbatim>\<open>ISR_DoVoltageControl\<close>. The division is the
  one of the reals. When \<^verbatim>\<open>status_.bus_V\<close> is 0 the source divides a float by zero: the
  quotient is an infinity, which \<^verbatim>\<open>Limit\<close> clamps, or, for a zero voltage, a NaN, which
  \<^verbatim>\<open>Limit\<close> returns as it is and whose conversion to \<^verbatim>\<open>uint16_t\<close> is undefined. The value
  0.5 that this definition has there is not the source's; a statement about the duties
  or the stored values of a cycle that passes here assumes \<open>bus_V \<noteq> 0\<close>.\<close>

definition voltage_to_pwm :: "('p, 'f) Impl \<Rightarrow> float \<Rightarrow> float" where
  "voltage_to_pwm s v = 0.5 + 2 * v / bus_V (status s)"

definition ISR_DoVoltageControl :: "Vec3 \<Rightarrow> ('p, 'f) Impl \<Rightarrow> ('p, 'f) Impl option" where
  "ISR_DoVoltageControl voltage s =
     (let s1 = s\<lparr>control := (control s)\<lparr>ctl_voltage := voltage\<rparr>\<rparr>
      in ISR_DoPwmControl
           (Vec3 (voltage_to_pwm s1 (vec_a voltage))
                 (voltage_to_pwm s1 (vec_b voltage))
                 (voltage_to_pwm s1 (vec_c voltage))) s1)"

definition ISR_DoVoltageFOC ::
  "('p, 'f) Collab \<Rightarrow> float \<Rightarrow> float \<Rightarrow> ('p, 'f) Impl \<Rightarrow> ('p, 'f) Impl option" where
  "ISR_DoVoltageFOC C theta voltage s =
     ISR_DoVoltageControl (InverseDqTransform C theta 0 voltage) s"

definition ISR_DoCurrent ::
  "('p, 'f) Collab \<Rightarrow> float \<Rightarrow> float \<Rightarrow> float \<Rightarrow> ('p, 'f) Impl \<Rightarrow> ('p, 'f) Impl option" where
  "ISR_DoCurrent C sin_cos i_d i_q s =
     (let cfg = config s;
          s1 = s\<lparr>control := (control s)\<lparr>ctl_i_d_A := i_d, ctl_i_q_A := i_q\<rparr>\<rparr>;
          rd = pid_dq_Apply C (pid_d (status s1)) (d_A (status s1)) i_d 0 0 kRateHz;
          s2 = s1\<lparr>status := (status s1)\<lparr>pid_d := snd rd\<rparr>\<rparr>;
          s3 = s2\<lparr>control := (control s2)\<lparr>ctl_d_V :=
                  feedforward_scale cfg
                    * (i_d * motor_resistance cfg - velocity (status s2) * motor_v_per_hz cfg)
                  + fst rd\<rparr>\<rparr>;
          rq = pid_dq_Apply C (pid_q (status s3)) (q_A (status s3)) i_q 0 0 kRateHz;
          s4 = s3\<lparr>status := (status s3)\<lparr>pid_q := snd rq\<rparr>\<rparr>;
          s5 = s4\<lparr>control := (control s4)\<lparr>ctl_q_V :=
                  feedforward_scale cfg * i_q * motor_resistance cfg + fst rq\<rparr>\<rparr>
      in ISR_DoVoltageControl
           (InverseDqTransform C sin_cos (ctl_d_V (control s5)) (ctl_q_V (control s5))) s5)"

definition ISR_DoPosition ::
  "('p, 'f) Collab \<Rightarrow> float \<Rightarrow> float \<Rightarrow> float \<Rightarrow> float \<Rightarrow> ('p, 'f) Impl
     \<Rightarrow> ('p, 'f) Impl option" where
  "ISR_DoPosition C sin_cos position velocity_cmd max_current s =
     (let measured_velocity = velocity (status s);
          r = pid_position_Apply C (pid_position (status s)) (unwrapped_position (status s))
                position measured_velocity velocity_cmd kRateHz;
          s1 = s\<lparr>status := (status s)\<lparr>pid_position := snd r\<rparr>\<rparr>;
          d = Limit (fst r) (- max_current) max_current
      in if \<bar>d\<bar> \<le> max_current then ISR_DoCurrent C sin_cos d 0 s1 else None)"

subsection \<open>The control step and the interrupt\<close>

text \<open>The \<^verbatim>\<open>switch\<close> at the end of \<^verbatim>\<open>ISR_DoControl\<close>.\<close>

definition dispatch ::
  "('p, 'f) Collab \<Rightarrow> float \<Rightarrow> CommandData \<Rightarrow> ('p, 'f) Impl \<Rightarrow> ('p, 'f) Impl option" where
  "dispatch C sin_cos data s =
     (case mode (status s) of
        kNumModes \<Rightarrow> Some (ISR_DoStopped s)
      | kStopped \<Rightarrow> Some (ISR_DoStopped s)
      | kFault \<Rightarrow> Some (ISR_DoFault s)
      | kEnabling \<Rightarrow> Some s
      | kCalibrating \<Rightarrow> Some (ISR_DoCalibrating s)
      | kCalibrationComplete \<Rightarrow> Some s
      | kPwm \<Rightarrow> ISR_DoPwmControl (c_pwm data) s
      | kVoltage \<Rightarrow> ISR_DoVoltageControl (c_phase_v data) s
      | kVoltageFoc \<Rightarrow> ISR_DoVoltageFOC C (c_theta data) (c_voltage data) s
      | kCurrent \<Rightarrow> ISR_DoCurrent C sin_cos (c_i_d_A data) (c_i_q_A data) s
      | kPosition \<Rightarrow>
          ISR_DoPosition C sin_cos (c_position data) (c_velocity data) (c_max_current data) s)"

text \<open>The part of \<^verbatim>\<open>ISR_DoControl\<close> after the mode reconciliation: clear the unused
  PID state, reset \<^verbatim>\<open>fault\<close> outside of \<^verbatim>\<open>kFault\<close>, dispatch.\<close>

definition control_tail ::
  "('p, 'f) Collab \<Rightarrow> float \<Rightarrow> CommandData \<Rightarrow> ('p, 'f) Impl \<Rightarrow> ('p, 'f) Impl option" where
  "control_tail C sin_cos data s =
     (let s1 = ISR_ClearPid C s;
          s2 = (if mode (status s1) \<noteq> kFault
                then s1\<lparr>status := (status s1)\<lparr>fault := kSuccess\<rparr>\<rparr> else s1)
      in dispatch C sin_cos data s2)"

text \<open>\<^verbatim>\<open>control_ = {}\<close>.\<close>

definition Control_zero :: Control where
  "Control_zero =
     \<lparr>ctl_pwm = Vec3 0 0 0, ctl_voltage = Vec3 0 0 0, ctl_i_d_A = 0, ctl_i_q_A = 0,
      ctl_d_V = 0, ctl_q_V = 0\<rparr>"

definition ISR_DoControl ::
  "('p, 'f) Collab \<Rightarrow> Inputs \<Rightarrow> float \<Rightarrow> ('p, 'f) Impl \<Rightarrow> ('p, 'f) Impl option" where
  "ISR_DoControl C i sin_cos s =
     (let s1 = s\<lparr>control := Control_zero\<rparr>;
          r = (case c_set_position (current_data s1) of
                 None \<Rightarrow> Some s1
               | Some p \<Rightarrow>
                   (case float_to_i32 (p * 65536) of
                      None \<Rightarrow> None
                    | Some w \<Rightarrow>
                        Some (s1\<lparr>status := (status s1)\<lparr>unwrapped_position_raw := w\<rparr>,
                                 current_data := (current_data s1)\<lparr>c_set_position := None\<rparr>\<rparr>)))
      in case r of
           None \<Rightarrow> None
         | Some s2 \<Rightarrow>
             (let data = current_data s2
              in if c_mode data \<noteq> mode (status s2)
                 then (case ISR_MaybeChangeMode (c_mode data) s2 of
                         None \<Rightarrow> None
                       | Some s3 \<Rightarrow>
                           if mode (status s3) \<noteq> kStopped
                           then if in_driver_fault i
                                then Some (s3\<lparr>status := (status s3)\<lparr>mode := kFault,
                                                  fault := kMotorDriverFault\<rparr>\<rparr>)
                                else if bus_V (status s3) > max_voltage (config s3)
                                then Some (s3\<lparr>status := (status s3)\<lparr>mode := kFault,
                                                  fault := kOverVoltage\<rparr>\<rparr>)
                                else control_tail C sin_cos data s3
                           else control_tail C sin_cos data s3)
                 else control_tail C sin_cos data s2))"

text \<open>\<^verbatim>\<open>ISR_DoTimer\<close>, one interrupt that \<^verbatim>\<open>ISR_HandleTimer\<close> lets through. The debug
  pin and \<^verbatim>\<open>ISR_MaybeEmitDebug\<close> write nothing the controller reads and are left out.\<close>

definition ISR_DoTimer :: "('p, 'f) Collab \<Rightarrow> Inputs \<Rightarrow> ('p, 'f) Impl \<Rightarrow> ('p, 'f) Impl option" where
  "ISR_DoTimer C i s =
     (let s1 = ISR_DoSense C i s;
          sin_cos = electrical_theta (status s1);
          s2 = ISR_CalculateCurrentState C s1
      in ISR_DoControl C i sin_cos s2)"

subsection \<open>Runs\<close>

text \<open>A run interleaves interrupts with the two foreground calls, each foreground call
  taken whole: \<open>Poll\<close> is a call of \<^verbatim>\<open>PollMillisecond\<close> during which no interrupt
  arrives. \<open>run\<close> returns the states a run passes through, the first state included;
  \<open>None\<close> when a call aborts.\<close>

datatype step = Tick Inputs | Poll | Cmd CommandData

fun exec_step :: "('p, 'f) Collab \<Rightarrow> step \<Rightarrow> ('p, 'f) Impl \<Rightarrow> ('p, 'f) Impl option" where
  "exec_step C (Tick i) s = ISR_DoTimer C i s"
| "exec_step C Poll s = Some (PollMillisecond s)"
| "exec_step C (Cmd d) s = Command d s"

fun run :: "('p, 'f) Collab \<Rightarrow> step list \<Rightarrow> ('p, 'f) Impl \<Rightarrow> ('p, 'f) Impl list option" where
  "run C [] s = Some [s]"
| "run C (x # xs) s =
     (case exec_step C x s of
        None \<Rightarrow> None
      | Some s' \<Rightarrow> map_option ((#) s) (run C xs s'))"

text \<open>The same with \<^verbatim>\<open>PollMillisecond\<close> statement by statement. Its body loads
  \<^verbatim>\<open>status_.mode\<close> through a volatile pointer and, when the value loaded is
  \<^verbatim>\<open>kEnabling\<close>, calls \<^verbatim>\<open>Enable(true)\<close> and then stores \<^verbatim>\<open>kCalibrating\<close> through the
  same pointer: a load, a call of the driver, a store. The state of the machine is the
  controller together with the point the foreground has reached inside
  \<^verbatim>\<open>PollMillisecond\<close>: \<open>Idle\<close> outside of it, \<open>Loaded\<close> after a load that read
  \<^verbatim>\<open>kEnabling\<close>, \<open>Enabled\<close> after the call of the driver. A load that reads another mode
  ends the call. The store writes \<^verbatim>\<open>kCalibrating\<close> whatever the mode is by then. An
  interrupt can be taken at every point; \<^verbatim>\<open>Command\<close> only at \<open>Idle\<close>, the foreground
  being one thread. A step the foreground cannot take at its point gives \<open>None\<close>.\<close>

datatype poll_pc = Idle | Loaded | Enabled

datatype pstep = PTick Inputs | PCmd CommandData | PLoad | PEnable | PStore

fun exec_pstep ::
  "('p, 'f) Collab \<Rightarrow> pstep \<Rightarrow> ('p, 'f) Impl \<times> poll_pc
     \<Rightarrow> (('p, 'f) Impl \<times> poll_pc) option" where
  "exec_pstep C (PTick i) (s, pc) = map_option (\<lambda>t. (t, pc)) (ISR_DoTimer C i s)"
| "exec_pstep C (PCmd d) (s, pc) =
     (if pc = Idle then map_option (\<lambda>t. (t, Idle)) (Command d s) else None)"
| "exec_pstep C PLoad (s, pc) =
     (if pc = Idle then Some (s, if mode (status s) = kEnabling then Loaded else Idle)
      else None)"
| "exec_pstep C PEnable (s, pc) =
     (if pc = Loaded then Some (s\<lparr>trace := trace s @ [Enable True]\<rparr>, Enabled) else None)"
| "exec_pstep C PStore (s, pc) =
     (if pc = Enabled then Some (s\<lparr>status := (status s)\<lparr>mode := kCalibrating\<rparr>\<rparr>, Idle)
      else None)"

fun prun ::
  "('p, 'f) Collab \<Rightarrow> pstep list \<Rightarrow> ('p, 'f) Impl \<times> poll_pc
     \<Rightarrow> (('p, 'f) Impl \<times> poll_pc) list option" where
  "prun C [] s = Some [s]"
| "prun C (x # xs) s =
     (case exec_pstep C x s of
        None \<Rightarrow> None
      | Some s' \<Rightarrow> map_option ((#) s) (prun C xs s'))"

definition active :: "Mode \<Rightarrow> bool" where
  "active m = (m = kPwm \<or> m = kVoltage \<or> m = kVoltageFoc \<or> m = kCurrent \<or> m = kPosition)"

subsection \<open>Concrete values for evaluation\<close>

text \<open>Stand-ins for the collaborators, used where the model is evaluated on a concrete
  input; the theorems hold for every collaborator.\<close>

definition Collab0 :: "(unit, unit) Collab" where
  "Collab0 =
     \<lparr>DqTransform = (\<lambda>_ _ _ _. (0, 0)),
      InverseDqTransform = (\<lambda>_ _ _. Vec3 0 0 0),
      pid_zero = (),
      pid_dq_Apply = (\<lambda>_ _ _ _ _ _. (0, ())),
      pid_position_Apply = (\<lambda>_ _ _ _ _ _. (0, ())),
      filter_Add = (\<lambda>_ _. ()),
      filter_average = (\<lambda>_. 0)\<rparr>"

definition Config0 :: Config where
  "Config0 =
     \<lparr>motor_poles = 14, motor_offset = 0.25, motor_resistance = 0.1, motor_v_per_hz = 0.1,
      i_scale_A = 0.02, v_scale_V = 0.01, unwrapped_position_scale = 1, max_voltage = 30,
      feedforward_scale = 1\<rparr>"

definition Command0 :: CommandData where
  "Command0 =
     \<lparr>c_mode = kStopped, c_pwm = Vec3 0 0 0, c_phase_v = Vec3 0 0 0, c_theta = 0,
      c_voltage = 0, c_i_d_A = 0, c_i_q_A = 0, c_position = 0, c_velocity = 0,
      c_max_current = 0, c_set_position = None\<rparr>"

definition Status0 :: "unit Status" where
  "Status0 =
     \<lparr>mode = kStopped, fault = kSuccess, adc1_raw = 0, adc2_raw = 0, adc3_raw = 0,
      adc1_offset = 2048, adc2_offset = 2048, cur1_A = 0, cur2_A = 0, bus_V = 0, d_A = 0,
      q_A = 0, position_raw = 0, unwrapped_position_raw = 0, unwrapped_position = 0,
      electrical_theta = 0, velocity = 0, pid_d = (), pid_q = (), pid_position = ()\<rparr>"

text \<open>Modelled from the spec: the state after construction. The header with the member
  initialisers is not among the sources; the spec has the mode start at \<^verbatim>\<open>Stopped\<close>, the
  command buffers empty and the rest zero.\<close>

definition Impl0 :: "(unit, unit) Impl" where
  "Impl0 =
     \<lparr>config = Config0, status = Status0, control = Control_zero, current_data = Command0,
      next_data = Command0, telemetry_data = Command0, velocity_filter = (),
      calibrate_adc1 = 0, calibrate_adc2 = 0, calibrate_count = 0,
      pwm1_ccr = 0, pwm2_ccr = 0, pwm3_ccr = 0, trace = []\<rparr>"

definition Inputs0 :: Inputs where
  "Inputs0 =
     \<lparr>in_adc1 = 2048, in_adc2 = 2048, in_adc3 = 2400, in_position = 0,
      in_driver_fault = False\<rparr>"

text \<open>States used where a statement is evaluated: in \<^verbatim>\<open>kFault\<close> after an encoder fault
  with a \<^verbatim>\<open>kStopped\<close> command pending, the same with a \<^verbatim>\<open>kVoltage\<close> command, running
  in \<^verbatim>\<open>kPwm\<close>, running in \<^verbatim>\<open>kVoltage\<close> on a 24 V bus, running in \<^verbatim>\<open>kPwm\<close> on a
  48 V bus (above \<open>max_voltage\<close>) with a \<^verbatim>\<open>kVoltage\<close> command pending, and the last with
  the command equal to the mode.\<close>

definition Faulted0 :: "(unit, unit) Impl" where
  "Faulted0 = Impl0\<lparr>status := Status0\<lparr>mode := kFault, fault := kEncoderFault\<rparr>\<rparr>"

definition FaultedV0 :: "(unit, unit) Impl" where
  "FaultedV0 = Faulted0\<lparr>current_data := Command0\<lparr>c_mode := kVoltage\<rparr>\<rparr>"

definition Pwm0 :: "(unit, unit) Impl" where
  "Pwm0 = Impl0\<lparr>status := Status0\<lparr>mode := kPwm\<rparr>,
                 current_data := Command0\<lparr>c_mode := kPwm, c_pwm := Vec3 0.5 1.5 (- 1)\<rparr>\<rparr>"

definition Volt0 :: "(unit, unit) Impl" where
  "Volt0 = Impl0\<lparr>status := Status0\<lparr>mode := kVoltage, bus_V := 24\<rparr>,
                  current_data := Command0\<lparr>c_mode := kVoltage, c_phase_v := Vec3 12 0 0\<rparr>\<rparr>"

definition Running0 :: "(unit, unit) Impl" where
  "Running0 = Impl0\<lparr>status := Status0\<lparr>mode := kPwm, bus_V := 48\<rparr>,
                     current_data := Command0\<lparr>c_mode := kVoltage\<rparr>,
                     pwm1_ccr := 562, pwm2_ccr := 562, pwm3_ccr := 562\<rparr>"

definition Steady0 :: "(unit, unit) Impl" where
  "Steady0 = Impl0\<lparr>status := Status0\<lparr>mode := kPwm, bus_V := 48\<rparr>,
                    current_data := Command0\<lparr>c_mode := kPwm, c_pwm := Vec3 0.5 0.5 0.5\<rparr>\<rparr>"

text \<open>In \<^verbatim>\<open>kCalibrating\<close> with a \<^verbatim>\<open>kCurrent\<close> command pending and the calibration
  accumulators at zero, as \<^verbatim>\<open>ISR_StartCalibrating\<close> and \<^verbatim>\<open>PollMillisecond\<close> leave them.\<close>

definition Cal0 :: "(unit, unit) Impl" where
  "Cal0 = Impl0\<lparr>status := Status0\<lparr>mode := kCalibrating\<rparr>,
                 current_data := Command0\<lparr>c_mode := kCurrent\<rparr>\<rparr>"

text \<open>After construction with a \<^verbatim>\<open>kCurrent\<close> command submitted, and a run from there: one
  interrupt, one \<^verbatim>\<open>PollMillisecond\<close>, 256 interrupts, one more interrupt.\<close>

definition Start0 :: "(unit, unit) Impl" where
  "Start0 = Impl0\<lparr>current_data := Command0\<lparr>c_mode := kCurrent\<rparr>\<rparr>"

definition Steps0 :: "step list" where
  "Steps0 = [Tick Inputs0, Poll] @ map Tick (replicate 256 Inputs0) @ [Tick Inputs0]"

text \<open>A schedule in which one interrupt arrives inside \<^verbatim>\<open>PollMillisecond\<close>, in two parts.
  \<open>RaceHead0\<close>, from the state after construction: a \<^verbatim>\<open>kCurrent\<close> command, an interrupt
  (which begins the calibration sequence), a \<^verbatim>\<open>kStopped\<close> command, then
  \<^verbatim>\<open>PollMillisecond\<close> up to and including \<^verbatim>\<open>Enable(true)\<close>, then an interrupt.
  \<open>RaceTail0\<close>, from there: the store of \<^verbatim>\<open>PollMillisecond\<close>, a \<^verbatim>\<open>kCurrent\<close> command,
  256 interrupts, one more interrupt.\<close>

definition Current0 :: CommandData where
  "Current0 = Command0\<lparr>c_mode := kCurrent\<rparr>"

definition RaceHead0 :: "pstep list" where
  "RaceHead0 = [PCmd Current0, PTick Inputs0, PCmd Command0, PLoad, PEnable, PTick Inputs0]"

definition RaceTail0 :: "pstep list" where
  "RaceTail0 = [PStore, PCmd Current0] @ map PTick (replicate 256 Inputs0) @ [PTick Inputs0]"

subsection \<open>Predicates used in the statements\<close>

text \<open>What one pass through \<^verbatim>\<open>ISR_DoPwmControl\<close> leaves behind, relative to the trace
  \<open>tr\<close> before it: the three registers hold the converted duties of \<^verbatim>\<open>control_.pwm\<close>,
  and the trace has grown by the three stores and \<^verbatim>\<open>Power(true)\<close>.\<close>

definition pwm_written :: "event list \<Rightarrow> ('p, 'f) Impl \<Rightarrow> bool" where
  "pwm_written tr s' \<longleftrightarrow>
     0.1 \<le> vec_a (ctl_pwm (control s')) \<and> vec_a (ctl_pwm (control s')) \<le> 0.9
   \<and> 0.1 \<le> vec_b (ctl_pwm (control s')) \<and> vec_b (ctl_pwm (control s')) \<le> 0.9
   \<and> 0.1 \<le> vec_c (ctl_pwm (control s')) \<and> vec_c (ctl_pwm (control s')) \<le> 0.9
   \<and> (\<exists>w1 w2 w3.
        float_to_u16 (vec_a (ctl_pwm (control s')) * real kPwmCounts) = Some w1
      \<and> float_to_u16 (vec_b (ctl_pwm (control s')) * real kPwmCounts) = Some w3
      \<and> float_to_u16 (vec_c (ctl_pwm (control s')) * real kPwmCounts) = Some w2
      \<and> pwm1_ccr s' = ucast w1 \<and> pwm3_ccr s' = ucast w3 \<and> pwm2_ccr s' = ucast w2
      \<and> trace s' = tr @ [WriteCcr 1 (ucast w1), WriteCcr 3 (ucast w3),
                           WriteCcr 2 (ucast w2), Power True])"

text \<open>A store to a compare register is either 0 or between 112 and 1012, the integer
  parts of \<open>0.1 * 1125\<close> and \<open>0.9 * 1125\<close>; other events are not constrained.\<close>

definition write_ok :: "event \<Rightarrow> bool" where
  "write_ok e =
     (case e of WriteCcr ch v \<Rightarrow> v = 0 \<or> (112 \<le> unat v \<and> unat v \<le> 1012) | _ \<Rightarrow> True)"

text \<open>The modes whose branch of the dispatch ends in \<^verbatim>\<open>ISR_DoVoltageControl\<close>, the one
  function that divides by \<^verbatim>\<open>status_.bus_V\<close>: \<^verbatim>\<open>kVoltage\<close> directly,
  \<^verbatim>\<open>kVoltageFoc\<close> through \<^verbatim>\<open>ISR_DoVoltageFOC\<close>, \<^verbatim>\<open>kCurrent\<close> through
  \<^verbatim>\<open>ISR_DoCurrent\<close> and \<^verbatim>\<open>kPosition\<close> through \<^verbatim>\<open>ISR_DoPosition\<close>. None of these
  functions changes the mode, so a cycle has passed the division exactly when it ends in
  one of these modes.\<close>

definition via_voltage :: "Mode \<Rightarrow> bool" where
  "via_voltage m = (m = kVoltage \<or> m = kVoltageFoc \<or> m = kCurrent \<or> m = kPosition)"

text \<open>The first statements of \<^verbatim>\<open>ISR_DoControl\<close>, up to the comparison of the modes, as
  a function of their own; \<open>ISR_DoControl_unfold\<close> below shows that \<open>ISR_DoControl\<close> is
  this step followed by the rest.\<close>

definition DoControl_prologue :: "('p, 'f) Impl \<Rightarrow> ('p, 'f) Impl option" where
  "DoControl_prologue s =
     (case c_set_position (current_data s) of
        None \<Rightarrow> Some (s\<lparr>control := Control_zero\<rparr>)
      | Some p \<Rightarrow>
          (case float_to_i32 (p * 65536) of
             None \<Rightarrow> None
           | Some w \<Rightarrow>
               Some (s\<lparr>control := Control_zero,
                        status := (status s)\<lparr>unwrapped_position_raw := w\<rparr>,
                        current_data := (current_data s)\<lparr>c_set_position := None\<rparr>\<rparr>)))"

text \<open>Inputs of consecutive interrupts during which nothing but the mode logic can change
  the mode: the driver reports no fault, the bus voltage computed from \<^verbatim>\<open>adc3_raw\<close> does
  not exceed \<open>max_voltage\<close>, and the position moves by at most 1000 counts per cycle,
  starting from the position \<open>p\<close>.\<close>

fun quiet :: "Config \<Rightarrow> u16 \<Rightarrow> Inputs list \<Rightarrow> bool" where
  "quiet cfg p [] = True"
| "quiet cfg p (i # is) =
     (\<not> in_driver_fault i
      \<and> real (unat (in_adc3 i)) * v_scale_V cfg \<le> max_voltage cfg
      \<and> \<bar>sint (in_position i - p)\<bar> \<le> 1000
      \<and> quiet cfg (in_position i) is)"

text \<open>The outcome of a calibration whose accumulated sums are \<open>M1\<close> and \<open>M2\<close>, in the
  words of the spec: the integer means are the sums divided by 256; if either differs
  from 2048 by more than 200 the status \<open>st'\<close> is in \<^verbatim>\<open>kFault\<close> with
  \<^verbatim>\<open>kCalibrationFault\<close> and has the offsets of \<open>st\<close>; otherwise it is in
  \<^verbatim>\<open>kCalibrationComplete\<close> and its offsets are the means.\<close>

definition calibration_verdict :: "nat \<Rightarrow> nat \<Rightarrow> 'p Status \<Rightarrow> 'p Status \<Rightarrow> bool" where
  "calibration_verdict M1 M2 st st' \<longleftrightarrow>
     (if 200 < \<bar>int (M1 div 256) - 2048\<bar> \<or> 200 < \<bar>int (M2 div 256) - 2048\<bar>
      then mode st' = kFault \<and> fault st' = kCalibrationFault
           \<and> adc1_offset st' = adc1_offset st \<and> adc2_offset st' = adc2_offset st
      else mode st' = kCalibrationComplete \<and> fault st' = kSuccess
           \<and> adc1_offset st' = of_nat (M1 div 256) \<and> adc2_offset st' = of_nat (M2 div 256))"

text \<open>The mode changes one step of a run can make, and what the modes a run has passed
  through must contain, in this order, when its current mode is \<open>m\<close>.\<close>

definition mode_step :: "Mode \<Rightarrow> Mode \<Rightarrow> bool" where
  "mode_step m m' \<longleftrightarrow>
     m' = m \<or> m' = kStopped \<or> m' = kFault
   \<or> (m = kStopped \<and> m' = kEnabling)
   \<or> (m = kEnabling \<and> m' = kCalibrating)
   \<or> (m = kCalibrating \<and> m' = kCalibrationComplete)
   \<or> ((m = kCalibrationComplete \<or> active m) \<and> active m')"

definition reached :: "Mode \<Rightarrow> Mode list \<Rightarrow> bool" where
  "reached m ms \<longleftrightarrow>
     (m = kEnabling \<longrightarrow> subseq [kEnabling] ms)
   \<and> (m = kCalibrating \<longrightarrow> subseq [kEnabling, kCalibrating] ms)
   \<and> (m = kCalibrationComplete \<longrightarrow> subseq [kEnabling, kCalibrating, kCalibrationComplete] ms)
   \<and> (active m \<longrightarrow> subseq [kEnabling, kCalibrating, kCalibrationComplete, m] ms)"

section \<open>Properties\<close>

subsection \<open>Arithmetic of the duty conversion\<close>

lemma LimitPwm_bounds: "0.1 \<le> LimitPwm x \<and> LimitPwm x \<le> 0.9"
  by (simp add: LimitPwm_def Limit_def)

lemma trunc0_duty:
  assumes "0.1 \<le> d" "d \<le> 0.9"
  shows "112 \<le> trunc0 (d * real kPwmCounts) \<and> trunc0 (d * real kPwmCounts) \<le> 1012"
proof -
  have k: "real kPwmCounts = 1125" by (simp add: kPwmCounts_def)
  have lo: "112 \<le> d * 1125" using assms by simp
  have hi: "d * 1125 < 1013" using assms by simp
  have "0 \<le> d * 1125" using lo by simp
  then have t: "trunc0 (d * 1125) = \<lfloor>d * 1125\<rfloor>" by (simp add: trunc0_def)
  have "112 \<le> \<lfloor>d * 1125\<rfloor>" using lo by (simp add: le_floor_iff)
  moreover have "\<lfloor>d * 1125\<rfloor> < 1013" using hi by (simp add: floor_less_iff)
  ultimately show ?thesis unfolding k t by simp
qed

lemma float_to_u16_duty:
  assumes "0.1 \<le> d" "d \<le> 0.9"
  shows "\<exists>w. float_to_u16 (d * real kPwmCounts) = Some w \<and> 112 \<le> unat w \<and> unat w \<le> 1012"
proof -
  let ?t = "trunc0 (d * real kPwmCounts)"
  have b: "112 \<le> ?t \<and> ?t \<le> 1012" using trunc0_duty[OF assms] .
  then have s: "float_to_u16 (d * real kPwmCounts) = Some (word_of_int ?t)"
    by (simp add: float_to_u16_def)
  have "uint (word_of_int ?t :: u16) = ?t"
    using b by (simp add: uint_word_of_int take_bit_int_eq_self)
  then have "unat (word_of_int ?t :: u16) = nat ?t"
    by (simp add: unat_eq_nat_uint)
  then show ?thesis using s b by auto
qed

lemma float_to_u16_LimitPwm:
  "\<exists>w. float_to_u16 (LimitPwm x * real kPwmCounts) = Some w \<and> 112 \<le> unat w \<and> unat w \<le> 1012"
  using float_to_u16_duty LimitPwm_bounds by blast

lemma unat_ucast_u16_u32: "unat (ucast (w :: u16) :: u32) = unat w"
proof -
  have "unat w < 2 ^ 16" using unsigned_less[of w] by simp
  then have "unat w < 2 ^ 32" by simp
  then show ?thesis by (simp add: unsigned_ucast_eq take_bit_nat_eq_self)
qed

subsection \<open>Effects of the actuation functions\<close>

lemma ISR_DoPwmControl_Some:
  "\<exists>s'. ISR_DoPwmControl p s = Some s'"
proof -
  obtain w1 where "float_to_u16 (LimitPwm (vec_a p) * real kPwmCounts) = Some w1"
    using float_to_u16_LimitPwm by blast
  moreover obtain w3 where "float_to_u16 (LimitPwm (vec_b p) * real kPwmCounts) = Some w3"
    using float_to_u16_LimitPwm by blast
  moreover obtain w2 where "float_to_u16 (LimitPwm (vec_c p) * real kPwmCounts) = Some w2"
    using float_to_u16_LimitPwm by blast
  ultimately show ?thesis by (simp add: ISR_DoPwmControl_def Let_def)
qed

lemma ISR_DoPwmControl_effect:
  assumes "ISR_DoPwmControl p s = Some s'"
  shows "status s' = status s \<and> config s' = config s \<and> current_data s' = current_data s
       \<and> control s' = (control s)\<lparr>ctl_pwm := Vec3 (LimitPwm (vec_a p)) (LimitPwm (vec_b p)) (LimitPwm (vec_c p))\<rparr>
       \<and> pwm_written (trace s) s'"
  using assms LimitPwm_bounds[of "vec_a p"] LimitPwm_bounds[of "vec_b p"]
    LimitPwm_bounds[of "vec_c p"]
  by (auto simp add: ISR_DoPwmControl_def Let_def pwm_written_def split: option.splits)

lemma ISR_DoVoltageControl_effect:
  assumes "ISR_DoVoltageControl v s = Some s'"
  shows "status s' = status s \<and> config s' = config s \<and> current_data s' = current_data s
       \<and> ctl_pwm (control s') =
           Vec3 (LimitPwm (0.5 + 2 * vec_a v / bus_V (status s)))
                (LimitPwm (0.5 + 2 * vec_b v / bus_V (status s)))
                (LimitPwm (0.5 + 2 * vec_c v / bus_V (status s)))
       \<and> pwm_written (trace s) s'"
  using ISR_DoPwmControl_effect[OF assms[unfolded ISR_DoVoltageControl_def Let_def]]
  by (simp add: voltage_to_pwm_def)

lemma ISR_DoVoltageFOC_effect:
  assumes "ISR_DoVoltageFOC C th v s = Some s'"
  shows "status s' = status s \<and> config s' = config s \<and> current_data s' = current_data s
       \<and> pwm_written (trace s) s'"
  using ISR_DoVoltageControl_effect[OF assms[unfolded ISR_DoVoltageFOC_def]]
  by simp

lemma ISR_DoCurrent_effect:
  assumes "ISR_DoCurrent C sc i_d i_q s = Some s'"
  shows "mode (status s') = mode (status s) \<and> fault (status s') = fault (status s)
       \<and> config s' = config s \<and> current_data s' = current_data s
       \<and> pwm_written (trace s) s'"
  using ISR_DoVoltageControl_effect[OF assms[unfolded ISR_DoCurrent_def Let_def]]
  by simp

lemma ISR_DoPosition_effect:
  assumes "ISR_DoPosition C sc p v mc s = Some s'"
  shows "mode (status s') = mode (status s) \<and> fault (status s') = fault (status s)
       \<and> config s' = config s \<and> current_data s' = current_data s
       \<and> pwm_written (trace s) s'"
proof -
  from assms obtain s1 d where c: "ISR_DoCurrent C sc d 0 s1 = Some s'"
    and s1: "s1 = s\<lparr>status := (status s)\<lparr>pid_position := snd (pid_position_Apply C (pid_position (status s)) (unwrapped_position (status s)) p (velocity (status s)) v kRateHz)\<rparr>\<rparr>"
    by (auto simp add: ISR_DoPosition_def Let_def split: if_splits)
  show ?thesis using ISR_DoCurrent_effect[OF c] by (simp add: s1)
qed

lemma Some_lemmas:
  "\<exists>s'. ISR_DoVoltageControl v s = Some s'"
  "\<exists>s'. ISR_DoVoltageFOC C th vv s = Some s'"
  "\<exists>s'. ISR_DoCurrent C sc i_d i_q s = Some s'"
  by (simp_all add: ISR_DoVoltageControl_def ISR_DoVoltageFOC_def ISR_DoCurrent_def Let_def ISR_DoPwmControl_Some)

lemma ISR_DoPosition_Some:
  "(\<exists>s'. ISR_DoPosition C sc p v mc s = Some s') \<longleftrightarrow> 0 \<le> mc"
  by (auto simp add: ISR_DoPosition_def Let_def Limit_def Some_lemmas split: if_splits)




lemma ISR_ClearPid_sel [simp]:
  "mode (status (ISR_ClearPid C s)) = mode (status s)"
  "fault (status (ISR_ClearPid C s)) = fault (status s)"
  "adc1_raw (status (ISR_ClearPid C s)) = adc1_raw (status s)"
  "adc2_raw (status (ISR_ClearPid C s)) = adc2_raw (status s)"
  "adc1_offset (status (ISR_ClearPid C s)) = adc1_offset (status s)"
  "adc2_offset (status (ISR_ClearPid C s)) = adc2_offset (status s)"
  "bus_V (status (ISR_ClearPid C s)) = bus_V (status s)"
  "position_raw (status (ISR_ClearPid C s)) = position_raw (status s)"
  "config (ISR_ClearPid C s) = config s"
  "control (ISR_ClearPid C s) = control s"
  "current_data (ISR_ClearPid C s) = current_data s"
  "trace (ISR_ClearPid C s) = trace s"
  "pwm1_ccr (ISR_ClearPid C s) = pwm1_ccr s"
  "pwm2_ccr (ISR_ClearPid C s) = pwm2_ccr s"
  "pwm3_ccr (ISR_ClearPid C s) = pwm3_ccr s"
  "calibrate_adc1 (ISR_ClearPid C s) = calibrate_adc1 s"
  "calibrate_adc2 (ISR_ClearPid C s) = calibrate_adc2 s"
  "calibrate_count (ISR_ClearPid C s) = calibrate_count s"
  by (simp_all add: ISR_ClearPid_def Let_def)

lemma dispatch_cases:
  assumes "dispatch C sc d s = Some s'"
  shows "((mode (status s) = kStopped \<or> mode (status s) = kNumModes) \<and> s' = ISR_DoStopped s)
       \<or> (mode (status s) = kFault \<and> s' = ISR_DoFault s)
       \<or> ((mode (status s) = kEnabling \<or> mode (status s) = kCalibrationComplete) \<and> s' = s)
       \<or> (mode (status s) = kCalibrating \<and> s' = ISR_DoCalibrating s)
       \<or> (active (mode (status s)) \<and> mode (status s') = mode (status s)
            \<and> fault (status s') = fault (status s) \<and> config s' = config s
            \<and> current_data s' = current_data s \<and> pwm_written (trace s) s')"
proof (cases "mode (status s)")
  case kPwm
  then show ?thesis using assms ISR_DoPwmControl_effect[of "c_pwm d" s s']
    by (simp add: dispatch_def active_def)
next
  case kVoltage
  then show ?thesis using assms ISR_DoVoltageControl_effect[of "c_phase_v d" s s']
    by (simp add: dispatch_def active_def)
next
  case kVoltageFoc
  then show ?thesis using assms ISR_DoVoltageFOC_effect[of C "c_theta d" "c_voltage d" s s']
    by (simp add: dispatch_def active_def)
next
  case kCurrent
  then show ?thesis using assms ISR_DoCurrent_effect[of C sc "c_i_d_A d" "c_i_q_A d" s s']
    by (simp add: dispatch_def active_def)
next
  case kPosition
  then show ?thesis using assms
      ISR_DoPosition_effect[of C sc "c_position d" "c_velocity d" "c_max_current d" s s']
    by (simp add: dispatch_def active_def)
qed (use assms in \<open>auto simp add: dispatch_def\<close>)

lemma DoCalibrating_mode:
  "mode (status (ISR_DoCalibrating s)) = mode (status s)
   \<or> mode (status (ISR_DoCalibrating s)) = kCalibrationComplete
   \<or> mode (status (ISR_DoCalibrating s)) = kFault"
  by (simp add: ISR_DoCalibrating_def Let_def)

lemma DoCalibrating_fault:
  "mode (status (ISR_DoCalibrating s)) \<noteq> kFault
   \<Longrightarrow> fault (status (ISR_DoCalibrating s)) = fault (status s)"
  by (simp add: ISR_DoCalibrating_def Let_def split: if_splits)

lemma dispatch_mode:
  assumes "dispatch C sc d s = Some s'"
  shows "mode (status s') = mode (status s)
       \<or> (mode (status s) = kCalibrating
           \<and> (mode (status s') = kCalibrationComplete \<or> mode (status s') = kFault))"
  using dispatch_cases[OF assms] DoCalibrating_mode[of s]
  by (auto simp add: ISR_DoStopped_def ISR_DoFault_def)

lemma dispatch_fault:
  assumes "dispatch C sc d s = Some s'" "mode (status s') \<noteq> kFault"
  shows "fault (status s') = fault (status s)"
  using dispatch_cases[OF assms(1)] DoCalibrating_fault[of s] assms(2)
  by (auto simp add: ISR_DoStopped_def ISR_DoFault_def)

lemma control_tail_mode:
  assumes "control_tail C sc d s = Some s'"
  shows "mode (status s') = mode (status s)
       \<or> (mode (status s) = kCalibrating
           \<and> (mode (status s') = kCalibrationComplete \<or> mode (status s') = kFault))"
  using dispatch_mode[OF assms[unfolded control_tail_def Let_def]]
  by (simp split: if_splits)

lemma control_tail_fault:
  assumes "control_tail C sc d s = Some s'" "mode (status s') \<noteq> kFault"
  shows "fault (status s') = kSuccess"
proof -
  have m: "mode (status s) \<noteq> kFault"
    using control_tail_mode[OF assms(1)] assms(2) by auto
  show ?thesis
    using dispatch_fault[OF assms(1)[unfolded control_tail_def Let_def] assms(2)] m
    by simp
qed

lemma MaybeChangeMode_mode:
  assumes "ISR_MaybeChangeMode m s = Some s'"
  shows "(m = kStopped \<and> mode (status s') = kStopped)
       \<or> (m \<noteq> kStopped \<and> mode (status s') = mode (status s))
       \<or> (active m \<and> mode (status s) = kStopped \<and> s' = ISR_StartCalibrating s)
       \<or> (active m \<and> (mode (status s) = kCalibrationComplete \<or> active (mode (status s)))
            \<and> mode (status s') = m)"
  using assms
  by (cases m; cases "mode (status s)") (auto simp add: active_def ISR_StartCalibrating_def)

lemma DoControl_fault:
  assumes "ISR_DoControl C i sc s = Some s'" "mode (status s') \<noteq> kFault"
  shows "fault (status s') = kSuccess"
  using assms
  by (auto simp add: ISR_DoControl_def Let_def split: option.splits if_splits dest: control_tail_fault)




lemma ISR_DoSense_sel [simp]:
  "config (ISR_DoSense C i s) = config s"
  "control (ISR_DoSense C i s) = control s"
  "current_data (ISR_DoSense C i s) = current_data s"
  "trace (ISR_DoSense C i s) = trace s"
  "pwm1_ccr (ISR_DoSense C i s) = pwm1_ccr s"
  "pwm2_ccr (ISR_DoSense C i s) = pwm2_ccr s"
  "pwm3_ccr (ISR_DoSense C i s) = pwm3_ccr s"
  "calibrate_adc1 (ISR_DoSense C i s) = calibrate_adc1 s"
  "calibrate_adc2 (ISR_DoSense C i s) = calibrate_adc2 s"
  "calibrate_count (ISR_DoSense C i s) = calibrate_count s"
  "adc1_raw (status (ISR_DoSense C i s)) = in_adc1 i"
  "adc2_raw (status (ISR_DoSense C i s)) = in_adc2 i"
  "adc3_raw (status (ISR_DoSense C i s)) = in_adc3 i"
  "adc1_offset (status (ISR_DoSense C i s)) = adc1_offset (status s)"
  "adc2_offset (status (ISR_DoSense C i s)) = adc2_offset (status s)"
  "position_raw (status (ISR_DoSense C i s)) = in_position i"
  by (simp_all add: ISR_DoSense_def Let_def)

lemma ISR_DoSense_mode:
  "mode (status (ISR_DoSense C i s)) =
     (if mode (status s) \<noteq> kStopped \<and> 1000 < \<bar>sint (in_position i - position_raw (status s))\<bar>
      then kFault else mode (status s))"
  by (simp add: ISR_DoSense_def Let_def kMaxPositionDelta_def)

lemma ISR_DoSense_fault:
  "fault (status (ISR_DoSense C i s)) =
     (if mode (status s) \<noteq> kStopped \<and> 1000 < \<bar>sint (in_position i - position_raw (status s))\<bar>
      then kEncoderFault else fault (status s))"
  by (simp add: ISR_DoSense_def Let_def kMaxPositionDelta_def)

lemma ISR_CalculateCurrentState_sel [simp]:
  "config (ISR_CalculateCurrentState C s) = config s"
  "control (ISR_CalculateCurrentState C s) = control s"
  "current_data (ISR_CalculateCurrentState C s) = current_data s"
  "trace (ISR_CalculateCurrentState C s) = trace s"
  "pwm1_ccr (ISR_CalculateCurrentState C s) = pwm1_ccr s"
  "pwm2_ccr (ISR_CalculateCurrentState C s) = pwm2_ccr s"
  "pwm3_ccr (ISR_CalculateCurrentState C s) = pwm3_ccr s"
  "calibrate_adc1 (ISR_CalculateCurrentState C s) = calibrate_adc1 s"
  "calibrate_adc2 (ISR_CalculateCurrentState C s) = calibrate_adc2 s"
  "calibrate_count (ISR_CalculateCurrentState C s) = calibrate_count s"
  "mode (status (ISR_CalculateCurrentState C s)) = mode (status s)"
  "fault (status (ISR_CalculateCurrentState C s)) = fault (status s)"
  "adc1_raw (status (ISR_CalculateCurrentState C s)) = adc1_raw (status s)"
  "adc2_raw (status (ISR_CalculateCurrentState C s)) = adc2_raw (status s)"
  "adc1_offset (status (ISR_CalculateCurrentState C s)) = adc1_offset (status s)"
  "adc2_offset (status (ISR_CalculateCurrentState C s)) = adc2_offset (status s)"
  "position_raw (status (ISR_CalculateCurrentState C s)) = position_raw (status s)"
  "bus_V (status (ISR_CalculateCurrentState C s))
     = real (unat (adc3_raw (status s))) * v_scale_V (config s)"
  by (simp_all add: ISR_CalculateCurrentState_def Let_def)

subsection \<open>The control step, piece by piece\<close>

lemma DoControl_prologue_sel:
  assumes "DoControl_prologue s = Some s2"
  shows "mode (status s2) = mode (status s)" "fault (status s2) = fault (status s)"
    "bus_V (status s2) = bus_V (status s)"
    "adc1_raw (status s2) = adc1_raw (status s)" "adc2_raw (status s2) = adc2_raw (status s)"
    "adc1_offset (status s2) = adc1_offset (status s)"
    "adc2_offset (status s2) = adc2_offset (status s)"
    "position_raw (status s2) = position_raw (status s)"
    "config s2 = config s" "control s2 = Control_zero"
    "c_mode (current_data s2) = c_mode (current_data s)"
    "c_pwm (current_data s2) = c_pwm (current_data s)"
    "c_phase_v (current_data s2) = c_phase_v (current_data s)"
    "c_max_current (current_data s2) = c_max_current (current_data s)"
    "c_set_position (current_data s2) = None"
    "trace s2 = trace s" "pwm1_ccr s2 = pwm1_ccr s" "pwm2_ccr s2 = pwm2_ccr s"
    "pwm3_ccr s2 = pwm3_ccr s" "calibrate_adc1 s2 = calibrate_adc1 s"
    "calibrate_adc2 s2 = calibrate_adc2 s" "calibrate_count s2 = calibrate_count s"
  using assms
  by (auto simp add: DoControl_prologue_def split: option.splits)

lemma DoControl_prologue_None:
  "c_set_position (current_data s) = None \<Longrightarrow> DoControl_prologue s = Some (s\<lparr>control := Control_zero\<rparr>)"
  by (simp add: DoControl_prologue_def)

lemma ISR_DoControl_unfold:
  "ISR_DoControl C i sc s =
     (case DoControl_prologue s of
        None \<Rightarrow> None
      | Some s2 \<Rightarrow>
          if c_mode (current_data s2) \<noteq> mode (status s2)
          then (case ISR_MaybeChangeMode (c_mode (current_data s2)) s2 of
                  None \<Rightarrow> None
                | Some s3 \<Rightarrow>
                    if mode (status s3) \<noteq> kStopped
                    then if in_driver_fault i
                         then Some (s3\<lparr>status := (status s3)\<lparr>mode := kFault,
                                           fault := kMotorDriverFault\<rparr>\<rparr>)
                         else if bus_V (status s3) > max_voltage (config s3)
                         then Some (s3\<lparr>status := (status s3)\<lparr>mode := kFault,
                                           fault := kOverVoltage\<rparr>\<rparr>)
                         else control_tail C sc (current_data s2) s3
                    else control_tail C sc (current_data s2) s3)
          else control_tail C sc (current_data s2) s2)"
proof (cases "c_set_position (current_data s)")
  case None
  then show ?thesis
    by (simp add: ISR_DoControl_def DoControl_prologue_def Let_def cong: option.case_cong if_cong)
next
  case (Some p)
  then show ?thesis
    by (cases "float_to_i32 (p * 65536)")
       (simp_all add: ISR_DoControl_def DoControl_prologue_def Let_def
          cong: option.case_cong if_cong)
qed

lemma DoControl_mode_cases:
  assumes "ISR_DoControl C i sc s = Some s'"
  shows "(c_mode (current_data s) = kStopped \<and> mode (status s') = kStopped)
       \<or> mode (status s') = kFault
       \<or> (c_mode (current_data s) \<noteq> kStopped \<and> mode (status s') = mode (status s))
       \<or> (active (c_mode (current_data s)) \<and> mode (status s) = kStopped
            \<and> mode (status s') = kEnabling)
       \<or> (c_mode (current_data s) \<noteq> kStopped \<and> mode (status s) = kCalibrating
            \<and> mode (status s') = kCalibrationComplete)
       \<or> (active (c_mode (current_data s))
            \<and> (mode (status s) = kCalibrationComplete \<or> active (mode (status s)))
            \<and> mode (status s') = c_mode (current_data s))"
proof -
  from assms obtain s2 where p: "DoControl_prologue s = Some s2"
    by (auto simp add: ISR_DoControl_unfold split: option.splits)
  note sel = DoControl_prologue_sel[OF p]
  let ?c = "c_mode (current_data s)"
  show ?thesis
  proof (cases "?c = mode (status s)")
    case True
    then have "control_tail C sc (current_data s2) s2 = Some s'"
      using assms p sel by (simp add: ISR_DoControl_unfold)
    from control_tail_mode[OF this] True show ?thesis
      by (auto simp add: sel)
  next
    case False
    then obtain s3 where m: "ISR_MaybeChangeMode ?c s2 = Some s3"
      using assms p sel by (auto simp add: ISR_DoControl_unfold split: option.splits)
    have r: "mode (status s') = kFault \<or> control_tail C sc (current_data s2) s3 = Some s'"
      using assms p sel False m by (auto simp add: ISR_DoControl_unfold split: if_splits)
    show ?thesis
    proof (cases "mode (status s') = kFault")
      case True then show ?thesis by simp
    next
      case nf: False
      then have t: "control_tail C sc (current_data s2) s3 = Some s'" using r by simp
      from control_tail_mode[OF t] nf
      have a: "mode (status s') = mode (status s3)
             \<or> (mode (status s3) = kCalibrating \<and> mode (status s') = kCalibrationComplete)"
        by auto
      from MaybeChangeMode_mode[OF m]
      have b: "(?c = kStopped \<and> mode (status s3) = kStopped)
       \<or> (?c \<noteq> kStopped \<and> mode (status s3) = mode (status s))
       \<or> (active ?c \<and> mode (status s) = kStopped \<and> mode (status s3) = kEnabling)
       \<or> (active ?c \<and> (mode (status s) = kCalibrationComplete \<or> active (mode (status s)))
            \<and> mode (status s3) = ?c)"
        by (auto simp add: sel ISR_StartCalibrating_def)
      have c: "active ?c \<Longrightarrow> ?c \<noteq> kStopped \<and> ?c \<noteq> kCalibrating" by (auto simp add: active_def)
      from a b c show ?thesis by (elim disjE conjE) simp_all
    qed
  qed
qed

lemma DoTimer_mode_cases:
  assumes "ISR_DoTimer C i s = Some s'"
  shows "(c_mode (current_data s) = kStopped \<and> mode (status s') = kStopped)
       \<or> mode (status s') = kFault
       \<or> (c_mode (current_data s) \<noteq> kStopped \<and> mode (status s') = mode (status s))
       \<or> (active (c_mode (current_data s)) \<and> mode (status s) = kStopped
            \<and> mode (status s') = kEnabling)
       \<or> (c_mode (current_data s) \<noteq> kStopped \<and> mode (status s) = kCalibrating
            \<and> mode (status s') = kCalibrationComplete)
       \<or> (active (c_mode (current_data s))
            \<and> (mode (status s) = kCalibrationComplete \<or> active (mode (status s)))
            \<and> mode (status s') = c_mode (current_data s))"
proof -
  let ?s1 = "ISR_CalculateCurrentState C (ISR_DoSense C i s)"
  have m: "mode (status ?s1) = mode (status s) \<or> mode (status ?s1) = kFault"
    by (simp add: ISR_DoSense_mode)
  have c: "c_mode (current_data ?s1) = c_mode (current_data s)" by simp
  from DoControl_mode_cases[OF assms[unfolded ISR_DoTimer_def Let_def]] m
  show ?thesis unfolding c
    by (elim disjE conjE) (simp_all add: active_def)
qed

lemma DoTimer_fault:
  assumes "ISR_DoTimer C i s = Some s'" "mode (status s') \<noteq> kFault"
  shows "fault (status s') = kSuccess"
  using DoControl_fault[OF assms(1)[unfolded ISR_DoTimer_def Let_def] assms(2)] .

subsection \<open>Auxiliary facts about the control step\<close>

lemmas example_defs =
  Impl0_def Status0_def Command0_def Inputs0_def Collab0_def Config0_def Control_zero_def

lemmas isr_eval = ISR_DoTimer_def ISR_DoSense_def ISR_CalculateCurrentState_def
  ISR_DoControl_def Let_def control_tail_def dispatch_def ISR_ClearPid_def ISR_DoStopped_def
  ISR_DoFault_def current_pid_active_def position_pid_active_def ISR_StartCalibrating_def
  kMaxPositionDelta_def

lemma floor_evals:
  "\<lfloor>1125 / 2 :: real\<rfloor> = 562" "\<lfloor>2025 / 2 :: real\<rfloor> = 1012" "\<lfloor>225 / 2 :: real\<rfloor> = 112"
  by (simp_all add: floor_eq_iff)

lemma control_tail_Some:
  assumes "mode (status s) = kPosition \<longrightarrow> 0 \<le> c_max_current d"
  shows "\<exists>s'. control_tail C sc d s = Some s'"
proof (cases "mode (status s)")
  case kPosition
  then show ?thesis using assms ISR_DoPosition_Some[of C sc "c_position d" "c_velocity d" "c_max_current d"]
    by (simp add: control_tail_def Let_def dispatch_def)
qed (simp_all add: control_tail_def Let_def dispatch_def Some_lemmas ISR_DoPwmControl_Some)

lemma control_tail_Stopped:
  assumes "mode (status s) = kStopped"
  shows "\<exists>s'. control_tail C sc d s = Some s' \<and> mode (status s') = kStopped
            \<and> fault (status s') = kSuccess
            \<and> trace s' = trace s @ [Enable False, Power False, WriteCcr 1 0, WriteCcr 2 0, WriteCcr 3 0]
            \<and> pwm1_ccr s' = 0 \<and> pwm2_ccr s' = 0 \<and> pwm3_ccr s' = 0"
  using assms by (simp add: control_tail_def Let_def dispatch_def ISR_DoStopped_def)

lemma control_tail_Fault:
  assumes "mode (status s) = kFault"
  shows "\<exists>s'. control_tail C sc d s = Some s' \<and> mode (status s') = kFault
            \<and> fault (status s') = fault (status s)
            \<and> trace s' = trace s @ [Power False, WriteCcr 1 0, WriteCcr 2 0, WriteCcr 3 0]
            \<and> pwm1_ccr s' = 0 \<and> pwm2_ccr s' = 0 \<and> pwm3_ccr s' = 0"
  using assms by (simp add: control_tail_def Let_def dispatch_def ISR_DoFault_def)

lemma DoControl_Stopped_cmd:
  assumes "c_mode (current_data s) = kStopped" "c_set_position (current_data s) = None"
  shows "\<exists>s'. ISR_DoControl C i sc s = Some s' \<and> mode (status s') = kStopped
            \<and> fault (status s') = kSuccess
            \<and> trace s' = trace s @ [Enable False, Power False, WriteCcr 1 0, WriteCcr 2 0, WriteCcr 3 0]
            \<and> pwm1_ccr s' = 0 \<and> pwm2_ccr s' = 0 \<and> pwm3_ccr s' = 0"
proof -
  let ?s2 = "s\<lparr>control := Control_zero\<rparr>"
  have p: "DoControl_prologue s = Some ?s2" using assms(2) by (rule DoControl_prologue_None)
  show ?thesis
  proof (cases "mode (status s) = kStopped")
    case True
    then show ?thesis using control_tail_Stopped[of ?s2 C sc "current_data ?s2"] assms(1)
      by (simp add: ISR_DoControl_unfold p)
  next
    case False
    let ?s3 = "?s2\<lparr>status := (status ?s2)\<lparr>mode := kStopped\<rparr>\<rparr>"
    show ?thesis using False control_tail_Stopped[of ?s3 C sc "current_data ?s2"] assms(1)
      by (simp add: ISR_DoControl_unfold p)
  qed
qed

lemma DoTimer_Stopped_cmd:
  assumes "c_mode (current_data s) = kStopped" "c_set_position (current_data s) = None"
  shows "\<exists>s'. ISR_DoTimer C i s = Some s' \<and> mode (status s') = kStopped
            \<and> fault (status s') = kSuccess
            \<and> trace s' = trace s @ [Enable False, Power False, WriteCcr 1 0, WriteCcr 2 0, WriteCcr 3 0]
            \<and> pwm1_ccr s' = 0 \<and> pwm2_ccr s' = 0 \<and> pwm3_ccr s' = 0"
  using DoControl_Stopped_cmd[of "ISR_CalculateCurrentState C (ISR_DoSense C i s)" C i
          "electrical_theta (status (ISR_DoSense C i s))"] assms
  by (simp add: ISR_DoTimer_def Let_def)

lemma active_not_Stopped: "active m \<Longrightarrow> m \<noteq> kStopped"
  by (auto simp add: active_def)

lemma MaybeChangeMode_Fault:
  "mode (status s) = kFault \<Longrightarrow> active m \<Longrightarrow> ISR_MaybeChangeMode m s = Some s"
  by (cases m) (simp_all add: active_def)

lemma exec_step_from_Fault:
  assumes "mode (status s) = kFault" "exec_step C x s = Some s'"
  shows "mode (status s') = kFault \<or> mode (status s') = kStopped"
proof (cases x)
  case (Tick i)
  then have "ISR_DoTimer C i s = Some s'" using assms(2) by simp
  from DoTimer_mode_cases[OF this] assms(1) show ?thesis
    by (auto simp add: active_def)
next
  case Poll
  then show ?thesis using assms by (auto simp add: PollMillisecond_def)
next
  case (Cmd d)
  then show ?thesis using assms by (auto simp add: Command_def split: if_splits)
qed

lemma MaybeChangeMode_cases:
  assumes "ISR_MaybeChangeMode m s = Some s'"
  shows "s' = s \<or> s' = s\<lparr>status := (status s)\<lparr>mode := m\<rparr>\<rparr>
       \<or> (active m \<and> mode (status s) = kStopped \<and> s' = ISR_StartCalibrating s)"
  using assms by (cases m; cases "mode (status s)") (auto simp add: active_def)

lemma MaybeChangeMode_active:
  assumes "active m" "mode (status s) \<noteq> kNumModes"
  shows "\<exists>s'. ISR_MaybeChangeMode m s = Some s' \<and> mode (status s') \<noteq> kStopped
            \<and> bus_V (status s') = bus_V (status s) \<and> config s' = config s
            \<and> (mode (status s) \<noteq> kStopped \<longrightarrow>
                  trace s' = trace s \<and> pwm1_ccr s' = pwm1_ccr s \<and> pwm2_ccr s' = pwm2_ccr s
                  \<and> pwm3_ccr s' = pwm3_ccr s)
            \<and> (mode (status s) = kStopped \<longrightarrow> s' = ISR_StartCalibrating s)"
  using assms
  by (cases m; cases "mode (status s)") (auto simp add: active_def ISR_StartCalibrating_def)

lemma pwm_written_writes:
  assumes "pwm_written tr s'"
  shows "\<exists>evs. trace s' = tr @ evs \<and> (\<forall>e\<in>set evs. write_ok e)"
proof -
  from assms obtain w1 w2 w3 where
    a: "float_to_u16 (vec_a (ctl_pwm (control s')) * real kPwmCounts) = Some w1"
    and b: "float_to_u16 (vec_b (ctl_pwm (control s')) * real kPwmCounts) = Some w3"
    and c: "float_to_u16 (vec_c (ctl_pwm (control s')) * real kPwmCounts) = Some w2"
    and t: "trace s' = tr @ [WriteCcr 1 (ucast w1), WriteCcr 3 (ucast w3),
                           WriteCcr 2 (ucast w2), Power True]"
    and ra: "0.1 \<le> vec_a (ctl_pwm (control s'))" "vec_a (ctl_pwm (control s')) \<le> 0.9"
    and rb: "0.1 \<le> vec_b (ctl_pwm (control s'))" "vec_b (ctl_pwm (control s')) \<le> 0.9"
    and rc: "0.1 \<le> vec_c (ctl_pwm (control s'))" "vec_c (ctl_pwm (control s')) \<le> 0.9"
    unfolding pwm_written_def by blast
  have "112 \<le> unat w1 \<and> unat w1 \<le> 1012" using float_to_u16_duty[OF ra] a by auto
  moreover have "112 \<le> unat w3 \<and> unat w3 \<le> 1012" using float_to_u16_duty[OF rb] b by auto
  moreover have "112 \<le> unat w2 \<and> unat w2 \<le> 1012" using float_to_u16_duty[OF rc] c by auto
  ultimately have "\<forall>e\<in>set [WriteCcr 1 (ucast w1 :: u32), WriteCcr 3 (ucast w3),
                           WriteCcr 2 (ucast w2), Power True]. write_ok e"
    by (simp add: write_ok_def unat_ucast_u16_u32)
  then show ?thesis using t by blast
qed

lemma pwm_written_regs:
  assumes "pwm_written tr s'"
  shows "112 \<le> unat (pwm1_ccr s') \<and> unat (pwm1_ccr s') \<le> 1012
       \<and> 112 \<le> unat (pwm2_ccr s') \<and> unat (pwm2_ccr s') \<le> 1012
       \<and> 112 \<le> unat (pwm3_ccr s') \<and> unat (pwm3_ccr s') \<le> 1012"
proof -
  from assms obtain w1 w2 w3 where
    a: "float_to_u16 (vec_a (ctl_pwm (control s')) * real kPwmCounts) = Some w1"
    and b: "float_to_u16 (vec_b (ctl_pwm (control s')) * real kPwmCounts) = Some w3"
    and c: "float_to_u16 (vec_c (ctl_pwm (control s')) * real kPwmCounts) = Some w2"
    and r: "pwm1_ccr s' = ucast w1" "pwm3_ccr s' = ucast w3" "pwm2_ccr s' = ucast w2"
    and ra: "0.1 \<le> vec_a (ctl_pwm (control s'))" "vec_a (ctl_pwm (control s')) \<le> 0.9"
    and rb: "0.1 \<le> vec_b (ctl_pwm (control s'))" "vec_b (ctl_pwm (control s')) \<le> 0.9"
    and rc: "0.1 \<le> vec_c (ctl_pwm (control s'))" "vec_c (ctl_pwm (control s')) \<le> 0.9"
    unfolding pwm_written_def by blast
  have "112 \<le> unat w1 \<and> unat w1 \<le> 1012" using float_to_u16_duty[OF ra] a by auto
  moreover have "112 \<le> unat w3 \<and> unat w3 \<le> 1012" using float_to_u16_duty[OF rb] b by auto
  moreover have "112 \<le> unat w2 \<and> unat w2 \<le> 1012" using float_to_u16_duty[OF rc] c by auto
  ultimately show ?thesis by (simp add: r unat_ucast_u16_u32)
qed

lemma dispatch_trace:
  assumes "dispatch C sc d s = Some s'"
  shows "\<exists>evs. trace s' = trace s @ evs \<and> (\<forall>e\<in>set evs. write_ok e)"
proof -
  from dispatch_cases[OF assms]
  consider "s' = ISR_DoStopped s" | "s' = ISR_DoFault s" | "s' = s" | "s' = ISR_DoCalibrating s"
    | "pwm_written (trace s) s'" by blast
  then show ?thesis
  proof cases
    case 1 then show ?thesis by (simp add: ISR_DoStopped_def write_ok_def)
  next
    case 2 then show ?thesis by (simp add: ISR_DoFault_def write_ok_def)
  next
    case 3 then show ?thesis by simp
  next
    case 4 then show ?thesis by (simp add: ISR_DoCalibrating_def Let_def)
  next
    case 5 then show ?thesis by (rule pwm_written_writes)
  qed
qed

lemma dispatch_active:
  assumes "dispatch C sc d s = Some s'" "active (mode (status s'))"
  shows "pwm_written (trace s) s'"
  using dispatch_cases[OF assms(1)] assms(2) DoCalibrating_mode[of s]
  by (auto simp add: active_def ISR_DoStopped_def ISR_DoFault_def)

lemma control_tail_trace:
  assumes "control_tail C sc d s = Some s'"
  shows "\<exists>evs. trace s' = trace s @ evs \<and> (\<forall>e\<in>set evs. write_ok e)"
  using dispatch_trace[OF assms[unfolded control_tail_def Let_def]]
  by (simp split: if_splits)

lemma control_tail_active:
  assumes "control_tail C sc d s = Some s'" "active (mode (status s'))"
  shows "pwm_written (trace s) s'"
  using dispatch_active[OF assms(1)[unfolded control_tail_def Let_def] assms(2)]
  by (simp split: if_splits)

lemma DoControl_trace:
  assumes "ISR_DoControl C i sc s = Some s'"
  shows "\<exists>evs. trace s' = trace s @ evs \<and> (\<forall>e\<in>set evs. write_ok e)"
proof -
  from assms obtain s2 where p: "DoControl_prologue s = Some s2"
    by (auto simp add: ISR_DoControl_unfold split: option.splits)
  note sel = DoControl_prologue_sel[OF p]
  let ?c = "c_mode (current_data s)"
  show ?thesis
  proof (cases "?c = mode (status s)")
    case True
    then have "control_tail C sc (current_data s2) s2 = Some s'"
      using assms p sel by (simp add: ISR_DoControl_unfold)
    from control_tail_trace[OF this] show ?thesis by (simp add: sel)
  next
    case False
    then obtain s3 where m: "ISR_MaybeChangeMode ?c s2 = Some s3"
      using assms p sel by (auto simp add: ISR_DoControl_unfold split: option.splits)
    have t3: "\<exists>evs. trace s3 = trace s @ evs \<and> (\<forall>e\<in>set evs. write_ok e)"
      using MaybeChangeMode_cases[OF m]
      by (auto simp add: sel ISR_StartCalibrating_def write_ok_def)
    have r: "trace s' = trace s3 \<or> control_tail C sc (current_data s2) s3 = Some s'"
      using assms p sel False m by (auto simp add: ISR_DoControl_unfold split: if_splits)
    then show ?thesis
    proof
      assume "trace s' = trace s3" then show ?thesis using t3 by simp
    next
      assume "control_tail C sc (current_data s2) s3 = Some s'"
      from control_tail_trace[OF this] obtain e2 where
        e2: "trace s' = trace s3 @ e2" "\<forall>e\<in>set e2. write_ok e" by blast
      from t3 obtain e1 where e1: "trace s3 = trace s @ e1" "\<forall>e\<in>set e1. write_ok e" by blast
      have "trace s' = trace s @ (e1 @ e2)" using e1 e2 by simp
      moreover have "\<forall>e\<in>set (e1 @ e2). write_ok e" using e1 e2 by auto
      ultimately show ?thesis by blast
    qed
  qed
qed

lemma DoControl_active:
  assumes "ISR_DoControl C i sc s = Some s'" "active (mode (status s'))"
  shows "pwm_written (trace s) s'"
proof -
  from assms obtain s2 where p: "DoControl_prologue s = Some s2"
    by (auto simp add: ISR_DoControl_unfold split: option.splits)
  note sel = DoControl_prologue_sel[OF p]
  let ?c = "c_mode (current_data s)"
  have nf: "mode (status s') \<noteq> kFault" using assms(2) by (auto simp add: active_def)
  show ?thesis
  proof (cases "?c = mode (status s)")
    case True
    then have "control_tail C sc (current_data s2) s2 = Some s'"
      using assms p sel by (simp add: ISR_DoControl_unfold)
    from control_tail_active[OF this assms(2)] show ?thesis by (simp add: sel)
  next
    case False
    then obtain s3 where m: "ISR_MaybeChangeMode ?c s2 = Some s3"
      using assms p sel by (auto simp add: ISR_DoControl_unfold split: option.splits)
    have t: "control_tail C sc (current_data s2) s3 = Some s'"
      using assms(1) p sel False m nf by (auto simp add: ISR_DoControl_unfold split: if_splits)
    have w: "pwm_written (trace s3) s'" using control_tail_active[OF t assms(2)] .
    have "mode (status s3) \<noteq> kEnabling"
      using control_tail_mode[OF t] assms(2) by (auto simp add: active_def)
    then have "trace s3 = trace s"
      using MaybeChangeMode_cases[OF m]
      by (auto simp add: sel ISR_StartCalibrating_def)
    then show ?thesis using w by simp
  qed
qed

lemma Pwm0_tick:
  "ISR_DoTimer Collab0 Inputs0 Pwm0 \<noteq> None
   \<and> map_option trace (ISR_DoTimer Collab0 Inputs0 Pwm0)
       = Some [WriteCcr 1 562, WriteCcr 3 1012, WriteCcr 2 112, Power True]
   \<and> map_option (mode \<circ> status) (ISR_DoTimer Collab0 Inputs0 Pwm0) = Some kPwm
   \<and> map_option (ctl_pwm \<circ> control) (ISR_DoTimer Collab0 Inputs0 Pwm0) = Some (Vec3 0.5 0.9 0.1)"
  by (simp add: isr_eval Pwm0_def example_defs ISR_DoPwmControl_def LimitPwm_def Limit_def
      float_to_u16_def trunc0_def kPwmCounts_def floor_evals)

lemma fault_detected:
  assumes c: "active (c_mode (current_data s))" "c_mode (current_data s) \<noteq> mode (status s)"
    and n: "mode (status s) \<noteq> kNumModes"
    and sp: "c_set_position (current_data s) = None"
    and d: "in_driver_fault i \<or> max_voltage (config s) < bus_V (status s)"
  shows "\<exists>t. ISR_DoControl C i sc s = Some t \<and> mode (status t) = kFault
          \<and> fault (status t) = (if in_driver_fault i then kMotorDriverFault else kOverVoltage)
          \<and> (mode (status s) \<noteq> kStopped \<longrightarrow>
                trace t = trace s \<and> pwm1_ccr t = pwm1_ccr s \<and> pwm2_ccr t = pwm2_ccr s
                \<and> pwm3_ccr t = pwm3_ccr s)
          \<and> (mode (status s) = kStopped \<longrightarrow>
                trace t = trace s @ [WriteCcr 1 0, WriteCcr 2 0, WriteCcr 3 0, Power False]
                \<and> pwm1_ccr t = 0 \<and> pwm2_ccr t = 0 \<and> pwm3_ccr t = 0)"
proof -
  let ?s2 = "s\<lparr>control := Control_zero\<rparr>"
  have p: "DoControl_prologue s = Some ?s2" using sp by (rule DoControl_prologue_None)
  from MaybeChangeMode_active[of "c_mode (current_data s)" ?s2] c n
  obtain s3 where m: "ISR_MaybeChangeMode (c_mode (current_data s)) ?s2 = Some s3"
    and ns: "mode (status s3) \<noteq> kStopped"
    and b: "bus_V (status s3) = bus_V (status s)" "config s3 = config s"
    and k: "mode (status s) \<noteq> kStopped \<longrightarrow>
                  trace s3 = trace s \<and> pwm1_ccr s3 = pwm1_ccr s \<and> pwm2_ccr s3 = pwm2_ccr s
                  \<and> pwm3_ccr s3 = pwm3_ccr s"
    and st: "mode (status s) = kStopped \<longrightarrow> s3 = ISR_StartCalibrating ?s2"
    by auto
  show ?thesis
  proof (cases "in_driver_fault i")
    case True
    then show ?thesis using c(2) m ns k st
      by (auto simp add: ISR_DoControl_unfold p ISR_StartCalibrating_def)
  next
    case False
    then have "max_voltage (config s3) < bus_V (status s3)" using d b by simp
    then show ?thesis using False c(2) m ns k st
      by (auto simp add: ISR_DoControl_unfold p ISR_StartCalibrating_def)
  qed
qed

lemma fault_dispatch:
  assumes f: "mode (status s) = kFault" and c: "active (c_mode (current_data s))"
    and sp: "c_set_position (current_data s) = None"
    and q: "\<not> in_driver_fault i" "\<not> max_voltage (config s) < bus_V (status s)"
  shows "\<exists>t. ISR_DoControl C i sc s = Some t \<and> mode (status t) = kFault
          \<and> fault (status t) = fault (status s)
          \<and> trace t = trace s @ [Power False, WriteCcr 1 0, WriteCcr 2 0, WriteCcr 3 0]
          \<and> pwm1_ccr t = 0 \<and> pwm2_ccr t = 0 \<and> pwm3_ccr t = 0"
proof -
  let ?s2 = "s\<lparr>control := Control_zero\<rparr>"
  have p: "DoControl_prologue s = Some ?s2" using sp by (rule DoControl_prologue_None)
  have m: "ISR_MaybeChangeMode (c_mode (current_data s)) ?s2 = Some ?s2"
    using f c by (simp add: MaybeChangeMode_Fault)
  have ne: "c_mode (current_data s) \<noteq> mode (status s)" using f c by (auto simp add: active_def)
  show ?thesis using control_tail_Fault[of ?s2 C sc "current_data ?s2"] f q ne
    by (simp add: ISR_DoControl_unfold p m)
qed

subsection \<open>The encoder check\<close>

text \<open>
  C1. In \<^verbatim>\<open>ISR_DoSense\<close>, with \<open>delta\<close> the difference of the new and the previous
  \<^verbatim>\<open>position_raw\<close> read as a signed 16-bit number: when the mode is not \<^verbatim>\<open>kStopped\<close> and
  \<open>|delta| > 1000\<close>, the step leaves mode \<^verbatim>\<open>kFault\<close> with fault \<^verbatim>\<open>kEncoderFault\<close>; when
  the mode is \<^verbatim>\<open>kStopped\<close> or \<open>|delta| \<le> 1000\<close>, the step leaves mode and fault as they
  were.
\<close>

theorem encoder_delta_check:
  "(mode (status s) \<noteq> kStopped \<and> 1000 < \<bar>sint (in_position i - position_raw (status s))\<bar>
     \<longrightarrow> mode (status (ISR_DoSense C i s)) = kFault
         \<and> fault (status (ISR_DoSense C i s)) = kEncoderFault)
  \<and> (mode (status s) = kStopped \<or> \<bar>sint (in_position i - position_raw (status s))\<bar> \<le> 1000
     \<longrightarrow> mode (status (ISR_DoSense C i s)) = mode (status s)
         \<and> fault (status (ISR_DoSense C i s)) = fault (status s))"
  by (simp add: ISR_DoSense_def Let_def kMaxPositionDelta_def)

text \<open>Two instances in mode \<^verbatim>\<open>kPwm\<close>: a jump of 2000 counts faults; the step from 65000
  to 100, which is 636 counts across the wrap, does not.\<close>

theorem encoder_delta_check_witness:
  "mode (status (ISR_DoSense Collab0 (Inputs0\<lparr>in_position := 2000\<rparr>)
       (Impl0\<lparr>status := Status0\<lparr>mode := kPwm\<rparr>\<rparr>))) = kFault
   \<and> fault (status (ISR_DoSense Collab0 (Inputs0\<lparr>in_position := 2000\<rparr>)
       (Impl0\<lparr>status := Status0\<lparr>mode := kPwm\<rparr>\<rparr>))) = kEncoderFault
   \<and> sint ((100 :: u16) - 65000) = 636
   \<and> mode (status (ISR_DoSense Collab0 (Inputs0\<lparr>in_position := 100\<rparr>)
       (Impl0\<lparr>status := Status0\<lparr>mode := kPwm, position_raw := 65000\<rparr>\<rparr>))) = kPwm
   \<and> fault (status (ISR_DoSense Collab0 (Inputs0\<lparr>in_position := 100\<rparr>)
       (Impl0\<lparr>status := Status0\<lparr>mode := kPwm, position_raw := 65000\<rparr>\<rparr>))) = kSuccess"
  using encoder_delta_check [of "Impl0\<lparr>status := Status0\<lparr>mode := kPwm\<rparr>\<rparr>"
          "Inputs0\<lparr>in_position := 2000\<rparr>" Collab0]
        encoder_delta_check [of "Impl0\<lparr>status := Status0\<lparr>mode := kPwm, position_raw := 65000\<rparr>\<rparr>"
          "Inputs0\<lparr>in_position := 100\<rparr>" Collab0]
  by (simp add: Impl0_def Status0_def Inputs0_def)

subsection \<open>Compare-register writes\<close>

text \<open>
  C2, as stated: every duty written to the hardware lies in \<open>[0.1, 0.9]\<close>, that is every
  value stored to a compare register lies in \<open>[0.1 * counts, 0.9 * counts]\<close>, in every
  mode. The very first interrupt after construction, in mode \<^verbatim>\<open>kStopped\<close>, stores 0 to
  the three registers, and 0 is below \<open>0.1 * 1125\<close>.
\<close>

theorem pwm_writes_counterexample:
  "map_option trace (ISR_DoTimer Collab0 Inputs0 Impl0)
     = Some [Enable False, Power False, WriteCcr 1 0, WriteCcr 2 0, WriteCcr 3 0]
   \<and> \<not> (0.1 * real kPwmCounts \<le> real (unat (0 :: u32)))"
  by (simp add: isr_eval example_defs kPwmCounts_def)

lemma cycle_bus_V:
  "bus_V (status (ISR_CalculateCurrentState C (ISR_DoSense C i s)))
     = real (unat (in_adc3 i)) * v_scale_V (config s)"
  by (simp add: ISR_CalculateCurrentState_def ISR_DoSense_def Let_def)

lemma Volt0_tick:
  "ISR_DoTimer Collab0 Inputs0 Volt0 \<noteq> None
   \<and> map_option trace (ISR_DoTimer Collab0 Inputs0 Volt0)
       = Some [WriteCcr 1 1012, WriteCcr 3 562, WriteCcr 2 562, Power True]
   \<and> map_option (mode \<circ> status) (ISR_DoTimer Collab0 Inputs0 Volt0) = Some kVoltage"
  by (simp add: isr_eval Volt0_def example_defs ISR_DoVoltageControl_def voltage_to_pwm_def
      ISR_DoPwmControl_def LimitPwm_def Limit_def
      float_to_u16_def trunc0_def kPwmCounts_def floor_evals)

text \<open>
  C2, amended. \<^verbatim>\<open>ISR_DoPwmControl\<close> always returns; the duties it leaves in
  \<^verbatim>\<open>control_.pwm\<close> are the commanded ones clamped by \<^verbatim>\<open>LimitPwm\<close> and lie in
  \<open>[0.1, 0.9]\<close>, and the registers receive their products with 1125 converted to an
  integer (in exact arithmetic, the integer part). The bus voltage of a cycle is the
  reading of \<^verbatim>\<open>adc3_raw\<close> times \<open>v_scale_V\<close> (\<open>cycle_bus_V\<close>). In a cycle whose bus
  voltage is not 0, or that ends in a mode that does not divide by it (any mode other
  than \<^verbatim>\<open>kVoltage\<close>, \<^verbatim>\<open>kVoltageFoc\<close>, \<^verbatim>\<open>kCurrent\<close>, \<^verbatim>\<open>kPosition\<close>), every store to a
  compare register is 0 or lies between 112 and 1012. When such a cycle ends in one of
  the five active modes, the three registers hold values between 112 and 1012. Of a
  cycle that divides by a bus voltage of 0 nothing is stated.
\<close>

theorem pwm_writes_amended:
  "(\<exists>t. ISR_DoPwmControl p s = Some t
         \<and> ctl_pwm (control t) = Vec3 (LimitPwm (vec_a p)) (LimitPwm (vec_b p)) (LimitPwm (vec_c p))
         \<and> 0.1 \<le> LimitPwm (vec_a p) \<and> LimitPwm (vec_a p) \<le> 0.9
         \<and> 0.1 \<le> LimitPwm (vec_b p) \<and> LimitPwm (vec_b p) \<le> 0.9
         \<and> 0.1 \<le> LimitPwm (vec_c p) \<and> LimitPwm (vec_c p) \<le> 0.9
         \<and> pwm_written (trace s) t)
   \<and> (ISR_DoTimer C i s = Some s'
        \<and> (real (unat (in_adc3 i)) * v_scale_V (config s) \<noteq> 0
            \<or> \<not> via_voltage (mode (status s')))
        \<longrightarrow> (\<exists>evs. trace s' = trace s @ evs \<and> (\<forall>e\<in>set evs. write_ok e)))
   \<and> (ISR_DoTimer C i s = Some s' \<and> active (mode (status s'))
        \<and> (real (unat (in_adc3 i)) * v_scale_V (config s) \<noteq> 0 \<or> mode (status s') = kPwm)
        \<longrightarrow> pwm_written (trace s) s'
          \<and> 112 \<le> unat (pwm1_ccr s') \<and> unat (pwm1_ccr s') \<le> 1012
          \<and> 112 \<le> unat (pwm2_ccr s') \<and> unat (pwm2_ccr s') \<le> 1012
          \<and> 112 \<le> unat (pwm3_ccr s') \<and> unat (pwm3_ccr s') \<le> 1012)"
proof -
  obtain t where t: "ISR_DoPwmControl p s = Some t" using ISR_DoPwmControl_Some by blast
  from ISR_DoPwmControl_effect[OF t] LimitPwm_bounds[of "vec_a p"] LimitPwm_bounds[of "vec_b p"]
    LimitPwm_bounds[of "vec_c p"] t
  have A: "\<exists>t. ISR_DoPwmControl p s = Some t
         \<and> ctl_pwm (control t) = Vec3 (LimitPwm (vec_a p)) (LimitPwm (vec_b p)) (LimitPwm (vec_c p))
         \<and> 0.1 \<le> LimitPwm (vec_a p) \<and> LimitPwm (vec_a p) \<le> 0.9
         \<and> 0.1 \<le> LimitPwm (vec_b p) \<and> LimitPwm (vec_b p) \<le> 0.9
         \<and> 0.1 \<le> LimitPwm (vec_c p) \<and> LimitPwm (vec_c p) \<le> 0.9
         \<and> pwm_written (trace s) t"
    by simp
  have B: "\<exists>evs. trace s' = trace s @ evs \<and> (\<forall>e\<in>set evs. write_ok e)"
    if "ISR_DoTimer C i s = Some s'"
    using DoControl_trace[OF that[unfolded ISR_DoTimer_def Let_def]] by simp
  have D: "pwm_written (trace s) s'
          \<and> 112 \<le> unat (pwm1_ccr s') \<and> unat (pwm1_ccr s') \<le> 1012
          \<and> 112 \<le> unat (pwm2_ccr s') \<and> unat (pwm2_ccr s') \<le> 1012
          \<and> 112 \<le> unat (pwm3_ccr s') \<and> unat (pwm3_ccr s') \<le> 1012"
    if d: "ISR_DoTimer C i s = Some s'" and m: "active (mode (status s'))"
  proof -
    from DoControl_active[OF d[unfolded ISR_DoTimer_def Let_def] m]
    have w: "pwm_written (trace s) s'" by simp
    then show ?thesis using pwm_written_regs[OF w] by simp
  qed
  from A B D show ?thesis by blast
qed

text \<open>One interrupt in mode \<^verbatim>\<open>kVoltage\<close> on a bus of 24 V with the commanded voltages
  12, 0 and 0: the stores are 1012, 562 and 562. One interrupt in mode \<^verbatim>\<open>kPwm\<close>, which
  does not divide by the bus voltage, with the commanded duties 0.5, 1.5 and -1: the
  stores are 562, 1012 (for \<open>b\<close>, third register) and 112 (for \<open>c\<close>, second register).\<close>

theorem pwm_writes_amended_witness:
  "real (unat (in_adc3 Inputs0)) * v_scale_V (config Volt0) \<noteq> 0
   \<and> map_option trace (ISR_DoTimer Collab0 Inputs0 Volt0)
       = Some [WriteCcr 1 1012, WriteCcr 3 562, WriteCcr 2 562, Power True]
   \<and> map_option (mode \<circ> status) (ISR_DoTimer Collab0 Inputs0 Volt0) = Some kVoltage
   \<and> active kVoltage
   \<and> write_ok (WriteCcr 1 1012) \<and> write_ok (WriteCcr 3 562) \<and> write_ok (WriteCcr 2 562)
   \<and> (\<exists>t. ISR_DoTimer Collab0 Inputs0 Volt0 = Some t \<and> pwm_written (trace Volt0) t
          \<and> unat (pwm1_ccr t) = 1012 \<and> unat (pwm2_ccr t) = 562 \<and> unat (pwm3_ccr t) = 562)
   \<and> \<not> via_voltage kPwm
   \<and> map_option trace (ISR_DoTimer Collab0 Inputs0 Pwm0)
       = Some [WriteCcr 1 562, WriteCcr 3 1012, WriteCcr 2 112, Power True]
   \<and> (\<exists>t. ISR_DoTimer Collab0 Inputs0 Pwm0 = Some t \<and> mode (status t) = kPwm
          \<and> pwm_written (trace Pwm0) t)"
proof -
  have b: "real (unat (in_adc3 Inputs0)) * v_scale_V (config Volt0) \<noteq> 0"
    by (simp add: Inputs0_def Volt0_def Impl0_def Config0_def)
  from Volt0_tick obtain t where t: "ISR_DoTimer Collab0 Inputs0 Volt0 = Some t" by auto
  then have m: "mode (status t) = kVoltage"
    and tr: "trace t = [WriteCcr 1 1012, WriteCcr 3 562, WriteCcr 2 562, Power True]"
    using Volt0_tick by simp_all
  have a: "active (mode (status t))" using m by (simp add: active_def)
  from pwm_writes_amended[of "Vec3 0.5 1.5 (- 1)" Volt0 Collab0 Inputs0 t] t a b
  have w: "pwm_written (trace Volt0) t"
    and e: "\<exists>evs. trace t = trace Volt0 @ evs \<and> (\<forall>e\<in>set evs. write_ok e)" by simp_all
  have t0: "trace Volt0 = []" by (simp add: Volt0_def Impl0_def)
  with e tr have ok: "write_ok (WriteCcr 1 1012) \<and> write_ok (WriteCcr 3 562)
      \<and> write_ok (WriteCcr 2 562)"
    by simp
  from w tr t0 have regs: "unat (pwm1_ccr t) = 1012 \<and> unat (pwm2_ccr t) = 562
      \<and> unat (pwm3_ccr t) = 562"
    by (auto simp add: pwm_written_def)
  from Pwm0_tick obtain u where u: "ISR_DoTimer Collab0 Inputs0 Pwm0 = Some u" by auto
  then have mu: "mode (status u) = kPwm"
    and tru: "trace u = [WriteCcr 1 562, WriteCcr 3 1012, WriteCcr 2 112, Power True]"
    using Pwm0_tick by simp_all
  have au: "active (mode (status u))" using mu by (simp add: active_def)
  from pwm_writes_amended[of "Vec3 0.5 1.5 (- 1)" Pwm0 Collab0 Inputs0 u] u au mu
  have wu: "pwm_written (trace Pwm0) u" by simp
  have nv: "\<not> via_voltage kPwm" by (simp add: via_voltage_def)
  show ?thesis using b t m tr ok w regs nv u mu tru wu by (simp add: active_def)
qed

subsection \<open>Leaving the fault state\<close>

text \<open>
  C3. In mode \<^verbatim>\<open>kFault\<close>, \<^verbatim>\<open>ISR_MaybeChangeMode\<close> with one of the five active modes
  returns the state unchanged. With \<^verbatim>\<open>kStopped\<close> it sets the mode to \<^verbatim>\<open>kStopped\<close> from
  any state. Whatever step is taken from \<^verbatim>\<open>kFault\<close> (an interrupt, \<^verbatim>\<open>PollMillisecond\<close>
  or \<^verbatim>\<open>Command\<close>), the mode afterwards is \<^verbatim>\<open>kFault\<close> or \<^verbatim>\<open>kStopped\<close>; an interrupt
  whose command is not \<^verbatim>\<open>kStopped\<close> leaves it at \<^verbatim>\<open>kFault\<close>; and an interrupt whose
  command is \<^verbatim>\<open>kStopped\<close> returns and ends in \<^verbatim>\<open>kStopped\<close>, from any state.
\<close>

theorem fault_only_to_stopped:
  "(mode (status s) = kFault \<and> active m \<longrightarrow> ISR_MaybeChangeMode m s = Some s)
   \<and> ISR_MaybeChangeMode kStopped s = Some (s\<lparr>status := (status s)\<lparr>mode := kStopped\<rparr>\<rparr>)
   \<and> (mode (status s) = kFault \<and> exec_step C x s = Some s'
        \<longrightarrow> mode (status s') = kFault \<or> mode (status s') = kStopped)
   \<and> (mode (status s) = kFault \<and> c_mode (current_data s) \<noteq> kStopped
        \<and> ISR_DoTimer C i s = Some s' \<longrightarrow> mode (status s') = kFault)
   \<and> (c_mode (current_data s) = kStopped \<and> c_set_position (current_data s) = None
        \<longrightarrow> (\<exists>t. ISR_DoTimer C i s = Some t \<and> mode (status t) = kStopped))"
proof (intro conjI impI)
  assume "mode (status s) = kFault \<and> active m"
  then show "ISR_MaybeChangeMode m s = Some s" by (simp add: MaybeChangeMode_Fault)
next
  show "ISR_MaybeChangeMode kStopped s = Some (s\<lparr>status := (status s)\<lparr>mode := kStopped\<rparr>\<rparr>)"
    by simp
next
  assume "mode (status s) = kFault \<and> exec_step C x s = Some s'"
  then show "mode (status s') = kFault \<or> mode (status s') = kStopped"
    using exec_step_from_Fault by blast
next
  assume a: "mode (status s) = kFault \<and> c_mode (current_data s) \<noteq> kStopped
        \<and> ISR_DoTimer C i s = Some s'"
  then have "ISR_DoTimer C i s = Some s'" by simp
  from DoTimer_mode_cases[OF this] a show "mode (status s') = kFault"
    by (auto simp add: active_def)
next
  assume "c_mode (current_data s) = kStopped \<and> c_set_position (current_data s) = None"
  then show "\<exists>t. ISR_DoTimer C i s = Some t \<and> mode (status t) = kStopped"
    using DoTimer_Stopped_cmd[of s C i] by blast
qed

theorem fault_only_to_stopped_witness:
  "mode (status FaultedV0) = kFault
   \<and> active kVoltage
   \<and> ISR_MaybeChangeMode kVoltage FaultedV0
       = Some FaultedV0
   \<and> map_option (mode \<circ> status)
        (ISR_DoTimer Collab0 Inputs0 FaultedV0)
       = Some kFault
   \<and> c_mode (current_data Faulted0) = kStopped
   \<and> (\<exists>t. ISR_DoTimer Collab0 Inputs0 Faulted0 = Some t \<and> mode (status t) = kStopped)"
proof -
  let ?s = FaultedV0
  have e: "ISR_DoTimer Collab0 Inputs0 ?s \<noteq> None"
    by (simp add: isr_eval FaultedV0_def Faulted0_def example_defs)
  then obtain t where t: "ISR_DoTimer Collab0 Inputs0 ?s = Some t" by auto
  have h: "mode (status ?s) = kFault" "c_mode (current_data ?s) \<noteq> kStopped"
    by (simp_all add: FaultedV0_def Faulted0_def example_defs)
  have "mode (status t) = kFault"
    using fault_only_to_stopped[of ?s kVoltage Collab0 "Tick Inputs0" t Inputs0] t h by simp
  moreover have "c_mode (current_data Faulted0) = kStopped"
    "c_set_position (current_data Faulted0) = None"
    by (simp_all add: Faulted0_def example_defs)
  ultimately show ?thesis
    using fault_only_to_stopped[of Faulted0 kVoltage Collab0 "Tick Inputs0" t Inputs0] t h
    by (simp add: active_def MaybeChangeMode_Fault)
qed

subsection \<open>The fault field after recovery\<close>

text \<open>
  C5, as stated: after a fault and the recovery by a \<^verbatim>\<open>kStopped\<close> command the fault field
  still holds the cause. In mode \<^verbatim>\<open>kFault\<close> with fault \<^verbatim>\<open>kEncoderFault\<close> and the command
  \<^verbatim>\<open>kStopped\<close>, one interrupt leaves mode \<^verbatim>\<open>kStopped\<close> and fault \<^verbatim>\<open>kSuccess\<close>.
\<close>

theorem fault_field_counterexample:
  "map_option (mode \<circ> status)
     (ISR_DoTimer Collab0 Inputs0 Faulted0)
     = Some kStopped
   \<and> map_option (fault \<circ> status)
     (ISR_DoTimer Collab0 Inputs0 Faulted0)
     = Some kSuccess"
proof -
  obtain t where "ISR_DoTimer Collab0 Inputs0 Faulted0 = Some t"
    "mode (status t) = kStopped" "fault (status t) = kSuccess"
    using DoTimer_Stopped_cmd[of Faulted0 Collab0 Inputs0]
    by (auto simp add: Faulted0_def Impl0_def Command0_def)
  then show ?thesis by simp
qed

text \<open>
  C5, amended. An interrupt that ends in a mode other than \<^verbatim>\<open>kFault\<close> leaves fault at
  \<^verbatim>\<open>kSuccess\<close>; in particular the interrupt that takes up a \<^verbatim>\<open>kStopped\<close> command
  returns with mode \<^verbatim>\<open>kStopped\<close> and fault \<^verbatim>\<open>kSuccess\<close>. The cause of a fault is
  readable only while the mode is \<^verbatim>\<open>kFault\<close>.
\<close>

theorem fault_field_cleared:
  "(ISR_DoTimer C i s = Some s' \<and> mode (status s') \<noteq> kFault \<longrightarrow> fault (status s') = kSuccess)
   \<and> (c_mode (current_data s) = kStopped \<and> c_set_position (current_data s) = None
        \<longrightarrow> (\<exists>t. ISR_DoTimer C i s = Some t \<and> mode (status t) = kStopped
                  \<and> fault (status t) = kSuccess))"
  using DoTimer_fault[of C i s s'] DoTimer_Stopped_cmd[of s C i] by blast

theorem fault_field_cleared_witness:
  "c_mode (current_data Faulted0) = kStopped
   \<and> c_set_position (current_data Faulted0) = None
   \<and> (\<exists>t. ISR_DoTimer Collab0 Inputs0 Faulted0 = Some t
          \<and> mode (status t) = kStopped \<and> fault (status t) = kSuccess)"
  using fault_field_cleared[of Collab0 Inputs0 Faulted0]
  by (simp add: Faulted0_def Impl0_def Command0_def)

subsection \<open>Voltage mode\<close>

text \<open>
  C8. In mode \<^verbatim>\<open>kVoltage\<close> with the command \<^verbatim>\<open>kVoltage\<close> and a bus voltage other than
  0, \<^verbatim>\<open>ISR_DoControl\<close> returns, \<^verbatim>\<open>control_.voltage\<close> holds the commanded phase voltages,
  the duties are \<open>LimitPwm (0.5 + 2 * v / bus_V)\<close> for each phase voltage \<open>v\<close>, and they
  went through the PWM path. With \<open>bus_V = 24\<close> and the phase voltages 12, 0, 0 the duties
  are 0.9, 0.5, 0.5 and the registers hold 1012, 562, 562.
\<close>

theorem voltage_mode_duty:
  "(mode (status s) = kVoltage \<and> c_mode (current_data s) = kVoltage
      \<and> c_set_position (current_data s) = None \<and> bus_V (status s) \<noteq> 0
     \<longrightarrow> (\<exists>t. ISR_DoControl C i sc s = Some t
            \<and> ctl_voltage (control t) = c_phase_v (current_data s)
            \<and> ctl_pwm (control t) =
                Vec3 (LimitPwm (0.5 + 2 * vec_a (c_phase_v (current_data s)) / bus_V (status s)))
                     (LimitPwm (0.5 + 2 * vec_b (c_phase_v (current_data s)) / bus_V (status s)))
                     (LimitPwm (0.5 + 2 * vec_c (c_phase_v (current_data s)) / bus_V (status s)))
            \<and> pwm_written (trace s) t))
   \<and> (mode (status s) = kVoltage \<and> c_mode (current_data s) = kVoltage
      \<and> c_set_position (current_data s) = None \<and> bus_V (status s) = 24
      \<and> c_phase_v (current_data s) = Vec3 12 0 0
     \<longrightarrow> (\<exists>t. ISR_DoControl C i sc s = Some t
            \<and> ctl_pwm (control t) = Vec3 0.9 0.5 0.5
            \<and> pwm1_ccr t = 1012 \<and> pwm3_ccr t = 562 \<and> pwm2_ccr t = 562))"
proof -
  have A: "\<exists>t. ISR_DoControl C i sc s = Some t
            \<and> ctl_voltage (control t) = c_phase_v (current_data s)
            \<and> ctl_pwm (control t) =
                Vec3 (LimitPwm (0.5 + 2 * vec_a (c_phase_v (current_data s)) / bus_V (status s)))
                     (LimitPwm (0.5 + 2 * vec_b (c_phase_v (current_data s)) / bus_V (status s)))
                     (LimitPwm (0.5 + 2 * vec_c (c_phase_v (current_data s)) / bus_V (status s)))
            \<and> pwm_written (trace s) t"
    if h: "mode (status s) = kVoltage" "c_mode (current_data s) = kVoltage"
      "c_set_position (current_data s) = None"
  proof -
    let ?s2 = "s\<lparr>control := Control_zero\<rparr>"
    let ?s3 = "ISR_ClearPid C ?s2"
    let ?s4 = "?s3\<lparr>status := (status ?s3)\<lparr>fault := kSuccess\<rparr>\<rparr>"
    have p: "DoControl_prologue s = Some ?s2" using h(3) by (rule DoControl_prologue_None)
    have e: "ISR_DoControl C i sc s = ISR_DoVoltageControl (c_phase_v (current_data s)) ?s4"
      using h by (simp add: ISR_DoControl_unfold p control_tail_def Let_def dispatch_def)
    obtain t where t: "ISR_DoVoltageControl (c_phase_v (current_data s)) ?s4 = Some t"
      using Some_lemmas(1) by blast
    have "ctl_voltage (control t) = c_phase_v (current_data s)"
      using t by (auto simp add: ISR_DoVoltageControl_def ISR_DoPwmControl_def Let_def
          split: option.splits)
    then show ?thesis using ISR_DoVoltageControl_effect[OF t] e t by simp
  qed
  have B: "\<exists>t. ISR_DoControl C i sc s = Some t
            \<and> ctl_pwm (control t) = Vec3 0.9 0.5 0.5
            \<and> pwm1_ccr t = 1012 \<and> pwm3_ccr t = 562 \<and> pwm2_ccr t = 562"
    if h: "mode (status s) = kVoltage" "c_mode (current_data s) = kVoltage"
      "c_set_position (current_data s) = None" and v: "bus_V (status s) = 24"
      "c_phase_v (current_data s) = Vec3 12 0 0"
  proof -
    from A[OF h] obtain t where t: "ISR_DoControl C i sc s = Some t"
      and d: "ctl_pwm (control t) = Vec3 (LimitPwm 1.5) (LimitPwm 0.5) (LimitPwm 0.5)"
      and w: "pwm_written (trace s) t"
      by (auto simp add: v)
    have d': "ctl_pwm (control t) = Vec3 0.9 0.5 0.5"
      using d by (simp add: LimitPwm_def Limit_def)
    have f: "float_to_u16 (vec_a (ctl_pwm (control t)) * real kPwmCounts) = Some 1012"
      "float_to_u16 (vec_b (ctl_pwm (control t)) * real kPwmCounts) = Some 562"
      "float_to_u16 (vec_c (ctl_pwm (control t)) * real kPwmCounts) = Some 562"
      unfolding d' by (simp_all add: float_to_u16_def trunc0_def kPwmCounts_def floor_evals)
    from w have "pwm1_ccr t = 1012 \<and> pwm3_ccr t = 562 \<and> pwm2_ccr t = 562"
      unfolding pwm_written_def f by auto
    then show ?thesis using t d' by simp
  qed
  from A B show ?thesis by blast
qed

theorem voltage_mode_duty_witness:
  "mode (status Volt0) = kVoltage \<and> c_mode (current_data Volt0) = kVoltage
   \<and> c_set_position (current_data Volt0) = None \<and> bus_V (status Volt0) = 24
   \<and> c_phase_v (current_data Volt0) = Vec3 12 0 0
   \<and> (\<exists>t. ISR_DoControl Collab0 Inputs0 0 Volt0 = Some t
          \<and> ctl_pwm (control t) = Vec3 0.9 0.5 0.5
          \<and> pwm1_ccr t = 1012 \<and> pwm3_ccr t = 562 \<and> pwm2_ccr t = 562)"
  using voltage_mode_duty[of Volt0 Collab0 Inputs0 0]
  by (simp add: Volt0_def example_defs)

subsection \<open>The cycle in which a driver fault or over-voltage is detected\<close>

text \<open>
  C9, as stated: in the cycle in which the check fires, the compare registers keep their
  values and \<^verbatim>\<open>Power(false)\<close> is not called. From \<^verbatim>\<open>kStopped\<close> with the command
  \<^verbatim>\<open>kPwm\<close> and a driver fault, \<^verbatim>\<open>ISR_DoControl\<close> ends in \<^verbatim>\<open>kFault\<close> with
  \<^verbatim>\<open>kMotorDriverFault\<close>, and \<^verbatim>\<open>ISR_StartCalibrating\<close> has stored 0 to the three
  registers and called \<^verbatim>\<open>Power(false)\<close> in that cycle.
\<close>

theorem fault_cycle_counterexample:
  "map_option (mode \<circ> status)
     (ISR_DoControl Collab0 (Inputs0\<lparr>in_driver_fault := True\<rparr>) 0
        (Impl0\<lparr>current_data := Command0\<lparr>c_mode := kPwm\<rparr>\<rparr>)) = Some kFault
   \<and> map_option (fault \<circ> status)
     (ISR_DoControl Collab0 (Inputs0\<lparr>in_driver_fault := True\<rparr>) 0
        (Impl0\<lparr>current_data := Command0\<lparr>c_mode := kPwm\<rparr>\<rparr>)) = Some kMotorDriverFault
   \<and> map_option trace
     (ISR_DoControl Collab0 (Inputs0\<lparr>in_driver_fault := True\<rparr>) 0
        (Impl0\<lparr>current_data := Command0\<lparr>c_mode := kPwm\<rparr>\<rparr>))
       = Some [WriteCcr 1 0, WriteCcr 2 0, WriteCcr 3 0, Power False]"
  by (simp add: isr_eval example_defs)

text \<open>
  C9, amended. When the command is an active mode different from the current mode and
  the driver reports a fault or the bus voltage exceeds \<open>max_voltage\<close>, \<^verbatim>\<open>ISR_DoControl\<close>
  returns with mode \<^verbatim>\<open>kFault\<close> and the fault code of the check. If the mode before was
  not \<^verbatim>\<open>kStopped\<close>, the trace and the three registers are as before: nothing was
  written and the driver was not called. If it was \<^verbatim>\<open>kStopped\<close>, the cycle has made the
  three stores of 0 and the call \<^verbatim>\<open>Power(false)\<close> of \<^verbatim>\<open>ISR_StartCalibrating\<close>, and
  nothing else. A later cycle in mode \<^verbatim>\<open>kFault\<close> in which the check does not fire
  reaches \<^verbatim>\<open>ISR_DoFault\<close>, which calls \<^verbatim>\<open>Power(false)\<close> and stores 0 three times.
\<close>

theorem fault_cycle_frame:
  "(active (c_mode (current_data s)) \<and> c_mode (current_data s) \<noteq> mode (status s)
      \<and> mode (status s) \<noteq> kNumModes \<and> c_set_position (current_data s) = None
      \<and> (in_driver_fault i \<or> max_voltage (config s) < bus_V (status s))
     \<longrightarrow> (\<exists>t. ISR_DoControl C i sc s = Some t \<and> mode (status t) = kFault
          \<and> fault (status t) = (if in_driver_fault i then kMotorDriverFault else kOverVoltage)
          \<and> (mode (status s) \<noteq> kStopped \<longrightarrow>
                trace t = trace s \<and> pwm1_ccr t = pwm1_ccr s \<and> pwm2_ccr t = pwm2_ccr s
                \<and> pwm3_ccr t = pwm3_ccr s)
          \<and> (mode (status s) = kStopped \<longrightarrow>
                trace t = trace s @ [WriteCcr 1 0, WriteCcr 2 0, WriteCcr 3 0, Power False]
                \<and> pwm1_ccr t = 0 \<and> pwm2_ccr t = 0 \<and> pwm3_ccr t = 0)))
   \<and> (mode (status s) = kFault \<and> active (c_mode (current_data s))
      \<and> c_set_position (current_data s) = None
      \<and> \<not> in_driver_fault i \<and> \<not> max_voltage (config s) < bus_V (status s)
     \<longrightarrow> (\<exists>t. ISR_DoControl C i sc s = Some t \<and> mode (status t) = kFault
          \<and> fault (status t) = fault (status s)
          \<and> trace t = trace s @ [Power False, WriteCcr 1 0, WriteCcr 2 0, WriteCcr 3 0]
          \<and> pwm1_ccr t = 0 \<and> pwm2_ccr t = 0 \<and> pwm3_ccr t = 0))"
  using fault_detected[of s i C sc] fault_dispatch[of s i C sc] by blast

theorem fault_cycle_frame_witness:
  "active (c_mode (current_data Running0))
   \<and> c_mode (current_data Running0) \<noteq> mode (status Running0)
   \<and> max_voltage (config Running0) < bus_V (status Running0)
   \<and> (\<exists>t. ISR_DoControl Collab0 Inputs0 0 Running0 = Some t \<and> mode (status t) = kFault
          \<and> fault (status t) = kOverVoltage \<and> trace t = []
          \<and> pwm1_ccr t = 562 \<and> pwm2_ccr t = 562 \<and> pwm3_ccr t = 562)
   \<and> mode (status FaultedV0) = kFault
   \<and> (\<exists>t. ISR_DoControl Collab0 Inputs0 0 FaultedV0 = Some t
          \<and> mode (status t) = kFault \<and> fault (status t) = kEncoderFault
          \<and> trace t = [Power False, WriteCcr 1 0, WriteCcr 2 0, WriteCcr 3 0])"
proof -
  let ?F = FaultedV0
  have R: "mode (status Running0) = kPwm" "c_mode (current_data Running0) = kVoltage"
    "c_set_position (current_data Running0) = None" "max_voltage (config Running0) = 30"
    "bus_V (status Running0) = 48" "trace Running0 = []" "pwm1_ccr Running0 = 562"
    "pwm2_ccr Running0 = 562" "pwm3_ccr Running0 = 562"
    by (simp_all add: Running0_def example_defs)
  have F: "mode (status ?F) = kFault" "c_mode (current_data ?F) = kVoltage"
    "c_set_position (current_data ?F) = None" "max_voltage (config ?F) = 30"
    "bus_V (status ?F) = 0" "trace ?F = []" "fault (status ?F) = kEncoderFault"
    by (simp_all add: FaultedV0_def Faulted0_def example_defs)
  have I: "\<not> in_driver_fault Inputs0" by (simp add: Inputs0_def)
  show ?thesis
    using fault_cycle_frame[of Running0 Inputs0 Collab0 0] fault_cycle_frame[of ?F Inputs0 Collab0 0]
    by (simp add: R F I active_def) blast
qed

subsection \<open>When the driver-fault and over-voltage checks run\<close>

lemma control_tail_fault_cases:
  assumes "control_tail C sc d s = Some s'"
  shows "(mode (status s') \<noteq> kFault \<and> fault (status s') = kSuccess)
       \<or> (mode (status s) = kFault \<and> mode (status s') = kFault
            \<and> fault (status s') = fault (status s))
       \<or> (mode (status s) = kCalibrating \<and> mode (status s') = kFault
            \<and> fault (status s') = kCalibrationFault)"
proof (cases "mode (status s') = kFault")
  case False
  then show ?thesis using control_tail_fault[OF assms] by simp
next
  case True
  let ?s1 = "ISR_ClearPid C s"
  let ?s2 = "if mode (status ?s1) \<noteq> kFault
             then ?s1\<lparr>status := (status ?s1)\<lparr>fault := kSuccess\<rparr>\<rparr> else ?s1"
  have d: "dispatch C sc d ?s2 = Some s'" using assms by (simp add: control_tail_def Let_def)
  from dispatch_cases[OF d] True show ?thesis
    by (auto simp add: ISR_DoStopped_def ISR_DoFault_def ISR_DoCalibrating_def Let_def active_def
        split: if_splits)
qed

lemma steady_control:
  assumes e: "c_mode (current_data s) = mode (status s)"
  shows "ISR_DoControl C i sc s = ISR_DoControl C j sc s"
proof (cases "DoControl_prologue s")
  case None
  then show ?thesis by (simp add: ISR_DoControl_unfold)
next
  case (Some s2)
  note sel = DoControl_prologue_sel[OF Some]
  show ?thesis using e by (simp add: ISR_DoControl_unfold Some sel)
qed

lemma steady_control_result:
  assumes e: "c_mode (current_data s) = mode (status s)"
    and r: "ISR_DoControl C i sc s = Some s'"
  shows "(mode (status s') = mode (status s) \<and> mode (status s) \<noteq> kFault
            \<and> fault (status s') = kSuccess)
       \<or> (mode (status s) = kFault \<and> mode (status s') = kFault
            \<and> fault (status s') = fault (status s))
       \<or> (mode (status s) = kCalibrating
            \<and> ((mode (status s') = kFault \<and> fault (status s') = kCalibrationFault)
               \<or> (mode (status s') = kCalibrationComplete \<and> fault (status s') = kSuccess)))"
proof -
  from r obtain s2 where p: "DoControl_prologue s = Some s2"
    by (auto simp add: ISR_DoControl_unfold split: option.splits)
  note sel = DoControl_prologue_sel[OF p]
  have t: "control_tail C sc (current_data s2) s2 = Some s'"
    using r e by (simp add: ISR_DoControl_unfold p sel)
  from control_tail_fault_cases[OF t] control_tail_mode[OF t] show ?thesis
    by (auto simp add: sel)
qed

lemma steady_control_Some:
  assumes e: "c_mode (current_data s) = mode (status s)"
    and a: "active (mode (status s))"
    and sp: "c_set_position (current_data s) = None"
    and mc: "mode (status s) = kPosition \<longrightarrow> 0 \<le> c_max_current (current_data s)"
  shows "\<exists>t. ISR_DoControl C i sc s = Some t \<and> mode (status t) = mode (status s)
             \<and> fault (status t) = kSuccess \<and> current_data t = current_data s"
proof -
  let ?s2 = "s\<lparr>control := Control_zero\<rparr>"
  have p: "DoControl_prologue s = Some ?s2" using sp by (rule DoControl_prologue_None)
  from control_tail_Some[of ?s2 "current_data ?s2" C sc] mc
  obtain t where t: "control_tail C sc (current_data ?s2) ?s2 = Some t" by auto
  then have r: "ISR_DoControl C i sc s = Some t" using e by (simp add: ISR_DoControl_unfold p)
  have "active (mode (status (ISR_ClearPid C ?s2)))" using a by simp
  have d: "dispatch C sc (current_data s)
             ((ISR_ClearPid C ?s2)\<lparr>status := (status (ISR_ClearPid C ?s2))\<lparr>fault := kSuccess\<rparr>\<rparr>)
           = Some t"
    using t a by (auto simp add: control_tail_def Let_def active_def)
  from dispatch_cases[OF d] a have "current_data t = current_data s"
    by (auto simp add: active_def)
  moreover from steady_control_result[OF e r] a
  have "mode (status t) = mode (status s) \<and> fault (status t) = kSuccess"
    by (auto simp add: active_def)
  ultimately show ?thesis using r by simp
qed

text \<open>
  C10. When the commanded mode equals the current mode, the result of \<^verbatim>\<open>ISR_DoControl\<close>
  does not depend on the inputs of the cycle, in particular not on what
  \<^verbatim>\<open>motor_driver_->fault()\<close> returns; a fault mode after such a cycle is either the fault
  mode it started in, with the fault code unchanged, or a calibration fault; and in an
  active mode the cycle returns with the mode unchanged and fault \<^verbatim>\<open>kSuccess\<close>, whatever
  the bus voltage and the driver say. When the command is an active mode different from
  the current mode, a driver fault or a bus voltage above \<open>max_voltage\<close> ends the cycle
  in \<^verbatim>\<open>kFault\<close> with the code of the check. When the command is \<^verbatim>\<open>kStopped\<close> the
  cycle ends in \<^verbatim>\<open>kStopped\<close> with fault \<^verbatim>\<open>kSuccess\<close>, whatever the driver and the bus say.
\<close>

theorem steady_state_no_check:
  "(c_mode (current_data s) = mode (status s)
     \<longrightarrow> ISR_DoControl C i sc s = ISR_DoControl C j sc s)
   \<and> (c_mode (current_data s) = mode (status s) \<and> ISR_DoControl C i sc s = Some s'
     \<longrightarrow> (mode (status s') = mode (status s) \<and> mode (status s) \<noteq> kFault
            \<and> fault (status s') = kSuccess)
       \<or> (mode (status s) = kFault \<and> mode (status s') = kFault
            \<and> fault (status s') = fault (status s))
       \<or> (mode (status s) = kCalibrating
            \<and> ((mode (status s') = kFault \<and> fault (status s') = kCalibrationFault)
               \<or> (mode (status s') = kCalibrationComplete \<and> fault (status s') = kSuccess))))
   \<and> (c_mode (current_data s) = mode (status s) \<and> active (mode (status s))
       \<and> c_set_position (current_data s) = None
       \<and> (mode (status s) = kPosition \<longrightarrow> 0 \<le> c_max_current (current_data s))
     \<longrightarrow> (\<exists>t. ISR_DoControl C i sc s = Some t \<and> mode (status t) = mode (status s)
             \<and> fault (status t) = kSuccess \<and> current_data t = current_data s))
   \<and> (active (c_mode (current_data s)) \<and> c_mode (current_data s) \<noteq> mode (status s)
       \<and> mode (status s) \<noteq> kNumModes \<and> c_set_position (current_data s) = None
       \<and> (in_driver_fault i \<or> max_voltage (config s) < bus_V (status s))
     \<longrightarrow> (\<exists>t. ISR_DoControl C i sc s = Some t \<and> mode (status t) = kFault
             \<and> fault (status t) = (if in_driver_fault i then kMotorDriverFault else kOverVoltage)))
   \<and> (c_mode (current_data s) = kStopped \<and> c_set_position (current_data s) = None
     \<longrightarrow> (\<exists>t. ISR_DoControl C i sc s = Some t \<and> mode (status t) = kStopped
             \<and> fault (status t) = kSuccess))"
proof -
  have A: "ISR_DoControl C i sc s = ISR_DoControl C j sc s"
    if "c_mode (current_data s) = mode (status s)"
    using that by (rule steady_control)
  note B = steady_control_result[of s C i sc s']
  note D = steady_control_Some[of s C i sc]
  have E: "\<exists>t. ISR_DoControl C i sc s = Some t \<and> mode (status t) = kFault
             \<and> fault (status t) = (if in_driver_fault i then kMotorDriverFault else kOverVoltage)"
    if "active (c_mode (current_data s))" "c_mode (current_data s) \<noteq> mode (status s)"
       "mode (status s) \<noteq> kNumModes" "c_set_position (current_data s) = None"
       "in_driver_fault i \<or> max_voltage (config s) < bus_V (status s)"
    using fault_detected[OF that, of C sc] by blast
  show ?thesis
    apply (intro conjI impI)
    subgoal by (rule A)
    subgoal using B by blast
    subgoal using D by blast
    subgoal using E by blast
    subgoal using DoControl_Stopped_cmd[of s C i sc] by blast
    done
qed

text \<open>Running in \<^verbatim>\<open>kPwm\<close> with the command \<^verbatim>\<open>kPwm\<close>, a bus at 48 V against a limit of
  30 V and a driver fault: the cycle stays in \<^verbatim>\<open>kPwm\<close>. The same state with the command
  \<^verbatim>\<open>kVoltage\<close>: the cycle ends in \<^verbatim>\<open>kFault\<close>.\<close>

theorem steady_state_no_check_witness:
  "c_mode (current_data Steady0) = mode (status Steady0) \<and> active (mode (status Steady0))
   \<and> max_voltage (config Steady0) < bus_V (status Steady0)
   \<and> (\<exists>t. ISR_DoControl Collab0 (Inputs0\<lparr>in_driver_fault := True\<rparr>) 0 Steady0 = Some t
          \<and> mode (status t) = kPwm \<and> fault (status t) = kSuccess)
   \<and> ISR_DoControl Collab0 (Inputs0\<lparr>in_driver_fault := True\<rparr>) 0 Steady0
       = ISR_DoControl Collab0 Inputs0 0 Steady0
   \<and> active (c_mode (current_data Running0))
   \<and> c_mode (current_data Running0) \<noteq> mode (status Running0)
   \<and> (\<exists>t. ISR_DoControl Collab0 (Inputs0\<lparr>in_driver_fault := True\<rparr>) 0 Running0 = Some t
          \<and> mode (status t) = kFault \<and> fault (status t) = kMotorDriverFault)"
proof -
  let ?i = "Inputs0\<lparr>in_driver_fault := True\<rparr>"
  have S: "mode (status Steady0) = kPwm" "c_mode (current_data Steady0) = kPwm"
    "c_set_position (current_data Steady0) = None" "max_voltage (config Steady0) = 30"
    "bus_V (status Steady0) = 48"
    by (simp_all add: Steady0_def example_defs)
  have R: "mode (status Running0) = kPwm" "c_mode (current_data Running0) = kVoltage"
    "c_set_position (current_data Running0) = None"
    by (simp_all add: Running0_def example_defs)
  note T = steady_state_no_check[of Steady0 Collab0 ?i 0 Inputs0]
  note U = steady_state_no_check[of Running0 Collab0 ?i 0 Inputs0]
  have e: "ISR_DoControl Collab0 ?i 0 Steady0 = ISR_DoControl Collab0 Inputs0 0 Steady0"
    by (rule T[THEN conjunct1, rule_format]) (simp add: S)
  have x: "\<exists>t. ISR_DoControl Collab0 ?i 0 Steady0 = Some t
          \<and> mode (status t) = mode (status Steady0) \<and> fault (status t) = kSuccess
          \<and> current_data t = current_data Steady0"
    by (rule T[THEN conjunct2, THEN conjunct2, THEN conjunct1, rule_format])
       (simp add: S active_def)
  have y: "\<exists>t. ISR_DoControl Collab0 ?i 0 Running0 = Some t \<and> mode (status t) = kFault
          \<and> fault (status t) = (if in_driver_fault ?i then kMotorDriverFault else kOverVoltage)"
    by (rule U[THEN conjunct2, THEN conjunct2, THEN conjunct2, THEN conjunct1, rule_format])
       (simp add: R active_def)
  from x obtain t where t: "ISR_DoControl Collab0 ?i 0 Steady0 = Some t"
    "mode (status t) = kPwm" "fault (status t) = kSuccess" by (auto simp add: S)
  from y obtain u where u: "ISR_DoControl Collab0 ?i 0 Running0 = Some u"
    "mode (status u) = kFault" "fault (status u) = kMotorDriverFault" by auto
  have a: "active kPwm" "active kVoltage" by (simp_all add: active_def)
  show ?thesis
    apply (intro conjI)
           apply (simp add: S)
          apply (simp add: S a)
         apply (simp add: S)
        apply (rule exI[of _ t], simp add: t)
       apply (rule e)
      apply (simp add: R a)
     apply (simp add: R)
    apply (rule exI[of _ u], simp add: u)
    done
qed

subsection \<open>Calibration\<close>

lemma MaybeChangeMode_Calibrating:
  "mode (status s) = kCalibrating \<Longrightarrow> active m \<Longrightarrow> ISR_MaybeChangeMode m s = Some s"
  by (cases m) (simp_all add: active_def)

lemma cal_tick:
  assumes m: "mode (status s) = kCalibrating"
    and c: "active (c_mode (current_data s))"
    and sp: "c_set_position (current_data s) = None"
    and q: "quiet (config s) (position_raw (status s)) [i]"
  shows "\<exists>t. ISR_DoTimer C i s = Some t
     \<and> config t = config s \<and> current_data t = current_data s \<and> trace t = trace s
     \<and> position_raw (status t) = in_position i
     \<and> calibrate_count t = calibrate_count s + 1
     \<and> calibrate_adc1 t = calibrate_adc1 s + ucast (in_adc1 i)
     \<and> calibrate_adc2 t = calibrate_adc2 s + ucast (in_adc2 i)
     \<and> (if uint (calibrate_count s + 1) < 256
         then mode (status t) = kCalibrating
              \<and> adc1_offset (status t) = adc1_offset (status s)
              \<and> adc2_offset (status t) = adc2_offset (status s)
         else if 200 < \<bar>uint (ucast ((calibrate_adc1 s + ucast (in_adc1 i)) div 256) :: u16) - 2048\<bar>
                 \<or> 200 < \<bar>uint (ucast ((calibrate_adc2 s + ucast (in_adc2 i)) div 256) :: u16) - 2048\<bar>
         then mode (status t) = kFault \<and> fault (status t) = kCalibrationFault
              \<and> adc1_offset (status t) = adc1_offset (status s)
              \<and> adc2_offset (status t) = adc2_offset (status s)
         else mode (status t) = kCalibrationComplete \<and> fault (status t) = kSuccess
              \<and> adc1_offset (status t) = ucast ((calibrate_adc1 s + ucast (in_adc1 i)) div 256)
              \<and> adc2_offset (status t) = ucast ((calibrate_adc2 s + ucast (in_adc2 i)) div 256))"
proof -
  let ?s1 = "ISR_CalculateCurrentState C (ISR_DoSense C i s)"
  let ?s2 = "?s1\<lparr>control := Control_zero\<rparr>"
  let ?s3 = "ISR_ClearPid C ?s2"
  let ?s4 = "?s3\<lparr>status := (status ?s3)\<lparr>fault := kSuccess\<rparr>\<rparr>"
  from q have q': "\<not> in_driver_fault i"
    "real (unat (in_adc3 i)) * v_scale_V (config s) \<le> max_voltage (config s)"
    "\<bar>sint (in_position i - position_raw (status s))\<bar> \<le> 1000" by simp_all
  have m1: "mode (status ?s1) = kCalibrating" using m q'(3) by (simp add: ISR_DoSense_mode)
  have p: "DoControl_prologue ?s1 = Some ?s2" using sp by (simp add: DoControl_prologue_None)
  have ne: "c_mode (current_data s) \<noteq> kCalibrating" using c by (auto simp add: active_def)
  have mc: "ISR_MaybeChangeMode (c_mode (current_data s)) ?s2 = Some ?s2"
    using m1 c by (simp add: MaybeChangeMode_Calibrating)
  have r: "ISR_DoTimer C i s = Some (ISR_DoCalibrating ?s4)"
    using m1 ne mc q'(1,2)
    by (simp add: ISR_DoTimer_def Let_def ISR_DoControl_unfold p control_tail_def dispatch_def)
  show ?thesis
    unfolding r using m1
    by (simp add: ISR_DoCalibrating_def Let_def kCalibrateCount_def)
qed

lemma count_succ:
  fixes n :: u16
  assumes "unat n = c" "c < 256"
  shows "unat (n + 1) = c + 1" "uint (n + 1) = int c + 1"
proof -
  have "unat n + unat (1 :: u16) < 2 ^ 16" using assms by simp
  then have "unat (n + 1) = unat n + unat (1 :: u16)"
    by (simp add: unat_add_lem[THEN iffD1])
  then show a: "unat (n + 1) = c + 1" using assms by simp
  show "uint (n + 1) = int c + 1" using a by (simp add: uint_nat)
qed

lemma sum_succ:
  fixes a :: u32 and x :: u16
  assumes "unat a = S" "S \<le> c * 65535" "c < 256"
  shows "unat (a + ucast x) = S + unat x"
proof -
  have x: "unat x < 65536" using unsigned_less[of x] by simp
  have "c * 65535 \<le> 255 * 65535" using assms(3) by simp
  then have "S + unat x < 2 ^ 32" using assms(2) x by simp
  then have "unat a + unat (ucast x :: u32) < 2 ^ 32"
    using assms(1) by (simp add: unat_ucast_u16_u32)
  then have "unat (a + ucast x) = unat a + unat (ucast x :: u32)"
    by (simp add: unat_add_lem[THEN iffD1])
  then show ?thesis using assms(1) by (simp add: unat_ucast_u16_u32)
qed

lemma mean_u16:
  fixes a :: u32
  assumes "unat a = M" "M \<le> 256 * 65535"
  shows "(ucast (a div 256) :: u16) = of_nat (M div 256)"
    "uint (ucast (a div 256) :: u16) = int (M div 256)"
proof -
  have d: "unat (a div 256) = M div 256" using assms(1) by (simp add: unat_div)
  have b: "M div 256 < 65536" using assms(2) by simp
  have "(ucast (a div 256) :: u16) = of_nat (unat (a div 256))" by simp
  then show e: "(ucast (a div 256) :: u16) = of_nat (M div 256)" using d by simp
  have "unat (of_nat (M div 256) :: u16) = M div 256"
    using b by (simp add: unat_of_nat take_bit_nat_eq_self)
  then show "uint (ucast (a div 256) :: u16) = int (M div 256)"
    unfolding e by (simp add: uint_nat)
qed

lemma unat_u16_le: "unat (x :: u16) \<le> 65535"
proof -
  have "unat x < 2 ^ 16" using unsigned_less[of x] by simp
  then show ?thesis by simp
qed

lemma cal_run:
  assumes "mode (status s) = kCalibrating" "active (c_mode (current_data s))"
    "c_set_position (current_data s) = None"
    "unat (calibrate_count s) = c" "unat (calibrate_adc1 s) = S1" "unat (calibrate_adc2 s) = S2"
    "S1 \<le> c * 65535" "S2 \<le> c * 65535" "c + length is = 256" "is \<noteq> []"
    "quiet (config s) (position_raw (status s)) is"
  shows "\<exists>tr. run C (map Tick is) s = Some tr \<and> length tr = Suc (length is)
        \<and> (\<forall>k<length is. mode (status (tr ! k)) = kCalibrating)
        \<and> current_data (last tr) = current_data s \<and> config (last tr) = config s
        \<and> trace (last tr) = trace s
        \<and> position_raw (status (last tr)) = in_position (last is)
        \<and> calibration_verdict (S1 + sum_list (map (\<lambda>a. unat (in_adc1 a)) is))
             (S2 + sum_list (map (\<lambda>a. unat (in_adc2 a)) is)) (status s) (status (last tr))"
  using assms
proof (induction "is" arbitrary: s c S1 S2)
  case Nil
  then show ?case by simp
next
  case (Cons i "is")
  have c256: "c < 256" using Cons.prems(9) by simp
  have q1: "quiet (config s) (position_raw (status s)) [i]"
    and q2: "quiet (config s) (in_position i) is"
    using Cons.prems(11) by simp_all
  from cal_tick[OF Cons.prems(1,2,3) q1, of C]
  obtain t where t: "ISR_DoTimer C i s = Some t"
    and fr: "config t = config s" "current_data t = current_data s" "trace t = trace s"
      "position_raw (status t) = in_position i"
    and cnt: "calibrate_count t = calibrate_count s + 1"
    and a1: "calibrate_adc1 t = calibrate_adc1 s + ucast (in_adc1 i)"
    and a2: "calibrate_adc2 t = calibrate_adc2 s + ucast (in_adc2 i)"
    and v: "if uint (calibrate_count s + 1) < 256
         then mode (status t) = kCalibrating
              \<and> adc1_offset (status t) = adc1_offset (status s)
              \<and> adc2_offset (status t) = adc2_offset (status s)
         else if 200 < \<bar>uint (ucast ((calibrate_adc1 s + ucast (in_adc1 i)) div 256) :: u16) - 2048\<bar>
                 \<or> 200 < \<bar>uint (ucast ((calibrate_adc2 s + ucast (in_adc2 i)) div 256) :: u16) - 2048\<bar>
         then mode (status t) = kFault \<and> fault (status t) = kCalibrationFault
              \<and> adc1_offset (status t) = adc1_offset (status s)
              \<and> adc2_offset (status t) = adc2_offset (status s)
         else mode (status t) = kCalibrationComplete \<and> fault (status t) = kSuccess
              \<and> adc1_offset (status t) = ucast ((calibrate_adc1 s + ucast (in_adc1 i)) div 256)
              \<and> adc2_offset (status t) = ucast ((calibrate_adc2 s + ucast (in_adc2 i)) div 256)"
    by blast
  have uc: "uint (calibrate_count s + 1) = int c + 1" "unat (calibrate_count t) = c + 1"
    using count_succ[OF Cons.prems(4) c256] cnt by simp_all
  have u1: "unat (calibrate_adc1 t) = S1 + unat (in_adc1 i)"
    unfolding a1 using sum_succ[OF Cons.prems(5) Cons.prems(7) c256] .
  have u2: "unat (calibrate_adc2 t) = S2 + unat (in_adc2 i)"
    unfolding a2 using sum_succ[OF Cons.prems(6) Cons.prems(8) c256] .
  have x1: "unat (in_adc1 i) \<le> 65535" by (rule unat_u16_le)
  have x2: "unat (in_adc2 i) \<le> 65535" by (rule unat_u16_le)
  have b1: "S1 + unat (in_adc1 i) \<le> (c + 1) * 65535" using Cons.prems(7) x1 by simp
  have b2: "S2 + unat (in_adc2 i) \<le> (c + 1) * 65535" using Cons.prems(8) x2 by simp
  show ?case
  proof (cases "is = []")
    case True
    then have c255: "c + 1 = 256" using Cons.prems(9) by simp
    then have nl: "\<not> uint (calibrate_count s + 1) < 256" using uc(1) by simp
    have le1: "S1 + unat (in_adc1 i) \<le> 256 * 65535" using b1 c255 by simp
    have le2: "S2 + unat (in_adc2 i) \<le> 256 * 65535" using b2 c255 by simp
    note m1 = mean_u16[OF u1[unfolded a1] le1]
    note m2 = mean_u16[OF u2[unfolded a2] le2]
    have g1: "uint (of_nat ((S1 + unat (in_adc1 i)) div 256) :: u16)
                = int ((S1 + unat (in_adc1 i)) div 256)"
      using m1 by simp
    have g2: "uint (of_nat ((S2 + unat (in_adc2 i)) div 256) :: u16)
                = int ((S2 + unat (in_adc2 i)) div 256)"
      using m2 by simp
    have "calibration_verdict (S1 + unat (in_adc1 i)) (S2 + unat (in_adc2 i)) (status s) (status t)"
      using v nl unfolding calibration_verdict_def m1(1) m2(1) g1 g2 by (simp split: if_splits)
    then show ?thesis using True t fr Cons.prems(1) by simp
  next
    case False
    then have lt: "c + 1 < 256" using Cons.prems(9) by (cases "is") simp_all
    then have "uint (calibrate_count s + 1) < 256" using uc(1) by simp
    then have mt: "mode (status t) = kCalibrating"
      and off: "adc1_offset (status t) = adc1_offset (status s)"
        "adc2_offset (status t) = adc2_offset (status s)"
      using v by simp_all
    have len: "(c + 1) + length is = 256" using Cons.prems(9) by simp
    have q2': "quiet (config t) (position_raw (status t)) is" using q2 fr by simp
    from Cons.IH[OF mt _ _ uc(2) u1 u2 b1 b2 len False q2'] Cons.prems(2,3) fr
    obtain tr where tr: "run C (map Tick is) t = Some tr" "length tr = Suc (length is)"
      "\<forall>k<length is. mode (status (tr ! k)) = kCalibrating"
      "current_data (last tr) = current_data s" "config (last tr) = config s"
      "trace (last tr) = trace s" "position_raw (status (last tr)) = in_position (last is)"
      and vd: "calibration_verdict (S1 + unat (in_adc1 i) + sum_list (map (\<lambda>a. unat (in_adc1 a)) is))
             (S2 + unat (in_adc2 i) + sum_list (map (\<lambda>a. unat (in_adc2 a)) is)) (status t) (status (last tr))"
      by auto
    have ne: "tr \<noteq> []" using tr(2) by auto
    have r: "run C (map Tick (i # is)) s = Some (s # tr)" using t tr(1) by simp
    have k: "\<forall>k<length (i # is). mode (status ((s # tr) ! k)) = kCalibrating"
      using tr(3) Cons.prems(1) by (auto simp add: nth_Cons split: nat.splits)
    have vd': "calibration_verdict (S1 + sum_list (map (\<lambda>a. unat (in_adc1 a)) (i # is)))
             (S2 + sum_list (map (\<lambda>a. unat (in_adc2 a)) (i # is))) (status s) (status (last (s # tr)))"
      using vd ne off by (simp add: calibration_verdict_def add.assoc)
    show ?thesis using r k vd' tr(2,4,5,6,7) ne False by simp
  qed
qed

lemma sum_list_const:
  "(\<forall>i\<in>set xs. f i = (v :: nat)) \<Longrightarrow> sum_list (map f xs) = length xs * v"
  by (induction xs) simp_all

lemma quiet_replicate:
  assumes "\<not> in_driver_fault i" "real (unat (in_adc3 i)) * v_scale_V cfg \<le> max_voltage cfg"
    "\<bar>sint (in_position i - p)\<bar> \<le> 1000"
  shows "quiet cfg p (replicate n i)"
proof -
  have "quiet cfg (in_position i) (replicate n i)"
    using assms(1,2) by (induction n) simp_all
  then show ?thesis using assms by (cases n) simp_all
qed

text \<open>
  C7. Start in \<^verbatim>\<open>kCalibrating\<close> with the counter and the two sums at zero and an
  active-mode command pending, and let 256 interrupts pass whose inputs are quiet. The
  run returns; the mode is \<^verbatim>\<open>kCalibrating\<close> before each of the 256 interrupts and no
  longer after the last; the final status is the verdict on the sums of the 256 readings
  of \<^verbatim>\<open>adc1_raw\<close> and \<^verbatim>\<open>adc2_raw\<close>: means out of band give \<^verbatim>\<open>kFault\<close> with
  \<^verbatim>\<open>kCalibrationFault\<close>, otherwise the offsets are the means and the mode is
  \<^verbatim>\<open>kCalibrationComplete\<close>. With constant readings \<open>ra\<close> and \<open>rb\<close> within 200 of 2048 the
  offsets are \<open>ra\<close> and \<open>rb\<close>; with a constant reading out of band the run ends in
  \<^verbatim>\<open>kFault\<close> and the offsets are unchanged.
\<close>

theorem calibration_run:
  assumes "mode (status s) = kCalibrating"
    and "calibrate_count s = 0" and "calibrate_adc1 s = 0" and "calibrate_adc2 s = 0"
    and "active (c_mode (current_data s))" and "c_set_position (current_data s) = None"
    and "length is = 256" and "quiet (config s) (position_raw (status s)) is"
  shows "\<exists>tr. run C (map Tick is) s = Some tr \<and> length tr = 257
      \<and> (\<forall>k<256. mode (status (tr ! k)) = kCalibrating)
      \<and> mode (status (last tr)) \<noteq> kCalibrating
      \<and> calibration_verdict (\<Sum>a\<leftarrow>is. unat (in_adc1 a)) (\<Sum>a\<leftarrow>is. unat (in_adc2 a))
            (status s) (status (last tr))
      \<and> ((\<forall>i\<in>set is. in_adc1 i = ra \<and> in_adc2 i = rb)
           \<and> \<bar>uint ra - 2048\<bar> \<le> 200 \<and> \<bar>uint rb - 2048\<bar> \<le> 200
          \<longrightarrow> mode (status (last tr)) = kCalibrationComplete
              \<and> adc1_offset (status (last tr)) = ra \<and> adc2_offset (status (last tr)) = rb)
      \<and> ((\<forall>i\<in>set is. in_adc1 i = ra \<and> in_adc2 i = rb)
           \<and> (200 < \<bar>uint ra - 2048\<bar> \<or> 200 < \<bar>uint rb - 2048\<bar>)
          \<longrightarrow> mode (status (last tr)) = kFault \<and> fault (status (last tr)) = kCalibrationFault
              \<and> adc1_offset (status (last tr)) = adc1_offset (status s)
              \<and> adc2_offset (status (last tr)) = adc2_offset (status s))"
proof -
  have ne: "is \<noteq> []" using assms(7) by auto
  have z: "unat (calibrate_count s) = 0" "unat (calibrate_adc1 s) = 0"
    "unat (calibrate_adc2 s) = 0" using assms(2,3,4) by simp_all
  from cal_run[OF assms(1,5,6) z, of "is" C] assms(7,8) ne
  obtain tr where tr: "run C (map Tick is) s = Some tr" "length tr = 257"
    "\<forall>k<256. mode (status (tr ! k)) = kCalibrating"
    and v: "calibration_verdict (\<Sum>a\<leftarrow>is. unat (in_adc1 a)) (\<Sum>a\<leftarrow>is. unat (in_adc2 a))
            (status s) (status (last tr))"
    by auto
  have nc: "mode (status (last tr)) \<noteq> kCalibrating"
    using v by (auto simp add: calibration_verdict_def split: if_splits)
  have k: "(\<Sum>a\<leftarrow>is. unat (in_adc1 a)) div 256 = unat ra
         \<and> (\<Sum>a\<leftarrow>is. unat (in_adc2 a)) div 256 = unat rb"
    if "\<forall>i\<in>set is. in_adc1 i = ra \<and> in_adc2 i = rb"
  proof -
    have "(\<Sum>a\<leftarrow>is. unat (in_adc1 a)) = length is * unat ra"
      by (rule sum_list_const) (use that in simp)
    moreover have "(\<Sum>a\<leftarrow>is. unat (in_adc2 a)) = length is * unat rb"
      by (rule sum_list_const) (use that in simp)
    ultimately show ?thesis using assms(7) by simp
  qed
  have u: "int (unat ra) = uint ra" "int (unat rb) = uint rb"
    by (rule uint_nat[symmetric])+
  have A: "mode (status (last tr)) = kCalibrationComplete
              \<and> adc1_offset (status (last tr)) = ra \<and> adc2_offset (status (last tr)) = rb"
    if "\<forall>i\<in>set is. in_adc1 i = ra \<and> in_adc2 i = rb"
      "\<bar>uint ra - 2048\<bar> \<le> 200" "\<bar>uint rb - 2048\<bar> \<le> 200"
    using v k[OF that(1)] that(2,3) u
    by (simp add: calibration_verdict_def)
  have B: "mode (status (last tr)) = kFault \<and> fault (status (last tr)) = kCalibrationFault
              \<and> adc1_offset (status (last tr)) = adc1_offset (status s)
              \<and> adc2_offset (status (last tr)) = adc2_offset (status s)"
    if "\<forall>i\<in>set is. in_adc1 i = ra \<and> in_adc2 i = rb"
      "200 < \<bar>uint ra - 2048\<bar> \<or> 200 < \<bar>uint rb - 2048\<bar>"
    using v k[OF that(1)] that(2) u
    by (simp add: calibration_verdict_def)
  show ?thesis using tr v nc A B by blast
qed

lemma Cal0_facts:
  "mode (status Cal0) = kCalibrating" "calibrate_count Cal0 = 0" "calibrate_adc1 Cal0 = 0"
  "calibrate_adc2 Cal0 = 0" "active (c_mode (current_data Cal0))"
  "c_set_position (current_data Cal0) = None"
  "config Cal0 = Config0" "position_raw (status Cal0) = 0"
  by (simp_all add: Cal0_def example_defs active_def)

lemma Inputs0_quiet:
  "quiet Config0 0 (replicate n (Inputs0\<lparr>in_adc1 := r\<rparr>))"
  by (rule quiet_replicate) (simp_all add: Inputs0_def Config0_def)

text \<open>256 interrupts with both readings at 2048 end in \<^verbatim>\<open>kCalibrationComplete\<close> with both
  offsets 2048; with the first reading at 1000 they end in \<^verbatim>\<open>kFault\<close>.\<close>

theorem calibration_run_witness:
  "mode (status Cal0) = kCalibrating \<and> calibrate_count Cal0 = 0
   \<and> active (c_mode (current_data Cal0))
   \<and> length (replicate 256 (Inputs0\<lparr>in_adc1 := 2048\<rparr>)) = 256
   \<and> quiet (config Cal0) (position_raw (status Cal0)) (replicate 256 (Inputs0\<lparr>in_adc1 := 2048\<rparr>))
   \<and> (\<exists>tr. run Collab0 (map Tick (replicate 256 (Inputs0\<lparr>in_adc1 := 2048\<rparr>))) Cal0 = Some tr
          \<and> mode (status (last tr)) = kCalibrationComplete
          \<and> adc1_offset (status (last tr)) = 2048 \<and> adc2_offset (status (last tr)) = 2048)
   \<and> (\<exists>tr. run Collab0 (map Tick (replicate 256 (Inputs0\<lparr>in_adc1 := 1000\<rparr>))) Cal0 = Some tr
          \<and> mode (status (last tr)) = kFault \<and> fault (status (last tr)) = kCalibrationFault)"
proof -
  have q: "quiet (config Cal0) (position_raw (status Cal0)) (replicate 256 (Inputs0\<lparr>in_adc1 := r\<rparr>))"
    for r by (simp add: Cal0_facts Inputs0_quiet)
  have l: "length (replicate 256 (Inputs0\<lparr>in_adc1 := r\<rparr>)) = 256" for r by simp
  have a: "\<forall>i\<in>set (replicate 256 (Inputs0\<lparr>in_adc1 := r\<rparr>)). in_adc1 i = r \<and> in_adc2 i = 2048"
    for r by (simp add: Inputs0_def)
  from calibration_run[where C = Collab0 and ra = 2048 and rb = 2048, OF Cal0_facts(1-6) l q] a[of 2048]
  have x: "\<exists>tr. run Collab0 (map Tick (replicate 256 (Inputs0\<lparr>in_adc1 := 2048\<rparr>))) Cal0 = Some tr
          \<and> mode (status (last tr)) = kCalibrationComplete
          \<and> adc1_offset (status (last tr)) = 2048 \<and> adc2_offset (status (last tr)) = 2048"
    by auto
  from calibration_run[where C = Collab0 and ra = 1000 and rb = 2048, OF Cal0_facts(1-6) l q] a[of 1000]
  have y: "\<exists>tr. run Collab0 (map Tick (replicate 256 (Inputs0\<lparr>in_adc1 := 1000\<rparr>))) Cal0 = Some tr
          \<and> mode (status (last tr)) = kFault \<and> fault (status (last tr)) = kCalibrationFault"
    by auto
  show ?thesis using x y q[of 2048] Cal0_facts by simp
qed

subsection \<open>From stopped to an active mode\<close>

lemma exec_step_mode_step:
  assumes "exec_step C x s = Some s'"
  shows "mode_step (mode (status s)) (mode (status s'))"
proof (cases x)
  case (Tick i)
  then have "ISR_DoTimer C i s = Some s'" using assms by simp
  from DoTimer_mode_cases[OF this] show ?thesis
    by (auto simp add: mode_step_def)
next
  case Poll
  then show ?thesis using assms
    by (cases "mode (status s) = kEnabling") (auto simp add: PollMillisecond_def mode_step_def)
next
  case (Cmd d)
  then show ?thesis using assms by (auto simp add: Command_def mode_step_def split: if_splits)
qed

lemma subseq_snoc: "subseq xs ys \<Longrightarrow> subseq (xs @ [z]) (ys @ [z])"
  by (rule list_emb_append_mono) simp_all

lemma subseq_butlast:
  assumes "subseq (xs @ [z]) ys"
  shows "subseq xs ys"
proof -
  have "subseq xs (xs @ [z])" by (rule subseq_rev_drop_many) simp
  then show ?thesis using assms by (rule subseq_order.trans)
qed

lemma reached_step:
  assumes r: "reached m (pre @ [m])" and st: "mode_step m m'"
  shows "reached m' (pre @ [m, m'])"
proof -
  let ?h = "pre @ [m]"
  have e: "pre @ [m, m'] = ?h @ [m']" by simp
  have keep: "subseq xs ?h \<Longrightarrow> subseq xs (?h @ [m'])" for xs
    by (rule subseq_rev_drop_many)
  have grow: "subseq xs ?h \<Longrightarrow> subseq (xs @ [m']) (?h @ [m'])" for xs
    by (rule subseq_snoc)
  have E: "subseq [kEnabling] (?h @ [m'])" if "m' = kEnabling"
  proof -
    have "subseq ([] @ [m']) (?h @ [m'])" by (rule grow) simp
    then show ?thesis using that by simp
  qed
  have C: "subseq [kEnabling, kCalibrating] (?h @ [m'])" if "m' = kCalibrating"
  proof -
    from st that have "m = kCalibrating \<or> m = kEnabling"
      by (auto simp add: mode_step_def active_def)
    then show ?thesis
    proof
      assume "m = kCalibrating"
      then have "subseq [kEnabling, kCalibrating] ?h" using r by (simp add: reached_def)
      then show ?thesis by (rule keep)
    next
      assume "m = kEnabling"
      then have "subseq [kEnabling] ?h" using r by (simp add: reached_def)
      from grow[OF this] that show ?thesis by simp
    qed
  qed
  have CC: "subseq [kEnabling, kCalibrating, kCalibrationComplete] (?h @ [m'])"
    if "m' = kCalibrationComplete"
  proof -
    from st that have "m = kCalibrationComplete \<or> m = kCalibrating"
      by (auto simp add: mode_step_def active_def)
    then show ?thesis
    proof
      assume "m = kCalibrationComplete"
      then have "subseq [kEnabling, kCalibrating, kCalibrationComplete] ?h"
        using r by (simp add: reached_def)
      then show ?thesis by (rule keep)
    next
      assume "m = kCalibrating"
      then have "subseq [kEnabling, kCalibrating] ?h" using r by (simp add: reached_def)
      from grow[OF this] that show ?thesis by simp
    qed
  qed
  have A: "subseq [kEnabling, kCalibrating, kCalibrationComplete, m'] (?h @ [m'])"
    if a: "active m'"
  proof -
    from st a have "m = kCalibrationComplete \<or> active m"
      by (auto simp add: mode_step_def active_def)
    then have "subseq [kEnabling, kCalibrating, kCalibrationComplete] ?h"
    proof
      assume "m = kCalibrationComplete"
      then show ?thesis using r by (simp add: reached_def)
    next
      assume "active m"
      then have "subseq ([kEnabling, kCalibrating, kCalibrationComplete] @ [m]) ?h"
        using r by (simp add: reached_def)
      then show ?thesis by (rule subseq_butlast)
    qed
    from grow[OF this] show ?thesis by simp
  qed
  show ?thesis unfolding e reached_def using E C CC A by blast
qed

lemma run_nonempty: "run C xs s = Some tr \<Longrightarrow> tr \<noteq> [] \<and> hd tr = s"
  by (cases xs) (auto split: option.splits)

lemma run_reached:
  assumes "run C xs s = Some tr" "reached (mode (status s)) (pre @ [mode (status s)])"
  shows "reached (mode (status (last tr))) (pre @ map (mode \<circ> status) tr)"
  using assms
proof (induction xs arbitrary: s pre tr)
  case Nil
  then show ?case by auto
next
  case (Cons x xs)
  from Cons.prems(1) obtain s' tr' where s': "exec_step C x s = Some s'"
    and tr': "run C xs s' = Some tr'" and tr: "tr = s # tr'"
    by (auto split: option.splits)
  have ne: "tr' \<noteq> []" and hd: "hd tr' = s'" using run_nonempty[OF tr'] by simp_all
  have "reached (mode (status s')) ((pre @ [mode (status s)]) @ [mode (status s')])"
    using reached_step[OF Cons.prems(2) exec_step_mode_step[OF s']] by simp
  from Cons.IH[OF tr' this] show ?case using tr ne by simp
qed

lemma path_through_calibration:
  assumes "run C xs s = Some tr" "mode (status s) = kStopped" "active (mode (status (last tr)))"
  shows "subseq [kEnabling, kCalibrating, kCalibrationComplete, mode (status (last tr))]
           (map (mode \<circ> status) tr)"
proof -
  have "reached (mode (status s)) ([] @ [mode (status s)])"
    using assms(2) by (simp add: reached_def active_def)
  from run_reached[OF assms(1) this] assms(3) show ?thesis by (simp add: reached_def)
qed

lemma MaybeChangeMode_Stopped:
  "mode (status s) = kStopped \<Longrightarrow> active m
     \<Longrightarrow> ISR_MaybeChangeMode m s = Some (ISR_StartCalibrating s)"
  by (cases m) (simp_all add: active_def)

lemma MaybeChangeMode_Complete:
  "mode (status s) = kCalibrationComplete \<Longrightarrow> active m
     \<Longrightarrow> ISR_MaybeChangeMode m s = Some (s\<lparr>status := (status s)\<lparr>mode := m\<rparr>\<rparr>)"
  by (cases m) (simp_all add: active_def)

lemma begin_tick:
  assumes m: "mode (status s) = kStopped" and c: "active (c_mode (current_data s))"
    and sp: "c_set_position (current_data s) = None"
    and q: "\<not> in_driver_fault i"
      "real (unat (in_adc3 i)) * v_scale_V (config s) \<le> max_voltage (config s)"
  shows "\<exists>t. ISR_DoTimer C i s = Some t \<and> mode (status t) = kEnabling
          \<and> calibrate_count t = 0 \<and> calibrate_adc1 t = 0 \<and> calibrate_adc2 t = 0
          \<and> pwm1_ccr t = 0 \<and> pwm2_ccr t = 0 \<and> pwm3_ccr t = 0
          \<and> trace t = trace s @ [WriteCcr 1 0, WriteCcr 2 0, WriteCcr 3 0, Power False]
          \<and> config t = config s \<and> current_data t = current_data s
          \<and> position_raw (status t) = in_position i"
proof -
  let ?s1 = "ISR_CalculateCurrentState C (ISR_DoSense C i s)"
  let ?s2 = "?s1\<lparr>control := Control_zero\<rparr>"
  have m1: "mode (status ?s1) = kStopped" using m by (simp add: ISR_DoSense_mode)
  have p: "DoControl_prologue ?s1 = Some ?s2" using sp by (simp add: DoControl_prologue_None)
  have ne: "c_mode (current_data s) \<noteq> kStopped" using c by (auto simp add: active_def)
  have mc: "ISR_MaybeChangeMode (c_mode (current_data s)) ?s2 = Some (ISR_StartCalibrating ?s2)"
    using m1 c by (simp add: MaybeChangeMode_Stopped)
  show ?thesis
    using m1 ne mc q
    by (simp add: ISR_DoTimer_def Let_def ISR_DoControl_unfold p control_tail_def dispatch_def
        ISR_StartCalibrating_def)
qed

lemma adopt_tick:
  assumes m: "mode (status s) = kCalibrationComplete" and c: "active (c_mode (current_data s))"
    and sp: "c_set_position (current_data s) = None"
    and q: "quiet (config s) (position_raw (status s)) [i]"
    and mc: "c_mode (current_data s) = kPosition \<longrightarrow> 0 \<le> c_max_current (current_data s)"
  shows "\<exists>t. ISR_DoTimer C i s = Some t \<and> mode (status t) = c_mode (current_data s)
          \<and> fault (status t) = kSuccess"
proof -
  let ?c = "c_mode (current_data s)"
  let ?s1 = "ISR_CalculateCurrentState C (ISR_DoSense C i s)"
  let ?s2 = "?s1\<lparr>control := Control_zero\<rparr>"
  let ?s3 = "?s2\<lparr>status := (status ?s2)\<lparr>mode := ?c\<rparr>\<rparr>"
  from q have q': "\<not> in_driver_fault i"
    "real (unat (in_adc3 i)) * v_scale_V (config s) \<le> max_voltage (config s)"
    "\<bar>sint (in_position i - position_raw (status s))\<bar> \<le> 1000" by simp_all
  have m1: "mode (status ?s1) = kCalibrationComplete" using m q'(3) by (simp add: ISR_DoSense_mode)
  have p: "DoControl_prologue ?s1 = Some ?s2" using sp by (simp add: DoControl_prologue_None)
  have ne: "?c \<noteq> kCalibrationComplete" "?c \<noteq> kStopped" "?c \<noteq> kCalibrating" "?c \<noteq> kFault"
    using c by (auto simp add: active_def)
  have mcm: "ISR_MaybeChangeMode ?c ?s2 = Some ?s3"
    using m1 c MaybeChangeMode_Complete[of ?s2 ?c] by simp
  from control_tail_Some[of ?s3 "current_data ?s2" C "electrical_theta (status (ISR_DoSense C i s))"] mc
  obtain t where t: "control_tail C (electrical_theta (status (ISR_DoSense C i s)))
                       (current_data ?s2) ?s3 = Some t"
    by auto
  have r: "ISR_DoTimer C i s = Some t"
    using m1 ne mcm q'(1,2) t
    by (simp add: ISR_DoTimer_def Let_def ISR_DoControl_unfold p)
  have mt: "mode (status t) = ?c" using control_tail_mode[OF t] ne by auto
  have "fault (status t) = kSuccess" using control_tail_fault[OF t] mt ne by simp
  then show ?thesis using r mt by simp
qed

lemma only_poll_to_calibrating:
  assumes "exec_step C x s = Some s'" "mode (status s) \<noteq> kCalibrating"
    "mode (status s') = kCalibrating"
  shows "x = Poll \<and> mode (status s) = kEnabling \<and> trace s' = trace s @ [Enable True]"
proof (cases x)
  case (Tick i)
  then have "ISR_DoTimer C i s = Some s'" using assms(1) by simp
  from DoTimer_mode_cases[OF this] assms(2,3) show ?thesis by (auto simp add: active_def)
next
  case Poll
  then show ?thesis using assms
    by (cases "mode (status s) = kEnabling") (auto simp add: PollMillisecond_def)
next
  case (Cmd d)
  then show ?thesis using assms by (auto simp add: Command_def split: if_splits)
qed

lemma only_from_complete:
  assumes "exec_step C x s = Some s'" "\<not> active (mode (status s))" "active (mode (status s'))"
  shows "(\<exists>i. x = Tick i) \<and> mode (status s) = kCalibrationComplete
         \<and> mode (status s') = c_mode (current_data s)"
proof (cases x)
  case (Tick i)
  then have "ISR_DoTimer C i s = Some s'" using assms(1) by simp
  from DoTimer_mode_cases[OF this] assms(2,3) Tick show ?thesis by (auto simp add: active_def)
next
  case Poll
  then show ?thesis using assms
    by (cases "mode (status s) = kEnabling") (auto simp add: PollMillisecond_def active_def)
next
  case (Cmd d)
  then show ?thesis using assms by (auto simp add: Command_def split: if_splits)
qed

lemma control_tail_complete:
  assumes "control_tail C sc d s = Some s'" "mode (status s) = kCalibrating"
    "mode (status s') = kCalibrationComplete"
  shows "\<not> uint (calibrate_count s + 1) < 256
       \<and> \<bar>uint (adc1_offset (status s')) - 2048\<bar> \<le> 200
       \<and> \<bar>uint (adc2_offset (status s')) - 2048\<bar> \<le> 200"
  using assms
  by (auto simp add: control_tail_def Let_def dispatch_def ISR_DoCalibrating_def kCalibrateCount_def
      split: if_splits)

lemma DoControl_complete:
  assumes r: "ISR_DoControl C i sc s = Some s'"
    and m: "mode (status s) \<noteq> kCalibrationComplete" "mode (status s') = kCalibrationComplete"
  shows "mode (status s) = kCalibrating \<and> \<not> uint (calibrate_count s + 1) < 256
       \<and> \<bar>uint (adc1_offset (status s')) - 2048\<bar> \<le> 200
       \<and> \<bar>uint (adc2_offset (status s')) - 2048\<bar> \<le> 200"
proof -
  from r obtain s2 where p: "DoControl_prologue s = Some s2"
    by (auto simp add: ISR_DoControl_unfold split: option.splits)
  note sel = DoControl_prologue_sel[OF p]
  let ?c = "c_mode (current_data s)"
  have cal: "mode (status s) = kCalibrating"
    using DoControl_mode_cases[OF r] m by (auto simp add: active_def)
  show ?thesis
  proof (cases "?c = mode (status s)")
    case True
    then have t: "control_tail C sc (current_data s2) s2 = Some s'"
      using r p sel by (simp add: ISR_DoControl_unfold)
    from control_tail_complete[OF t] cal m(2) show ?thesis by (simp add: sel)
  next
    case False
    then obtain s3 where mc: "ISR_MaybeChangeMode ?c s2 = Some s3"
      using r p sel by (auto simp add: ISR_DoControl_unfold split: option.splits)
    have t: "control_tail C sc (current_data s2) s3 = Some s'"
      using r p sel False mc m(2) by (auto simp add: ISR_DoControl_unfold split: if_splits)
    have m3: "mode (status s3) = kCalibrating"
      using control_tail_mode[OF t] m(2) MaybeChangeMode_mode[OF mc] cal
      by (auto simp add: sel active_def ISR_StartCalibrating_def)
    have "calibrate_count s3 = calibrate_count s"
      using MaybeChangeMode_cases[OF mc] cal by (auto simp add: sel)
    then show ?thesis using control_tail_complete[OF t m3 m(2)] cal by simp
  qed
qed

lemma only_calibration_completes:
  assumes "exec_step C x s = Some s'" "mode (status s) \<noteq> kCalibrationComplete"
    "mode (status s') = kCalibrationComplete"
  shows "(\<exists>i. x = Tick i) \<and> mode (status s) = kCalibrating
       \<and> \<not> uint (calibrate_count s + 1) < 256
       \<and> \<bar>uint (adc1_offset (status s')) - 2048\<bar> \<le> 200
       \<and> \<bar>uint (adc2_offset (status s')) - 2048\<bar> \<le> 200"
proof (cases x)
  case (Tick i)
  let ?s1 = "ISR_CalculateCurrentState C (ISR_DoSense C i s)"
  have r: "ISR_DoControl C i (electrical_theta (status (ISR_DoSense C i s))) ?s1 = Some s'"
    using assms(1) Tick by (simp add: ISR_DoTimer_def Let_def)
  have n: "mode (status ?s1) \<noteq> kCalibrationComplete"
    using assms(2) by (simp add: ISR_DoSense_mode)
  from DoControl_complete[OF r n assms(3)]
  have "mode (status ?s1) = kCalibrating" "\<not> uint (calibrate_count s + 1) < 256"
    "\<bar>uint (adc1_offset (status s')) - 2048\<bar> \<le> 200"
    "\<bar>uint (adc2_offset (status s')) - 2048\<bar> \<le> 200" by simp_all
  moreover from this(1) have "mode (status s) = kCalibrating"
    by (simp add: ISR_DoSense_mode split: if_splits)
  ultimately show ?thesis using Tick by simp
next
  case Poll
  then show ?thesis using assms
    by (cases "mode (status s) = kEnabling") (auto simp add: PollMillisecond_def)
next
  case (Cmd d)
  then show ?thesis using assms by (auto simp add: Command_def split: if_splits)
qed

lemma run_append:
  assumes "run C xs s = Some tr" "run C ys (last tr) = Some tr'"
  shows "run C (xs @ ys) s = Some (butlast tr @ tr')"
  using assms
proof (induction xs arbitrary: s tr)
  case Nil
  then show ?case by auto
next
  case (Cons x xs)
  from Cons.prems(1) obtain s1 tr1 where s1: "exec_step C x s = Some s1"
    and tr1: "run C xs s1 = Some tr1" and tr: "tr = s # tr1"
    by (auto split: option.splits)
  have ne: "tr1 \<noteq> []" using run_nonempty[OF tr1] by simp
  then have "last tr = last tr1" using tr by simp
  with Cons.prems(2) have "run C ys (last tr1) = Some tr'" by simp
  from Cons.IH[OF tr1 this] show ?case using s1 tr ne by simp
qed

text \<open>
  Runs in which no interrupt arrives inside \<^verbatim>\<open>PollMillisecond\<close> (the machine \<open>run\<close>).
  From \<^verbatim>\<open>kStopped\<close>, \<^verbatim>\<open>ISR_MaybeChangeMode\<close> with an active mode is
  \<^verbatim>\<open>ISR_StartCalibrating\<close>: the mode becomes \<^verbatim>\<open>kEnabling\<close>, the three registers are
  written with 0, \<^verbatim>\<open>Power(false)\<close> is called and the calibration sums and counter are
  zeroed; the interrupt as a whole ends in \<^verbatim>\<open>kEnabling\<close> when the driver and the bus are
  fine. In \<^verbatim>\<open>kEnabling\<close>, \<^verbatim>\<open>PollMillisecond\<close> calls \<^verbatim>\<open>Enable(true)\<close> and sets
  \<^verbatim>\<open>kCalibrating\<close>, and a step that enters \<^verbatim>\<open>kCalibrating\<close> is this one. A step that
  enters \<^verbatim>\<open>kCalibrationComplete\<close> is an interrupt in \<^verbatim>\<open>kCalibrating\<close> whose counter
  reaches 256 and whose stored offsets are within 200 of 2048. A step that enters an
  active mode from a mode that is not active is an interrupt in
  \<^verbatim>\<open>kCalibrationComplete\<close>, and the mode entered is the commanded one; with quiet inputs
  such an interrupt does adopt the commanded mode. Along every such run that starts in
  \<^verbatim>\<open>kStopped\<close> and ends in an active mode, the modes passed through contain
  \<^verbatim>\<open>kEnabling\<close>, \<^verbatim>\<open>kCalibrating\<close>, \<^verbatim>\<open>kCalibrationComplete\<close> and the final mode, in this
  order.
\<close>

theorem unpreempted_path:
  "(mode (status s) = kStopped \<and> active m
      \<longrightarrow> ISR_MaybeChangeMode m s = Some (ISR_StartCalibrating s)
        \<and> mode (status (ISR_StartCalibrating s)) = kEnabling
        \<and> pwm1_ccr (ISR_StartCalibrating s) = 0 \<and> pwm2_ccr (ISR_StartCalibrating s) = 0
        \<and> pwm3_ccr (ISR_StartCalibrating s) = 0
        \<and> trace (ISR_StartCalibrating s)
            = trace s @ [WriteCcr 1 0, WriteCcr 2 0, WriteCcr 3 0, Power False]
        \<and> calibrate_adc1 (ISR_StartCalibrating s) = 0
        \<and> calibrate_adc2 (ISR_StartCalibrating s) = 0
        \<and> calibrate_count (ISR_StartCalibrating s) = 0)
   \<and> (mode (status s) = kStopped \<and> active (c_mode (current_data s))
       \<and> c_set_position (current_data s) = None \<and> \<not> in_driver_fault i
       \<and> real (unat (in_adc3 i)) * v_scale_V (config s) \<le> max_voltage (config s)
      \<longrightarrow> (\<exists>t. ISR_DoTimer C i s = Some t \<and> mode (status t) = kEnabling))
   \<and> (mode (status s) = kEnabling
      \<longrightarrow> PollMillisecond s
            = s\<lparr>trace := trace s @ [Enable True], status := (status s)\<lparr>mode := kCalibrating\<rparr>\<rparr>)
   \<and> (exec_step C x s = Some s' \<and> mode (status s) \<noteq> kCalibrating
       \<and> mode (status s') = kCalibrating
      \<longrightarrow> x = Poll \<and> mode (status s) = kEnabling \<and> trace s' = trace s @ [Enable True])
   \<and> (exec_step C x s = Some s' \<and> mode (status s) \<noteq> kCalibrationComplete
       \<and> mode (status s') = kCalibrationComplete
      \<longrightarrow> (\<exists>j. x = Tick j) \<and> mode (status s) = kCalibrating
          \<and> \<not> uint (calibrate_count s + 1) < 256
          \<and> \<bar>uint (adc1_offset (status s')) - 2048\<bar> \<le> 200
          \<and> \<bar>uint (adc2_offset (status s')) - 2048\<bar> \<le> 200)
   \<and> (exec_step C x s = Some s' \<and> \<not> active (mode (status s)) \<and> active (mode (status s'))
      \<longrightarrow> (\<exists>j. x = Tick j) \<and> mode (status s) = kCalibrationComplete
          \<and> mode (status s') = c_mode (current_data s))
   \<and> (mode (status s) = kCalibrationComplete \<and> active (c_mode (current_data s))
       \<and> c_set_position (current_data s) = None
       \<and> quiet (config s) (position_raw (status s)) [i]
       \<and> (c_mode (current_data s) = kPosition \<longrightarrow> 0 \<le> c_max_current (current_data s))
      \<longrightarrow> (\<exists>t. ISR_DoTimer C i s = Some t \<and> mode (status t) = c_mode (current_data s)))
   \<and> (run C xs s = Some tr \<and> mode (status s) = kStopped \<and> active (mode (status (last tr)))
      \<longrightarrow> subseq [kEnabling, kCalibrating, kCalibrationComplete, mode (status (last tr))]
            (map (mode \<circ> status) tr))"
proof -
  have P1: "ISR_MaybeChangeMode m s = Some (ISR_StartCalibrating s)
        \<and> mode (status (ISR_StartCalibrating s)) = kEnabling
        \<and> pwm1_ccr (ISR_StartCalibrating s) = 0 \<and> pwm2_ccr (ISR_StartCalibrating s) = 0
        \<and> pwm3_ccr (ISR_StartCalibrating s) = 0
        \<and> trace (ISR_StartCalibrating s)
            = trace s @ [WriteCcr 1 0, WriteCcr 2 0, WriteCcr 3 0, Power False]
        \<and> calibrate_adc1 (ISR_StartCalibrating s) = 0
        \<and> calibrate_adc2 (ISR_StartCalibrating s) = 0
        \<and> calibrate_count (ISR_StartCalibrating s) = 0"
    if "mode (status s) = kStopped" "active m"
    using MaybeChangeMode_Stopped[OF that] by (simp add: ISR_StartCalibrating_def)
  have P2: "\<exists>t. ISR_DoTimer C i s = Some t \<and> mode (status t) = kEnabling"
    if "mode (status s) = kStopped" "active (c_mode (current_data s))"
       "c_set_position (current_data s) = None" "\<not> in_driver_fault i"
       "real (unat (in_adc3 i)) * v_scale_V (config s) \<le> max_voltage (config s)"
    using begin_tick[OF that, of C] by blast
  have P3: "PollMillisecond s
            = s\<lparr>trace := trace s @ [Enable True], status := (status s)\<lparr>mode := kCalibrating\<rparr>\<rparr>"
    if "mode (status s) = kEnabling"
    using that by (simp add: PollMillisecond_def)
  note P4 = only_poll_to_calibrating[of C x s s']
  note P5 = only_calibration_completes[of C x s s']
  note P6 = only_from_complete[of C x s s']
  have P7: "\<exists>t. ISR_DoTimer C i s = Some t \<and> mode (status t) = c_mode (current_data s)"
    if "mode (status s) = kCalibrationComplete" "active (c_mode (current_data s))"
       "c_set_position (current_data s) = None"
       "quiet (config s) (position_raw (status s)) [i]"
       "c_mode (current_data s) = kPosition \<longrightarrow> 0 \<le> c_max_current (current_data s)"
    using adopt_tick[OF that, of C] by blast
  note P8 = path_through_calibration[of C xs s tr]
  show ?thesis
    apply (intro conjI impI)
    subgoal using P1 by blast
    subgoal using P1 by blast
    subgoal using P1 by blast
    subgoal using P1 by blast
    subgoal using P1 by blast
    subgoal using P1 by blast
    subgoal using P1 by blast
    subgoal using P1 by blast
    subgoal using P1 by blast
    subgoal using P2 by blast
    subgoal using P3 by blast
    subgoal using P4 by blast
    subgoal using P4 by blast
    subgoal using P4 by blast
    subgoal using P5 by blast
    subgoal using P5 by blast
    subgoal using P5 by blast
    subgoal using P5 by blast
    subgoal using P5 by blast
    subgoal using P6 by blast
    subgoal using P6 by blast
    subgoal using P6 by blast
    subgoal using P7 by blast
    subgoal using P8 by blast
    done
qed

lemma Start0_facts:
  "mode (status Start0) = kStopped" "active (c_mode (current_data Start0))"
  "c_set_position (current_data Start0) = None" "config Start0 = Config0"
  "c_mode (current_data Start0) = kCurrent"
  by (simp_all add: Start0_def example_defs active_def)

lemma Inputs0_facts:
  "\<not> in_driver_fault Inputs0" "real (unat (in_adc3 Inputs0)) * v_scale_V Config0 \<le> max_voltage Config0"
  "in_position Inputs0 = 0" "in_adc1 Inputs0 = 2048" "in_adc2 Inputs0 = 2048"
  by (simp_all add: Inputs0_def Config0_def)

lemma Steps0_run:
  "\<exists>tr. run Collab0 Steps0 Start0 = Some tr \<and> mode (status (last tr)) = kCurrent"
proof -
  from begin_tick[OF Start0_facts(1,2,3), of Inputs0 Collab0] Inputs0_facts Start0_facts(4)
  obtain t1 where t1: "ISR_DoTimer Collab0 Inputs0 Start0 = Some t1"
    "mode (status t1) = kEnabling" "calibrate_count t1 = 0" "calibrate_adc1 t1 = 0"
    "calibrate_adc2 t1 = 0" "config t1 = Config0" "current_data t1 = current_data Start0"
    "position_raw (status t1) = 0"
    by auto
  define t2 where "t2 = PollMillisecond t1"
  have t2: "mode (status t2) = kCalibrating" "unat (calibrate_count t2) = 0"
    "unat (calibrate_adc1 t2) = 0" "unat (calibrate_adc2 t2) = 0" "config t2 = Config0"
    "current_data t2 = current_data Start0" "position_raw (status t2) = 0"
    using t1 by (simp_all add: t2_def PollMillisecond_def)
  have r1: "run Collab0 [Tick Inputs0, Poll] Start0 = Some [Start0, t1, t2]"
    using t1(1) by (simp add: t2_def)
  let ?is = "replicate 256 Inputs0"
  have q: "quiet (config t2) (position_raw (status t2)) ?is"
    unfolding t2(5,7)
    by (rule quiet_replicate) (rule Inputs0_facts(1), rule Inputs0_facts(2),
        simp add: Inputs0_facts(3))
  have a: "active (c_mode (current_data t2))" "c_set_position (current_data t2) = None"
    using t2(6) Start0_facts by simp_all
  from cal_run[OF t2(1) a t2(2,3,4) _ _ _ _ q, of Collab0]
  obtain tr2 where tr2: "run Collab0 (map Tick ?is) t2 = Some tr2"
    "current_data (last tr2) = current_data t2" "config (last tr2) = config t2"
    "position_raw (status (last tr2)) = in_position (last ?is)"
    and v: "calibration_verdict (0 + (\<Sum>a\<leftarrow>?is. unat (in_adc1 a)))
             (0 + (\<Sum>a\<leftarrow>?is. unat (in_adc2 a))) (status t2) (status (last tr2))"
    by auto
  have s1: "(\<Sum>a\<leftarrow>?is. unat (in_adc1 a)) = length ?is * 2048"
    by (rule sum_list_const) (simp add: Inputs0_facts)
  have s2: "(\<Sum>a\<leftarrow>?is. unat (in_adc2 a)) = length ?is * 2048"
    by (rule sum_list_const) (simp add: Inputs0_facts)
  have cc: "mode (status (last tr2)) = kCalibrationComplete"
    using v unfolding s1 s2 by (simp add: calibration_verdict_def)
  have l: "last ?is = Inputs0" by simp
  have q3: "quiet (config (last tr2)) (position_raw (status (last tr2))) [Inputs0]"
    unfolding tr2(3,4) t2(5) l using Inputs0_facts(1,2,3) by simp
  have a3: "active (c_mode (current_data (last tr2)))"
    "c_set_position (current_data (last tr2)) = None"
    "c_mode (current_data (last tr2)) = kPosition \<longrightarrow> 0 \<le> c_max_current (current_data (last tr2))"
    using tr2(2) t2(6) Start0_facts by simp_all
  from adopt_tick[OF cc a3(1,2) q3 a3(3), of Collab0]
  obtain t4 where t4: "ISR_DoTimer Collab0 Inputs0 (last tr2) = Some t4"
    "mode (status t4) = kCurrent"
    using tr2(2) t2(6) Start0_facts(5) by auto
  have r3: "run Collab0 [Tick Inputs0] (last tr2) = Some [last tr2, t4]" using t4(1) by simp
  have l3: "last [Start0, t1, t2] = t2" by simp
  have r23: "run Collab0 (map Tick ?is @ [Tick Inputs0]) t2 = Some (butlast tr2 @ [last tr2, t4])"
    by (rule run_append[OF tr2(1) r3])
  have "run Collab0 ([Tick Inputs0, Poll] @ (map Tick ?is @ [Tick Inputs0])) Start0
          = Some (butlast [Start0, t1, t2] @ (butlast tr2 @ [last tr2, t4]))"
    by (rule run_append[OF r1]) (subst l3, rule r23)
  then show ?thesis using t4(2) by (simp add: Steps0_def)
qed

text \<open>The run \<open>Steps0\<close> from \<open>Start0\<close> returns and ends in \<^verbatim>\<open>kCurrent\<close>; its modes contain
  the three calibration modes in order.\<close>

theorem unpreempted_path_witness:
  "mode (status Start0) = kStopped \<and> active kCurrent
   \<and> ISR_MaybeChangeMode kCurrent Start0 = Some (ISR_StartCalibrating Start0)
   \<and> (\<exists>tr. run Collab0 Steps0 Start0 = Some tr \<and> mode (status (last tr)) = kCurrent
          \<and> subseq [kEnabling, kCalibrating, kCalibrationComplete, kCurrent]
               (map (mode \<circ> status) tr))"
proof -
  from Steps0_run obtain tr where tr: "run Collab0 Steps0 Start0 = Some tr"
    "mode (status (last tr)) = kCurrent" by blast
  have a: "active kCurrent" by (simp add: active_def)
  note T = unpreempted_path[of Start0 kCurrent Inputs0 Collab0 Poll Start0 Steps0 tr]
  have "subseq [kEnabling, kCalibrating, kCalibrationComplete, mode (status (last tr))]
            (map (mode \<circ> status) tr)"
    using T tr a Start0_facts(1) by simp
  moreover have "ISR_MaybeChangeMode kCurrent Start0 = Some (ISR_StartCalibrating Start0)"
    using T a Start0_facts(1) by simp
  ultimately show ?thesis using tr a Start0_facts(1) by auto
qed

text \<open>The three steps of \<^verbatim>\<open>PollMillisecond\<close> with no interrupt in between are the
  call taken whole; interrupts alone act on the controller as they do in \<open>run\<close>.\<close>

lemma poll_unpreempted:
  "mode (status s) = kEnabling \<Longrightarrow>
     prun C [PLoad, PEnable, PStore] (s, Idle)
       = Some [(s, Idle), (s, Loaded), (s\<lparr>trace := trace s @ [Enable True]\<rparr>, Enabled),
               (PollMillisecond s, Idle)]"
  "mode (status s) \<noteq> kEnabling \<Longrightarrow> prun C [PLoad] (s, Idle) = Some [(s, Idle), (PollMillisecond s, Idle)]"
  by (simp_all add: PollMillisecond_def)

lemma prun_ticks:
  "prun C (map PTick is) (s, pc) = map_option (map (\<lambda>t. (t, pc))) (run C (map Tick is) s)"
proof (induction "is" arbitrary: s)
  case Nil
  show ?case by simp
next
  case (Cons i "is")
  show ?case
  proof (cases "ISR_DoTimer C i s")
    case None
    then show ?thesis by simp
  next
    case (Some t)
    then show ?thesis using Cons.IH[of t] by (simp add: option.map_comp comp_def)
  qed
qed

lemma prun_nonempty: "prun C xs s = Some tr \<Longrightarrow> tr \<noteq> [] \<and> hd tr = s"
  by (cases xs) (auto split: option.splits)

lemma prun_append:
  assumes "prun C xs s = Some tr" "prun C ys (last tr) = Some tr'"
  shows "prun C (xs @ ys) s = Some (butlast tr @ tr')"
  using assms
proof (induction xs arbitrary: s tr)
  case Nil
  then show ?case by auto
next
  case (Cons x xs)
  from Cons.prems(1) obtain s1 tr1 where s1: "exec_pstep C x s = Some s1"
    and tr1: "prun C xs s1 = Some tr1" and tr: "tr = s # tr1"
    by (auto split: option.splits)
  have ne: "tr1 \<noteq> []" using prun_nonempty[OF tr1] by simp
  then have "last tr = last tr1" using tr by simp
  with Cons.prems(2) have "prun C ys (last tr1) = Some tr'" by simp
  from Cons.IH[OF tr1 this] show ?case using s1 tr ne by simp
qed

lemma stop_tick:
  assumes c: "c_mode (current_data s) = kStopped"
    and sp: "c_set_position (current_data s) = None"
  shows "\<exists>t. ISR_DoTimer C i s = Some t \<and> mode (status t) = kStopped
          \<and> calibrate_count t = calibrate_count s \<and> calibrate_adc1 t = calibrate_adc1 s
          \<and> calibrate_adc2 t = calibrate_adc2 s
          \<and> trace t = trace s @ [Enable False, Power False, WriteCcr 1 0, WriteCcr 2 0, WriteCcr 3 0]
          \<and> config t = config s \<and> current_data t = current_data s
          \<and> position_raw (status t) = in_position i"
proof -
  let ?s1 = "ISR_CalculateCurrentState C (ISR_DoSense C i s)"
  let ?s2 = "?s1\<lparr>control := Control_zero\<rparr>"
  have p: "DoControl_prologue ?s1 = Some ?s2" using sp by (simp add: DoControl_prologue_None)
  show ?thesis
  proof (cases "mode (status ?s1) = kStopped")
    case True
    then show ?thesis using c
      by (simp add: ISR_DoTimer_def Let_def ISR_DoControl_unfold p control_tail_def dispatch_def
          ISR_DoStopped_def)
  next
    case False
    then show ?thesis using c
      by (simp add: ISR_DoTimer_def Let_def ISR_DoControl_unfold p control_tail_def dispatch_def
          ISR_DoStopped_def)
  qed
qed

lemma race_head:
  "\<exists>tr t. prun Collab0 RaceHead0 (Impl0, Idle) = Some tr \<and> last tr = (t, Enabled)
      \<and> mode (status t) = kStopped
      \<and> calibrate_count t = 0 \<and> calibrate_adc1 t = 0 \<and> calibrate_adc2 t = 0
      \<and> config t = Config0 \<and> current_data t = Command0 \<and> position_raw (status t) = 0
      \<and> trace t = [WriteCcr 1 0, WriteCcr 2 0, WriteCcr 3 0, Power False, Enable True,
                    Enable False, Power False, WriteCcr 1 0, WriteCcr 2 0, WriteCcr 3 0]"
proof -
  define a1 where "a1 = Impl0\<lparr>current_data := Current0, next_data := current_data Impl0,
                              telemetry_data := Current0\<rparr>"
  have c1: "Command Current0 Impl0 = Some a1"
    by (simp add: Command_def a1_def Current0_def Command0_def)
  have a1: "mode (status a1) = kStopped" "active (c_mode (current_data a1))"
    "c_set_position (current_data a1) = None" "config a1 = Config0" "trace a1 = []"
    "current_data a1 = Current0"
    by (simp_all add: a1_def Current0_def example_defs active_def)
  from begin_tick[OF a1(1,2,3), of Inputs0 Collab0] Inputs0_facts a1(4,5,6)
  obtain t1 where t1: "ISR_DoTimer Collab0 Inputs0 a1 = Some t1"
    "mode (status t1) = kEnabling" "calibrate_count t1 = 0" "calibrate_adc1 t1 = 0"
    "calibrate_adc2 t1 = 0" "config t1 = Config0" "current_data t1 = Current0"
    "position_raw (status t1) = 0"
    "trace t1 = [WriteCcr 1 0, WriteCcr 2 0, WriteCcr 3 0, Power False]"
    by auto
  define a3 where "a3 = t1\<lparr>current_data := Command0, next_data := current_data t1,
                           telemetry_data := Command0\<rparr>"
  have c3: "Command Command0 t1 = Some a3" by (simp add: Command_def a3_def Command0_def)
  have a3: "mode (status a3) = kEnabling" using t1(2) by (simp add: a3_def)
  define a5 where "a5 = a3\<lparr>trace := trace a3 @ [Enable True]\<rparr>"
  have a5: "c_mode (current_data a5) = kStopped" "c_set_position (current_data a5) = None"
    "calibrate_count a5 = 0" "calibrate_adc1 a5 = 0" "calibrate_adc2 a5 = 0"
    "config a5 = Config0" "current_data a5 = Command0"
    "trace a5 = [WriteCcr 1 0, WriteCcr 2 0, WriteCcr 3 0, Power False, Enable True]"
    using t1 by (simp_all add: a5_def a3_def Command0_def)
  from stop_tick[OF a5(1,2), of Collab0 Inputs0] a5(3-8) Inputs0_facts(3)
  obtain t6 where t6: "ISR_DoTimer Collab0 Inputs0 a5 = Some t6" "mode (status t6) = kStopped"
    "calibrate_count t6 = 0" "calibrate_adc1 t6 = 0" "calibrate_adc2 t6 = 0"
    "config t6 = Config0" "current_data t6 = Command0" "position_raw (status t6) = 0"
    "trace t6 = [WriteCcr 1 0, WriteCcr 2 0, WriteCcr 3 0, Power False, Enable True,
                 Enable False, Power False, WriteCcr 1 0, WriteCcr 2 0, WriteCcr 3 0]"
    by auto
  have "prun Collab0 RaceHead0 (Impl0, Idle)
          = Some [(Impl0, Idle), (a1, Idle), (t1, Idle), (a3, Idle), (a3, Loaded), (a5, Enabled),
                  (t6, Enabled)]"
    using c1 t1(1) c3 a3 t6(1) by (simp add: RaceHead0_def a5_def)
  then show ?thesis using t6 by simp
qed

lemma race_tail:
  assumes t: "mode (status t) = kStopped"
    "calibrate_count t = 0" "calibrate_adc1 t = 0" "calibrate_adc2 t = 0"
    "config t = Config0" "position_raw (status t) = 0"
  shows "\<exists>tr. prun Collab0 RaceTail0 (t, Enabled) = Some tr
      \<and> tr ! 1 = (t\<lparr>status := (status t)\<lparr>mode := kCalibrating\<rparr>\<rparr>, Idle)
      \<and> kEnabling \<notin> set (map (mode \<circ> status \<circ> fst) tr)
      \<and> mode (status (fst (last tr))) = kCurrent"
proof -
  define a7 where "a7 = t\<lparr>status := (status t)\<lparr>mode := kCalibrating\<rparr>\<rparr>"
  define a8 where "a8 = a7\<lparr>current_data := Current0, next_data := current_data a7,
                           telemetry_data := Current0\<rparr>"
  have c8: "Command Current0 a7 = Some a8"
    by (simp add: Command_def a8_def Current0_def Command0_def)
  have a7: "mode (status a7) = kCalibrating" by (simp add: a7_def)
  have a8: "mode (status a8) = kCalibrating" "unat (calibrate_count a8) = 0"
    "unat (calibrate_adc1 a8) = 0" "unat (calibrate_adc2 a8) = 0" "config a8 = Config0"
    "current_data a8 = Current0" "position_raw (status a8) = 0"
    using t by (simp_all add: a8_def a7_def)
  have cur: "active (c_mode Current0)" "c_set_position Current0 = None"
    "c_mode Current0 = kCurrent"
    by (simp_all add: Current0_def Command0_def active_def)
  have r1: "prun Collab0 [PStore, PCmd Current0] (t, Enabled)
              = Some [(t, Enabled), (a7, Idle), (a8, Idle)]"
    using c8 by (simp add: a7_def)
  let ?is = "replicate 256 Inputs0"
  have q: "quiet (config a8) (position_raw (status a8)) ?is"
    unfolding a8(5,7)
    by (rule quiet_replicate) (rule Inputs0_facts(1), rule Inputs0_facts(2),
        simp add: Inputs0_facts(3))
  have a: "active (c_mode (current_data a8))" "c_set_position (current_data a8) = None"
    using a8(6) cur by simp_all
  from cal_run[OF a8(1) a a8(2,3,4) _ _ _ _ q, of Collab0]
  obtain tr2 where tr2: "run Collab0 (map Tick ?is) a8 = Some tr2"
    "length tr2 = 257" "\<forall>k<256. mode (status (tr2 ! k)) = kCalibrating"
    "current_data (last tr2) = current_data a8" "config (last tr2) = config a8"
    "position_raw (status (last tr2)) = in_position (last ?is)"
    and v: "calibration_verdict (0 + (\<Sum>a\<leftarrow>?is. unat (in_adc1 a)))
             (0 + (\<Sum>a\<leftarrow>?is. unat (in_adc2 a))) (status a8) (status (last tr2))"
    by auto
  have s1: "(\<Sum>a\<leftarrow>?is. unat (in_adc1 a)) = length ?is * 2048"
    by (rule sum_list_const) (simp add: Inputs0_facts)
  have s2: "(\<Sum>a\<leftarrow>?is. unat (in_adc2 a)) = length ?is * 2048"
    by (rule sum_list_const) (simp add: Inputs0_facts)
  have cc: "mode (status (last tr2)) = kCalibrationComplete"
    using v unfolding s1 s2 by (simp add: calibration_verdict_def)
  have l: "last ?is = Inputs0" by simp
  have q3: "quiet (config (last tr2)) (position_raw (status (last tr2))) [Inputs0]"
    unfolding tr2(5,6) a8(5) l using Inputs0_facts(1,2,3) by simp
  have a3: "active (c_mode (current_data (last tr2)))"
    "c_set_position (current_data (last tr2)) = None"
    "c_mode (current_data (last tr2)) = kPosition \<longrightarrow> 0 \<le> c_max_current (current_data (last tr2))"
    using tr2(4) a8(6) cur by simp_all
  from adopt_tick[OF cc a3(1,2) q3 a3(3), of Collab0]
  obtain t4 where t4: "ISR_DoTimer Collab0 Inputs0 (last tr2) = Some t4"
    "mode (status t4) = kCurrent"
    using tr2(4) a8(6) cur(3) by auto
  let ?f = "\<lambda>x. (x, Idle)"
  have ne2: "tr2 \<noteq> []" using tr2(2) by auto
  have r2: "prun Collab0 (map PTick ?is) (a8, Idle) = Some (map ?f tr2)"
    by (subst prun_ticks, subst tr2(1)) simp
  have l2: "last (map ?f tr2) = (last tr2, Idle)" using ne2 by (simp add: last_map)
  have r3: "prun Collab0 [PTick Inputs0] (last (map ?f tr2)) = Some [(last tr2, Idle), (t4, Idle)]"
    unfolding l2 using t4(1) by simp
  have r23: "prun Collab0 (map PTick ?is @ [PTick Inputs0]) (a8, Idle)
               = Some (butlast (map ?f tr2) @ [(last tr2, Idle), (t4, Idle)])"
    by (rule prun_append[OF r2 r3])
  have l1: "last [(t, Enabled), (a7, Idle), (a8, Idle)] = (a8, Idle)" by simp
  have r: "prun Collab0 ([PStore, PCmd Current0] @ (map PTick ?is @ [PTick Inputs0])) (t, Enabled)
          = Some (butlast [(t, Enabled), (a7, Idle), (a8, Idle)]
                    @ (butlast (map ?f tr2) @ [(last tr2, Idle), (t4, Idle)]))"
    by (rule prun_append[OF r1]) (subst l1, rule r23)
  define tr where "tr = [(t, Enabled), (a7, Idle)] @ butlast (map ?f tr2) @ [(last tr2, Idle), (t4, Idle)]"
  have R: "prun Collab0 RaceTail0 (t, Enabled) = Some tr"
    using r by (simp add: RaceTail0_def tr_def)
  have m2: "mode (status y) \<noteq> kEnabling" if "y \<in> set tr2" for y
  proof -
    from that obtain k where k: "k < 257" "y = tr2 ! k"
      using tr2(2) by (auto simp add: in_set_conv_nth)
    show ?thesis
    proof (cases "k < 256")
      case True
      then show ?thesis using tr2(3) k by simp
    next
      case False
      then have "k = 256" using k(1) by simp
      then have "y = last tr2" using k(2) tr2(2) ne2 by (simp add: last_conv_nth)
      then show ?thesis using cc by simp
    qed
  qed
  have m: "mode (status (fst x)) \<noteq> kEnabling" if "x \<in> set tr" for x
  proof -
    from that consider "x = (t, Enabled)" | "x = (a7, Idle)" | "x \<in> set (butlast (map ?f tr2))"
      | "x = (last tr2, Idle)" | "x = (t4, Idle)"
      by (auto simp add: tr_def)
    then show ?thesis
    proof cases
      case 3
      then have "x \<in> set (map ?f tr2)" by (rule in_set_butlastD)
      then show ?thesis using m2 by auto
    qed (simp_all add: t(1) a7 cc t4(2))
  qed
  have "kEnabling \<notin> set (map (mode \<circ> status \<circ> fst) tr)"
  proof
    assume "kEnabling \<in> set (map (mode \<circ> status \<circ> fst) tr)"
    then obtain x where "x \<in> set tr" "mode (status (fst x)) = kEnabling" by auto
    then show False using m by blast
  qed
  moreover have "tr ! 1 = (a7, Idle)" by (simp add: tr_def)
  moreover have "mode (status (fst (last tr))) = kCurrent" using t4(2) by (simp add: tr_def)
  ultimately show ?thesis using R by (simp add: a7_def)
qed

text \<open>
  C4, on the code. The claim holds of the runs in which \<^verbatim>\<open>PollMillisecond\<close> is not
  interrupted (\<open>unpreempted_path\<close>). The source does not keep the interrupt out of
  \<^verbatim>\<open>PollMillisecond\<close>, and the claim fails when one arrives between its load and its
  store. The schedule \<open>RaceHead0\<close> returns from the state after construction:
  \<^verbatim>\<open>PollMillisecond\<close> has read \<^verbatim>\<open>kEnabling\<close> and called \<^verbatim>\<open>Enable(true)\<close> when an
  interrupt adopts the pending \<^verbatim>\<open>kStopped\<close> command; the mode is \<^verbatim>\<open>kStopped\<close> and the
  interrupt has called \<^verbatim>\<open>Enable(false)\<close>. From this state the schedule \<open>RaceTail0\<close>
  returns: the store of \<^verbatim>\<open>PollMillisecond\<close> moves the mode from \<^verbatim>\<open>kStopped\<close> to
  \<^verbatim>\<open>kCalibrating\<close>, the calibration completes and the run ends in the active mode
  \<^verbatim>\<open>kCurrent\<close>. None of its states is in \<^verbatim>\<open>kEnabling\<close>, so the modes on this path from
  \<^verbatim>\<open>kStopped\<close> to \<^verbatim>\<open>kCurrent\<close> do not contain \<^verbatim>\<open>kEnabling\<close>, \<^verbatim>\<open>kCalibrating\<close>,
  \<^verbatim>\<open>kCalibrationComplete\<close> in order.
\<close>

theorem poll_store_race:
  "\<exists>tr tr'. prun Collab0 RaceHead0 (Impl0, Idle) = Some tr
      \<and> mode (status (fst (last tr))) = kStopped
      \<and> trace (fst (last tr))
          = [WriteCcr 1 0, WriteCcr 2 0, WriteCcr 3 0, Power False, Enable True,
             Enable False, Power False, WriteCcr 1 0, WriteCcr 2 0, WriteCcr 3 0]
      \<and> prun Collab0 RaceTail0 (last tr) = Some tr' \<and> hd tr' = last tr
      \<and> tr' ! 1 = ((fst (last tr))\<lparr>status := (status (fst (last tr)))\<lparr>mode := kCalibrating\<rparr>\<rparr>, Idle)
      \<and> kEnabling \<notin> set (map (mode \<circ> status \<circ> fst) tr')
      \<and> \<not> subseq [kEnabling, kCalibrating, kCalibrationComplete, kCurrent]
             (map (mode \<circ> status \<circ> fst) tr')
      \<and> mode (status (fst (last tr'))) = kCurrent \<and> active kCurrent"
proof -
  from race_head obtain tr t where h: "prun Collab0 RaceHead0 (Impl0, Idle) = Some tr"
    "last tr = (t, Enabled)" "mode (status t) = kStopped"
    "calibrate_count t = 0" "calibrate_adc1 t = 0" "calibrate_adc2 t = 0"
    "config t = Config0" "position_raw (status t) = 0"
    "trace t = [WriteCcr 1 0, WriteCcr 2 0, WriteCcr 3 0, Power False, Enable True,
                Enable False, Power False, WriteCcr 1 0, WriteCcr 2 0, WriteCcr 3 0]"
    by blast
  from race_tail[OF h(3-8)] obtain tr' where t: "prun Collab0 RaceTail0 (t, Enabled) = Some tr'"
    "tr' ! 1 = (t\<lparr>status := (status t)\<lparr>mode := kCalibrating\<rparr>\<rparr>, Idle)"
    "kEnabling \<notin> set (map (mode \<circ> status \<circ> fst) tr')"
    "mode (status (fst (last tr'))) = kCurrent"
    by blast
  have ns: "\<not> subseq [kEnabling, kCalibrating, kCalibrationComplete, kCurrent]
             (map (mode \<circ> status \<circ> fst) tr')"
  proof
    assume s: "subseq [kEnabling, kCalibrating, kCalibrationComplete, kCurrent]
             (map (mode \<circ> status \<circ> fst) tr')"
    have "kEnabling \<in> set [kEnabling, kCalibrating, kCalibrationComplete, kCurrent]" by simp
    from list_emb_set[OF s this] have "kEnabling \<in> set (map (mode \<circ> status \<circ> fst) tr')"
      by blast
    then show False using t(3) by simp
  qed
  have a: "active kCurrent" by (simp add: active_def)
  have hd: "hd tr' = (t, Enabled)" using prun_nonempty[OF t(1)] by simp
  show ?thesis
    apply (rule exI[of _ tr], rule exI[of _ tr'])
    using h(1,2,3,9) t ns a hd by simp
qed

subsection \<open>The electrical angle\<close>

lemma ceiling_minus_quarter: "\<lceil>- (1 / 4) :: real\<rceil> = 0"
  by (simp add: ceiling_eq_iff)

text \<open>What the code does guarantee: the angle lies strictly between \<open>-2\<pi>\<close> and \<open>2\<pi>\<close>, and
  it is not negative when the argument of \<^verbatim>\<open>fmodf\<close> is not negative.\<close>

lemma fmodf_one_bounds:
  "- 1 < fmodf x 1 \<and> fmodf x 1 < 1 \<and> (0 \<le> x \<longrightarrow> 0 \<le> fmodf x 1)"
proof (cases "0 \<le> x")
  case True
  have f: "fmodf x 1 = x - of_int \<lfloor>x\<rfloor>" using True by (simp add: fmodf_def trunc0_def)
  have "of_int \<lfloor>x\<rfloor> \<le> x" "x < of_int \<lfloor>x\<rfloor> + 1" by linarith+
  then show ?thesis unfolding f by (intro conjI impI) linarith+
next
  case False
  have f: "fmodf x 1 = x - of_int \<lceil>x\<rceil>" using False by (simp add: fmodf_def trunc0_def)
  have "x \<le> of_int \<lceil>x\<rceil>" "of_int \<lceil>x\<rceil> < x + 1" by linarith+
  then show ?thesis unfolding f using False by (intro conjI impI) linarith+
qed

lemma electrical_theta_bounds:
  "- (2 * pi) < electrical_theta (status (ISR_DoSense C i s))
   \<and> electrical_theta (status (ISR_DoSense C i s)) < 2 * pi
   \<and> (0 \<le> real (unat (in_position i)) / 65536 * (real_of_int (motor_poles (config s)) / 2)
             - motor_offset (config s)
        \<longrightarrow> 0 \<le> electrical_theta (status (ISR_DoSense C i s)))"
proof -
  let ?x = "real (unat (in_position i)) / 65536 * (real_of_int (motor_poles (config s)) / 2)
              - motor_offset (config s)"
  have e: "electrical_theta (status (ISR_DoSense C i s)) = 2 * pi * fmodf ?x 1"
    by (simp add: ISR_DoSense_def Let_def k2Pi_def)
  have p: "0 < 2 * pi" by simp
  from fmodf_one_bounds[of ?x]
  have b: "- 1 < fmodf ?x 1" "fmodf ?x 1 < 1" "0 \<le> ?x \<longrightarrow> 0 \<le> fmodf ?x 1" by simp_all
  have "2 * pi * (- 1) < 2 * pi * fmodf ?x 1"
    using b(1) p by (simp only: mult_less_cancel_left_pos)
  moreover have "2 * pi * fmodf ?x 1 < 2 * pi * 1"
    using b(2) p by (simp only: mult_less_cancel_left_pos)
  moreover have "0 \<le> ?x \<longrightarrow> 0 \<le> 2 * pi * fmodf ?x 1" using b(3) by simp
  ultimately show ?thesis unfolding e by simp
qed

text \<open>
  C6 says that \<^verbatim>\<open>electrical_theta\<close> lies in \<open>[0, 2\<pi>)\<close> for every sample and every
  configuration. With \<^verbatim>\<open>position_raw = 0\<close>, 14 poles and \<^verbatim>\<open>motor_offset = 0.25\<close> the
  argument of \<^verbatim>\<open>fmodf\<close> is \<open>-0.25\<close>, \<^verbatim>\<open>fmodf\<close> keeps the sign of its argument, and
  \<^verbatim>\<open>ISR_DoSense\<close> stores \<open>-\<pi>/2\<close>.
\<close>

theorem electrical_theta_negative:
  "electrical_theta (status (ISR_DoSense Collab0 Inputs0 Impl0)) = - (pi / 2)
   \<and> electrical_theta (status (ISR_DoSense Collab0 Inputs0 Impl0)) < 0"
  by (simp add: ISR_DoSense_def Let_def Impl0_def Status0_def Inputs0_def Config0_def k2Pi_def
      fmodf_def trunc0_def ceiling_minus_quarter)

end
